theory Spec2Isabelle
  imports Main "HOL-Library.Word" "HOL-Library.AList"
begin

unbundle bit_operations_syntax

section \<open>The ASL reader (kis\_asl\_reader.cpp): data model\<close>

text \<open>
  Fixed-width integers of the source are words; \<open>int\<close> of the source (32-bit, signed) is
  read off a word with \<open>sint\<close>, so a \<open>quint32\<close> passed where the callee takes \<open>int\<close>
  becomes negative from \<open>2^31\<close> on, as in the program.
\<close>

type_synonym quint8 = "8 word"
type_synonym quint16 = "16 word"
type_synonym quint32 = "32 word"
type_synonym QByteArray = "8 word list"

text \<open>A \<open>QString\<close> is a sequence of UTF-16 code units.\<close>

type_synonym QString = "16 word list"

text \<open>A string literal of the source, as a \<open>QString\<close>.\<close>

definition QStringLiteral :: "string \<Rightarrow> QString" where
  "QStringLiteral s = map of_char s"

text \<open>
  \<open>QString(const QByteArray &)\<close>: the bytes up to the first zero byte, one code unit each.
\<close>

definition QString_fromByteArray :: "QByteArray \<Rightarrow> QString" where
  "QString_fromByteArray ba = map ucast (takeWhile (\<lambda>b. b \<noteq> 0) ba)"

text \<open>
  The parse errors are all one exception type, told apart by their message.  The message of
  \<open>SAFE_READ_EX\<close> and of \<open>SAFE_READ_SIGNATURE_EX\<close> names the variable; the one of
  \<open>readStringCommon\<close> carries the two byte counts.  \<open>qFatal\<close> ends the process, and
  is no exception: nothing catches it.  A write through the null pixel pointer of an
  invalid image is a hard fault as well.
\<close>

datatype message =
    FailedToRead string
  | FailedToCheckSignature string
  | FailedToReadString int int
  | FailedToReadUnicodeString
  | Message string

datatype error = ASLParseException message | QFatal string | NullPointerWrite

type_synonym 'a result = "error + 'a"

subsection \<open>The device\<close>

text \<open>
  A \<open>QIODevice\<close> open for reading on random-access data: the bytes and the position.
  \<open>qint64 read(char *data, qint64 maxSize)\<close> gives the bytes left, at most \<open>maxSize\<close> of
  them, and moves the position past them; with a negative \<open>maxSize\<close> it reads nothing and
  returns \<open>-1\<close>.  \<open>QByteArray read(qint64 maxSize)\<close> returns the bytes themselves, none
  when \<open>maxSize\<close> is negative.  \<open>seek\<close> sets the position.
\<close>

record QIODevice =
  buffer :: "quint8 list"
  pos :: nat

definition bytesAvailable :: "QIODevice \<Rightarrow> nat" where
  "bytesAvailable device = length (buffer device) - pos device"

definition device_read :: "QIODevice \<Rightarrow> int \<Rightarrow> int \<times> QByteArray \<times> QIODevice" where
  "device_read device maxSize =
     (if maxSize < 0 then (- 1, [], device)
      else let data = take (nat maxSize) (drop (pos device) (buffer device))
           in (int (length data), data, device\<lparr>pos := pos device + length data\<rparr>))"

definition device_readAll :: "QIODevice \<Rightarrow> int \<Rightarrow> QByteArray \<times> QIODevice" where
  "device_readAll device maxSize =
     (let (n, data, device') = device_read device maxSize in (data, device'))"

definition seek :: "QIODevice \<Rightarrow> nat \<Rightarrow> QIODevice" where
  "seek device p = device\<lparr>pos := p\<rparr>"

subsection \<open>psdread\<close>

text \<open>
  Modelled from the spec: \<open>psdread\<close> (psd\_utils, not among the sources) reads a
  fixed-width integer of 1, 2, 4 or 8 bytes and fails when fewer bytes are available than
  the field requires.  The bytes are in network order, the order in which the magic
  constant \<open>0x3842534c\<close> of \<open>readFileImpl\<close> spells \<open>8BSL\<close>.  A failed read leaves
  the variable as it was and has consumed the bytes that were there.
\<close>

definition bigEndian :: "QByteArray \<Rightarrow> nat" where
  "bigEndian data = foldl (\<lambda>acc b. acc * 256 + unat b) 0 data"

definition psdread :: "nat \<Rightarrow> QIODevice \<Rightarrow> 'a::len word option \<times> QIODevice" where
  "psdread width device =
     (let (n, data, device') = device_read device (int width)
      in if n \<noteq> int width then (None, device') else (Some (of_nat (bigEndian data)), device'))"

definition psdread_quint8 :: "QIODevice \<Rightarrow> quint8 option \<times> QIODevice" where
  "psdread_quint8 = psdread 1"

definition psdread_quint16 :: "QIODevice \<Rightarrow> quint16 option \<times> QIODevice" where
  "psdread_quint16 = psdread 2"

definition psdread_quint32 :: "QIODevice \<Rightarrow> quint32 option \<times> QIODevice" where
  "psdread_quint32 = psdread 4"

definition psdread_double :: "QIODevice \<Rightarrow> 64 word option \<times> QIODevice" where
  "psdread_double = psdread 8"

text \<open>
  \<open>SAFE_READ_EX(device, varname)\<close> and \<open>SAFE_READ_SIGNATURE_EX(device, varname, expected)\<close>;
  the first argument is the overload of \<open>psdread\<close> that the type of the variable selects.
\<close>

definition SAFE_READ_EX ::
  "(QIODevice \<Rightarrow> 'a option \<times> QIODevice) \<Rightarrow> QIODevice \<Rightarrow> string \<Rightarrow> 'a result \<times> QIODevice" where
  "SAFE_READ_EX rd device varname =
     (case rd device of
        (None, device') \<Rightarrow> (Inl (ASLParseException (FailedToRead varname)), device')
      | (Some v, device') \<Rightarrow> (Inr v, device'))"

definition SAFE_READ_SIGNATURE_EX ::
  "(QIODevice \<Rightarrow> 'a option \<times> QIODevice) \<Rightarrow> QIODevice \<Rightarrow> string \<Rightarrow> 'a \<Rightarrow> 'a result \<times> QIODevice" where
  "SAFE_READ_SIGNATURE_EX rd device varname expected =
     (case rd device of
        (None, device') \<Rightarrow> (Inl (ASLParseException (FailedToCheckSignature varname)), device')
      | (Some v, device') \<Rightarrow>
          if v \<noteq> expected then (Inl (ASLParseException (FailedToCheckSignature varname)), device')
          else (Inr v, device'))"

subsection \<open>String fetch functions\<close>

definition readStringCommon :: "QIODevice \<Rightarrow> int \<Rightarrow> QString result \<times> QIODevice" where
  "readStringCommon device len =
     (let (dataRead, data, device') = device_read device len
      in if dataRead \<noteq> len
         then (Inl (ASLParseException (FailedToReadString dataRead len)), device')
         else (Inr (QString_fromByteArray data), device'))"

definition readFixedString :: "QIODevice \<Rightarrow> QString result \<times> QIODevice" where
  "readFixedString device = readStringCommon device 4"

definition readVarString :: "QIODevice \<Rightarrow> QString result \<times> QIODevice" where
  "readVarString device =
     (case SAFE_READ_EX psdread_quint32 device ''length'' of
        (Inl e, device') \<Rightarrow> (Inl e, device')
      | (Inr len, device') \<Rightarrow>
          readStringCommon device' (sint (if len = 0 then 4 else len)))"

definition readPascalString :: "QIODevice \<Rightarrow> QString result \<times> QIODevice" where
  "readPascalString device =
     (case SAFE_READ_EX psdread_quint8 device ''length'' of
        (Inl e, device') \<Rightarrow> (Inl e, device')
      | (Inr len, device') \<Rightarrow> readStringCommon device' (uint len))"


text \<open>
  Modelled from the spec: \<open>psdread_unicodestring\<close> (psd\_utils, not among the sources)
  decodes a 4-byte-counted UTF-16 string from the stream: a 4-byte count, then that many
  16-bit code units.  It fails when a read is short, and then gives no string: the
  caller's variable stays as it was.
\<close>

fun psdread_units :: "nat \<Rightarrow> QIODevice \<Rightarrow> QString \<Rightarrow> QString option \<times> QIODevice" where
  "psdread_units 0 device s = (Some s, device)"
| "psdread_units (Suc n) device s =
     (case psdread_quint16 device of
        (None, device') \<Rightarrow> (None, device')
      | (Some ch, device') \<Rightarrow> psdread_units n device' (s @ [ch]))"

definition psdread_unicodestring :: "QIODevice \<Rightarrow> QString option \<times> QIODevice" where
  "psdread_unicodestring device =
     (case psdread_quint32 device of
        (None, device') \<Rightarrow> (None, device')
      | (Some stringlen, device') \<Rightarrow> psdread_units (unat stringlen) device' [])"

definition readUnicodeString :: "QIODevice \<Rightarrow> QString result \<times> QIODevice" where
  "readUnicodeString device =
     (case psdread_unicodestring device of
        (None, device') \<Rightarrow> (Inl (ASLParseException FailedToReadUnicodeString), device')
      | (Some string, device') \<Rightarrow> (Inr string, device'))"

subsection \<open>What the reader takes from other modules\<close>

text \<open>
  A \<open>QImage\<close> of format ARGB32: its size and its pixel bytes, four to a pixel.
\<close>

record QImage =
  width :: int
  height :: int
  bits :: QByteArray

text \<open>
  The functions and constants of modules that are not among the sources are parameters of
  the reader: the number renderer of \<open>KisDomUtils\<close>, on the bits of the double and on
  the two integer types; \<open>Compression::uncompress\<close> at the kind \<open>RLE\<close>, and the two
  compression kinds the reader tests for; the three colour modes of \<open>psd.h\<close> it accepts;
  the serialisation of a \<open>KoPattern\<close> built from image, name and file name; and
  \<open>qCompress(...).toBase64()\<close>.
\<close>

record externals =
  numberToString_double :: "64 word \<Rightarrow> QString"
  numberToString_quint32 :: "quint32 \<Rightarrow> QString"
  numberToString_quint8 :: "quint8 \<Rightarrow> QString"
  Compression_uncompress :: "int \<Rightarrow> QByteArray \<Rightarrow> QByteArray"
  Compression_Uncompressed :: quint8
  Compression_RLE :: quint8
  MultiChannel :: quint32
  Grayscale :: quint32
  RGB :: quint32
  KoPattern_saveToDevice :: "QImage \<Rightarrow> QString \<Rightarrow> QString \<Rightarrow> QByteArray"
  qCompress_toBase64 :: "QByteArray \<Rightarrow> QByteArray"

subsection \<open>Numerical fetch functions\<close>

definition readDoubleAsString :: "externals \<Rightarrow> QIODevice \<Rightarrow> QString result \<times> QIODevice" where
  "readDoubleAsString ext device =
     (case SAFE_READ_EX psdread_double device ''value'' of
        (Inl e, device') \<Rightarrow> (Inl e, device')
      | (Inr v, device') \<Rightarrow> (Inr (numberToString_double ext v), device'))"

definition readIntAsString :: "externals \<Rightarrow> QIODevice \<Rightarrow> QString result \<times> QIODevice" where
  "readIntAsString ext device =
     (case SAFE_READ_EX psdread_quint32 device ''value'' of
        (Inl e, device') \<Rightarrow> (Inl e, device')
      | (Inr v, device') \<Rightarrow> (Inr (numberToString_quint32 ext v), device'))"

definition readBoolAsString :: "externals \<Rightarrow> QIODevice \<Rightarrow> QString result \<times> QIODevice" where
  "readBoolAsString ext device =
     (case SAFE_READ_EX psdread_quint8 device ''value'' of
        (Inl e, device') \<Rightarrow> (Inl e, device')
      | (Inr v, device') \<Rightarrow> (Inr (numberToString_quint8 ext v), device'))"

subsection \<open>XML generation functions\<close>

text \<open>
  The nodes of the document: an element has a tag name, attributes and children in
  order; a CDATA section has its bytes.  A \<open>QDomDocument\<close> is the list of its children:
  none for the null document, the root element otherwise.
\<close>

datatype QDomNode =
    QDomElement (tagName: string) (attributes: "(string \<times> QString) list") (childNodes: "QDomNode list")
  | QDomCDATASection QByteArray

type_synonym QDomDocument = "QDomNode list"

definition createElement :: "string \<Rightarrow> QDomNode" where
  "createElement name = QDomElement name [] []"

fun setAttribute :: "QDomNode \<Rightarrow> string \<Rightarrow> QString \<Rightarrow> QDomNode" where
  "setAttribute (QDomElement t as cs) name v = QDomElement t (AList.update name v as) cs"
| "setAttribute (QDomCDATASection d) name v = QDomCDATASection d"

fun appendChild :: "QDomNode \<Rightarrow> QDomNode \<Rightarrow> QDomNode" where
  "appendChild (QDomElement t as cs) c = QDomElement t as (cs @ [c])"
| "appendChild (QDomCDATASection d) c = QDomCDATASection d"

text \<open>
  A \<open>QDomElement\<close> of the source is a handle: after \<open>parent->appendChild(el)\<close>, what
  is set on \<open>el\<close> shows in the parent.  The element is the last child of its parent as
  long as the reader writes to it, so a write through the handle is \<open>setLastChild\<close>.
\<close>

fun setLastChild :: "QDomNode \<Rightarrow> QDomNode \<Rightarrow> QDomNode" where
  "setLastChild (QDomElement t as cs) el = QDomElement t as (butlast cs @ [el])"
| "setLastChild (QDomCDATASection d) el = QDomCDATASection d"

definition appendXMLNodeCommon ::
  "QString \<Rightarrow> QString \<Rightarrow> QString \<Rightarrow> QDomNode \<Rightarrow> QDomNode \<times> QDomNode" where
  "appendXMLNodeCommon key v type parent =
     (let el = createElement ''node'';
          el = (if key \<noteq> [] then setAttribute el ''key'' key else el);
          el = setAttribute el ''type'' type;
          el = setAttribute el ''value'' v
      in (el, appendChild parent el))"

definition appendXMLNodeCommonNoValue ::
  "QString \<Rightarrow> QString \<Rightarrow> QDomNode \<Rightarrow> QDomNode \<times> QDomNode" where
  "appendXMLNodeCommonNoValue key type parent =
     (let el = createElement ''node'';
          el = (if key \<noteq> [] then setAttribute el ''key'' key else el);
          el = setAttribute el ''type'' type
      in (el, appendChild parent el))"

definition appendIntegerXMLNode :: "QString \<Rightarrow> QString \<Rightarrow> QDomNode \<Rightarrow> QDomNode" where
  "appendIntegerXMLNode key v parent =
     snd (appendXMLNodeCommon key v (QStringLiteral ''Integer'') parent)"

definition appendDoubleXMLNode :: "QString \<Rightarrow> QString \<Rightarrow> QDomNode \<Rightarrow> QDomNode" where
  "appendDoubleXMLNode key v parent =
     snd (appendXMLNodeCommon key v (QStringLiteral ''Double'') parent)"

definition appendTextXMLNode :: "QString \<Rightarrow> QString \<Rightarrow> QDomNode \<Rightarrow> QDomNode" where
  "appendTextXMLNode key v parent =
     snd (appendXMLNodeCommon key v (QStringLiteral ''Text'') parent)"

section \<open>ASL to XML parsing functions\<close>

text \<open>
  \<open>readChildObject\<close> and \<open>readDescriptor\<close> call each other; \<open>readChildObjects\<close> is
  the loop \<open>for (quint32 i = 0; i < n; i++) readChildObject(device, &el, doc, skipKey)\<close> of
  both.  Each returns the outcome, the device and the parent element as the call leaves
  them, also when it throws: what was appended before the exception stays appended.
  A tag that no branch of \<open>readChildObject\<close> names falls through the chain.
\<close>

function readChildObject ::
    "externals \<Rightarrow> QIODevice \<Rightarrow> QDomNode \<Rightarrow> bool \<Rightarrow> unit result \<times> QIODevice \<times> QDomNode"
  and readChildObjects ::
    "externals \<Rightarrow> QIODevice \<Rightarrow> QDomNode \<Rightarrow> bool \<Rightarrow> nat \<Rightarrow> unit result \<times> QIODevice \<times> QDomNode"
  and readDescriptor ::
    "externals \<Rightarrow> QIODevice \<Rightarrow> QString \<Rightarrow> QDomNode \<Rightarrow> unit result \<times> QIODevice \<times> QDomNode"
where
  "readChildObject ext device parent skipKey =
     (case (if skipKey then (Inr [], device) else readVarString device) of
        (Inl e, device1) \<Rightarrow> (Inl e, device1, parent)
      | (Inr key, device1) \<Rightarrow>
     (case readFixedString device1 of
        (Inl e, device2) \<Rightarrow> (Inl e, device2, parent)
      | (Inr OSType, device2) \<Rightarrow>
          if OSType = QStringLiteral ''obj '' then (Inl (QFatal ''no implemented''), device2, parent)
          else if OSType = QStringLiteral ''Objc'' \<or> OSType = QStringLiteral ''GlbO'' then
            readDescriptor ext device2 key parent
          else if OSType = QStringLiteral ''VlLs'' then
            (case SAFE_READ_EX psdread_quint32 device2 ''numItems'' of
               (Inl e, device3) \<Rightarrow> (Inl e, device3, parent)
             | (Inr numItems, device3) \<Rightarrow>
                 (case appendXMLNodeCommonNoValue key (QStringLiteral ''List'') parent of
                    (el, parent') \<Rightarrow>
                 (case readChildObjects ext device3 el True (unat numItems) of
                    (r, device4, el') \<Rightarrow> (r, device4, setLastChild parent' el'))))
          else if OSType = QStringLiteral ''doub'' then
            (case readDoubleAsString ext device2 of
               (Inl e, device3) \<Rightarrow> (Inl e, device3, parent)
             | (Inr v, device3) \<Rightarrow> (Inr (), device3, appendDoubleXMLNode key v parent))
          else if OSType = QStringLiteral ''UntF'' then
            (case readFixedString device2 of
               (Inl e, device3) \<Rightarrow> (Inl e, device3, parent)
             | (Inr unit, device3) \<Rightarrow>
            (case readDoubleAsString ext device3 of
               (Inl e, device4) \<Rightarrow> (Inl e, device4, parent)
             | (Inr v, device4) \<Rightarrow>
                 (case appendXMLNodeCommon key v (QStringLiteral ''UnitFloat'') parent of
                    (el, parent') \<Rightarrow>
                      (Inr (), device4, setLastChild parent' (setAttribute el ''unit'' unit)))))
          else if OSType = QStringLiteral ''TEXT'' then
            (case readUnicodeString device2 of
               (Inl e, device3) \<Rightarrow> (Inl e, device3, parent)
             | (Inr unicodeString, device3) \<Rightarrow>
                 (Inr (), device3, appendTextXMLNode key unicodeString parent))
          else if OSType = QStringLiteral ''enum'' then
            (case readVarString device2 of
               (Inl e, device3) \<Rightarrow> (Inl e, device3, parent)
             | (Inr typeId, device3) \<Rightarrow>
            (case readVarString device3 of
               (Inl e, device4) \<Rightarrow> (Inl e, device4, parent)
             | (Inr v, device4) \<Rightarrow>
                 (case appendXMLNodeCommon key v (QStringLiteral ''Enum'') parent of
                    (el, parent') \<Rightarrow>
                      (Inr (), device4, setLastChild parent' (setAttribute el ''typeId'' typeId)))))
          else if OSType = QStringLiteral ''long'' then
            (case readIntAsString ext device2 of
               (Inl e, device3) \<Rightarrow> (Inl e, device3, parent)
             | (Inr v, device3) \<Rightarrow> (Inr (), device3, appendIntegerXMLNode key v parent))
          else if OSType = QStringLiteral ''bool'' then
            (case readBoolAsString ext device2 of
               (Inl e, device3) \<Rightarrow> (Inl e, device3, parent)
             | (Inr v, device3) \<Rightarrow>
                 (Inr (), device3, snd (appendXMLNodeCommon key v (QStringLiteral ''Boolean'') parent)))
          else if OSType = QStringLiteral ''type'' then (Inl (QFatal ''no implemented''), device2, parent)
          else if OSType = QStringLiteral ''GlbC'' then (Inl (QFatal ''no implemented''), device2, parent)
          else if OSType = QStringLiteral ''alis'' then (Inl (QFatal ''no implemented''), device2, parent)
          else if OSType = QStringLiteral ''tdta'' then (Inl (QFatal ''no implemented''), device2, parent)
          else (Inr (), device2, parent)))"
| "readChildObjects ext device el skipKey n =
     (case n of
        0 \<Rightarrow> (Inr (), device, el)
      | Suc m \<Rightarrow>
          (case readChildObject ext device el skipKey of
             (Inl e, device', el') \<Rightarrow> (Inl e, device', el')
           | (Inr u, device', el') \<Rightarrow> readChildObjects ext device' el' skipKey m))"
| "readDescriptor ext device key parent =
     (case readUnicodeString device of
        (Inl e, device1) \<Rightarrow> (Inl e, device1, parent)
      | (Inr name, device1) \<Rightarrow>
     (case readVarString device1 of
        (Inl e, device2) \<Rightarrow> (Inl e, device2, parent)
      | (Inr classId, device2) \<Rightarrow>
     (case SAFE_READ_EX psdread_quint32 device2 ''numChildren'' of
        (Inl e, device3) \<Rightarrow> (Inl e, device3, parent)
      | (Inr numChildren, device3) \<Rightarrow>
          (case appendXMLNodeCommonNoValue key (QStringLiteral ''Descriptor'') parent of
             (el, parent') \<Rightarrow>
          (case readChildObjects ext device3
                  (setAttribute (setAttribute el ''classId'' classId) ''name'' name)
                  False (unat numChildren) of
             (r, device4, el') \<Rightarrow> (r, device4, setLastChild parent' el'))))))"
  by pat_completeness auto


lemma device_read_bytes:
  "device_read d n = (k, data, d') \<Longrightarrow> bytesAvailable d' \<le> bytesAvailable d"
  by (auto simp: device_read_def bytesAvailable_def Let_def split: if_splits)

lemma device_read_full:
  "device_read d n = (n, data, d') \<Longrightarrow> bytesAvailable d' + nat n = bytesAvailable d"
  by (auto simp: device_read_def bytesAvailable_def Let_def split: if_splits)

lemma psdread_bytes:
  "psdread w d = (r, d') \<Longrightarrow> bytesAvailable d' \<le> bytesAvailable d"
  by (auto simp: psdread_def Let_def split: prod.splits if_splits dest: device_read_bytes)

lemma psdread_Some_bytes:
  "psdread w d = (Some v, d') \<Longrightarrow> bytesAvailable d' + w = bytesAvailable d"
  by (auto simp: psdread_def Let_def split: prod.splits if_splits dest: device_read_full)

lemma SAFE_READ_EX_bytes:
  "SAFE_READ_EX (psdread w) d nm = (r, d') \<Longrightarrow> bytesAvailable d' \<le> bytesAvailable d"
  by (auto simp: SAFE_READ_EX_def split: prod.splits option.splits dest: psdread_bytes)

lemma SAFE_READ_EX_Inr_bytes:
  "SAFE_READ_EX (psdread w) d nm = (Inr v, d') \<Longrightarrow> bytesAvailable d' + w = bytesAvailable d"
  by (auto simp: SAFE_READ_EX_def split: prod.splits option.splits dest: psdread_Some_bytes)

lemma readStringCommon_bytes:
  "readStringCommon d n = (r, d') \<Longrightarrow> bytesAvailable d' \<le> bytesAvailable d"
  by (auto simp: readStringCommon_def split: prod.splits if_splits dest: device_read_bytes)

lemma readFixedString_bytes:
  "readFixedString d = (r, d') \<Longrightarrow> bytesAvailable d' \<le> bytesAvailable d"
  by (auto simp: readFixedString_def dest: readStringCommon_bytes)

lemma readFixedString_Inr_bytes:
  "readFixedString d = (Inr s, d') \<Longrightarrow> bytesAvailable d' + 4 = bytesAvailable d"
  by (auto simp: readFixedString_def readStringCommon_def split: prod.splits if_splits dest: device_read_full)

lemma readVarString_bytes:
  "readVarString d = (r, d') \<Longrightarrow> bytesAvailable d' \<le> bytesAvailable d"
  unfolding readVarString_def psdread_quint32_def
  by (fastforce split: prod.splits sum.splits dest: SAFE_READ_EX_bytes readStringCommon_bytes)

lemma psdread_units_bytes:
  "psdread_units n d s = (r, d') \<Longrightarrow> bytesAvailable d' \<le> bytesAvailable d"
  by (induction n arbitrary: d s)
     (fastforce simp: psdread_quint16_def split: prod.splits option.splits dest: psdread_bytes)+

lemma readUnicodeString_bytes:
  "readUnicodeString d = (r, d') \<Longrightarrow> bytesAvailable d' \<le> bytesAvailable d"
  unfolding readUnicodeString_def psdread_unicodestring_def psdread_quint32_def
  by (fastforce split: prod.splits option.splits dest: psdread_bytes psdread_units_bytes)

lemma readDoubleAsString_bytes:
  "readDoubleAsString ext d = (r, d') \<Longrightarrow> bytesAvailable d' \<le> bytesAvailable d"
  unfolding readDoubleAsString_def psdread_double_def
  by (fastforce split: prod.splits sum.splits dest: SAFE_READ_EX_bytes)

lemma readIntAsString_bytes:
  "readIntAsString ext d = (r, d') \<Longrightarrow> bytesAvailable d' \<le> bytesAvailable d"
  unfolding readIntAsString_def psdread_quint32_def
  by (fastforce split: prod.splits sum.splits dest: SAFE_READ_EX_bytes)

lemma readBoolAsString_bytes:
  "readBoolAsString ext d = (r, d') \<Longrightarrow> bytesAvailable d' \<le> bytesAvailable d"
  unfolding readBoolAsString_def psdread_quint8_def
  by (fastforce split: prod.splits sum.splits dest: SAFE_READ_EX_bytes)



lemma SAFE_READ_EX_quint32_bytes:
  "SAFE_READ_EX psdread_quint32 d nm = (r, d') \<Longrightarrow> bytesAvailable d' \<le> bytesAvailable d"
  unfolding psdread_quint32_def by (rule SAFE_READ_EX_bytes)

lemma SAFE_READ_EX_quint32_Inr_bytes:
  "SAFE_READ_EX psdread_quint32 d nm = (Inr v, d') \<Longrightarrow> bytesAvailable d' + 4 = bytesAvailable d"
  unfolding psdread_quint32_def by (rule SAFE_READ_EX_Inr_bytes)

lemmas reader_bytes =
  readFixedString_bytes readVarString_bytes readUnicodeString_bytes readDoubleAsString_bytes
  readIntAsString_bytes readBoolAsString_bytes SAFE_READ_EX_quint32_bytes

lemma if_bytesI:
  "bytesAvailable (fst (snd a)) \<le> n \<Longrightarrow> bytesAvailable (fst (snd b)) \<le> n \<Longrightarrow>
   bytesAvailable (fst (snd (if c then a else b))) \<le> n"
  by simp

lemma readChildObject_dom_bytes:
  "readChildObject_readChildObjects_readDescriptor_dom (Inl (ext, device, parent, skipKey)) \<Longrightarrow>
     bytesAvailable (fst (snd (readChildObject ext device parent skipKey))) \<le> bytesAvailable device"
  "readChildObject_readChildObjects_readDescriptor_dom (Inr (Inl (ext, device, el, skipKey, n))) \<Longrightarrow>
     bytesAvailable (fst (snd (readChildObjects ext device el skipKey n))) \<le> bytesAvailable device"
  "readChildObject_readChildObjects_readDescriptor_dom (Inr (Inr (ext, device, key, parent))) \<Longrightarrow>
     bytesAvailable (fst (snd (readDescriptor ext device key parent))) \<le> bytesAvailable device"
proof (induct rule: readChildObject_readChildObjects_readDescriptor.pinduct)
  case (1 ext device parent skipKey)
  obtain rk d1 where k: "(if skipKey then (Inr [], device) else readVarString device) = (rk, d1)"
    by (cases "if skipKey then (Inr [], device) else readVarString device") 
  have b1: "bytesAvailable d1 \<le> bytesAvailable device"
    using k by (auto split: if_splits dest: readVarString_bytes)
  obtain rt d2 where t: "readFixedString d1 = (rt, d2)"
    by (cases "readFixedString d1")
  have b2: "bytesAvailable d2 \<le> bytesAvailable d1"
    using t by (rule readFixedString_bytes)
  note psimp = readChildObject.psimps [OF "1.hyps"(1)]
  show ?case
  proof (cases rk)
    case (Inl e)
    then show ?thesis using k b1 by (simp add: psimp)
  next
    case (Inr key)
    note rk = this
    show ?thesis
    proof (cases rt)
      case (Inl e)
      then show ?thesis using k t rk b1 b2 by (simp add: psimp)
    next
      case (Inr OSType)
      note rt = this
      note ih2 = "1.hyps"(2) [OF k [symmetric] rk t [symmetric] rt]
      note ih3 = "1.hyps"(3) [OF k [symmetric] rk t [symmetric] rt]
      have b: "bytesAvailable d2 \<le> bytesAvailable device" using b1 b2 by simp
      show ?thesis
      proof (cases "OSType = QStringLiteral ''obj ''")
        case True
        then show ?thesis using b by (simp add: psimp k rk t rt)
      next
        case nobj: False
        show ?thesis
        proof (cases "OSType = QStringLiteral ''Objc'' \<or> OSType = QStringLiteral ''GlbO''")
          case True
          have "readChildObject ext device parent skipKey = readDescriptor ext d2 key parent"
            using nobj True by (simp only: psimp k rk t rt prod.case sum.case if_True if_False)
          then show ?thesis using ih2 [OF nobj True] b by simp
        next
          case ndesc: False
          show ?thesis
          proof (cases "OSType = QStringLiteral ''VlLs''")
            case True
            have eq: "readChildObject ext device parent skipKey =
               (case SAFE_READ_EX psdread_quint32 d2 ''numItems'' of
               (Inl e, device3) \<Rightarrow> (Inl e, device3, parent)
             | (Inr numItems, device3) \<Rightarrow>
                 (case appendXMLNodeCommonNoValue key (QStringLiteral ''List'') parent of
                    (el, parent') \<Rightarrow>
                 (case readChildObjects ext device3 el True (unat numItems) of
                    (r, device4, el') \<Rightarrow> (r, device4, setLastChild parent' el'))))"
              using nobj ndesc True by (simp only: psimp k rk t rt prod.case sum.case if_True if_False simp_thms)
            obtain r3 d3 where s: "SAFE_READ_EX psdread_quint32 d2 ''numItems'' = (r3, d3)"
              by (cases "SAFE_READ_EX psdread_quint32 d2 ''numItems''")
            have b3: "bytesAvailable d3 \<le> bytesAvailable device"
              using SAFE_READ_EX_quint32_bytes [OF s] b by simp
            show ?thesis
            proof (cases r3)
              case (Inl e)
              then show ?thesis using b3 by (simp add: eq s)
            next
              case (Inr numItems)
              obtain el p' where a: "appendXMLNodeCommonNoValue key (QStringLiteral ''List'') parent = (el, p')"
                by (cases "appendXMLNodeCommonNoValue key (QStringLiteral ''List'') parent")
              have "bytesAvailable (fst (snd (readChildObjects ext d3 el True (unat numItems)))) \<le> bytesAvailable d3"
                using ih3 [OF nobj ndesc True s [symmetric] Inr a [symmetric]] .
              then show ?thesis using b3 Inr by (auto simp add: eq s a split: prod.splits)
            qed
          next
            case False
            show ?thesis
              unfolding psimp k rk t rt prod.case sum.case
              using nobj ndesc False apply (simp only: if_False)
              apply (intro if_bytesI)
              using b
              by (auto split: prod.splits sum.splits dest!: reader_bytes)
          qed
        qed
      qed
    qed
  qed
next
  case (2 ext device el skipKey n)
  show ?case
  proof (cases n)
    case 0
    show ?thesis unfolding readChildObjects.psimps [OF "2.hyps"(1)] using 0 by simp
  next
    case (Suc m)
    obtain r d' el' where c: "readChildObject ext device el skipKey = (r, d', el')"
      by (cases "readChildObject ext device el skipKey")
    have b: "bytesAvailable d' \<le> bytesAvailable device"
      using "2.hyps"(2) [OF Suc] c by simp
    show ?thesis
    proof (cases r)
      case (Inl e)
      show ?thesis unfolding readChildObjects.psimps [OF "2.hyps"(1)] using Inl b c Suc by simp
    next
      case (Inr u)
      have "bytesAvailable (fst (snd (readChildObjects ext d' el' skipKey m))) \<le> bytesAvailable d'"
        using "2.hyps"(3) [OF Suc c [symmetric] Inr refl] .
      then show ?thesis unfolding readChildObjects.psimps [OF "2.hyps"(1)] using b c Suc Inr by simp
    qed
  qed
next
  case (3 ext device key parent)
  note psimp = readDescriptor.psimps [OF "3.hyps"(1)]
  obtain r1 d1 where u: "readUnicodeString device = (r1, d1)"
    by (cases "readUnicodeString device")
  obtain r2 d2 where v: "readVarString d1 = (r2, d2)"
    by (cases "readVarString d1")
  obtain r3 d3 where s: "SAFE_READ_EX psdread_quint32 d2 ''numChildren'' = (r3, d3)"
    by (cases "SAFE_READ_EX psdread_quint32 d2 ''numChildren''")
  have b1: "bytesAvailable d1 \<le> bytesAvailable device"
    using u by (rule readUnicodeString_bytes)
  have b2: "bytesAvailable d2 \<le> bytesAvailable device"
    using readVarString_bytes [OF v] b1 by simp
  have b3: "bytesAvailable d3 \<le> bytesAvailable device"
    using SAFE_READ_EX_quint32_bytes [OF s] b2 by simp
  show ?case
  proof (cases "\<exists>name classId numChildren. r1 = Inr name \<and> r2 = Inr classId \<and> r3 = Inr numChildren")
    case False
    then show ?thesis using b1 b2 b3
      by (cases r1; cases r2; cases r3) (simp_all add: psimp u v s)
  next
    case True
    then obtain name classId numChildren
      where r: "r1 = Inr name" "r2 = Inr classId" "r3 = Inr numChildren" by blast
    obtain el p' where a: "appendXMLNodeCommonNoValue key (QStringLiteral ''Descriptor'') parent = (el, p')"
      by (cases "appendXMLNodeCommonNoValue key (QStringLiteral ''Descriptor'') parent")
    have "bytesAvailable (fst (snd (readChildObjects ext d3
             (setAttribute (setAttribute el ''classId'' classId) ''name'' name) False (unat numChildren))))
          \<le> bytesAvailable d3"
      using "3.hyps"(2) [OF u [symmetric] r(1) v [symmetric] r(2) s [symmetric] r(3) a [symmetric]] .
    then show ?thesis using b3 r by (auto simp add: psimp u v s a split: prod.splits)
  qed
qed


termination readChildObject
proof (relation "(\<lambda>x. case x of
            Inl (ext, device, parent, skipKey) \<Rightarrow> bytesAvailable device
          | Inr (Inl (ext, device, el, skipKey, n)) \<Rightarrow> bytesAvailable device
          | Inr (Inr (ext, device, key, parent)) \<Rightarrow> bytesAvailable device)
        <*mlex*> measure (\<lambda>x. case x of
            Inl (ext, device, parent, skipKey) \<Rightarrow> 0
          | Inr (Inl (ext, device, el, skipKey, n)) \<Rightarrow> Suc n
          | Inr (Inr (ext, device, key, parent)) \<Rightarrow> 0)", goal_cases)
  case 1
  show ?case by (simp add: wf_mlex)
next
  case (2 ext device parent skipKey x y b xa ya ba)
  have "bytesAvailable y \<le> bytesAvailable device"
    using 2(1) [symmetric] by (auto split: if_splits dest: readVarString_bytes)
  moreover have "bytesAvailable ya + 4 = bytesAvailable y"
    using 2(3) [symmetric] 2(4) by (auto dest: readFixedString_Inr_bytes)
  ultimately show ?case by (simp add: mlex_less)
next
  case (3 ext device parent skipKey x y b xa ya ba xb yb baa xc yc)
  have "bytesAvailable y \<le> bytesAvailable device"
    using 3(1) [symmetric] by (auto split: if_splits dest: readVarString_bytes)
  moreover have "bytesAvailable ya + 4 = bytesAvailable y"
    using 3(3) [symmetric] 3(4) by (auto dest: readFixedString_Inr_bytes)
  moreover have "bytesAvailable yb \<le> bytesAvailable ya"
    using 3(8) [symmetric] by (rule SAFE_READ_EX_quint32_bytes)
  ultimately show ?case by (simp add: mlex_less)
next
  case (4 ext device el skipKey n m)
  then show ?case by (simp add: mlex_iff)
next
  case (5 ext device el skipKey n m x y b xa ya)
  have "bytesAvailable xa \<le> bytesAvailable device"
    using readChildObject_dom_bytes(1) [OF 5(5)] 5(4) by (auto simp flip: 5(2))
  then show ?case using 5(1) by (auto simp add: mlex_iff)
next
  case (6 ext device key parent x y b xa ya ba xb yb bb xc yc)
  have "bytesAvailable y \<le> bytesAvailable device"
    using 6(1) [symmetric] by (rule readUnicodeString_bytes)
  moreover have "bytesAvailable ya \<le> bytesAvailable y"
    using 6(3) [symmetric] by (rule readVarString_bytes)
  moreover have "bytesAvailable yb + 4 = bytesAvailable ya"
    using 6(5) [symmetric] 6(6) by (auto dest: SAFE_READ_EX_quint32_Inr_bytes)
  ultimately show ?case by (simp add: mlex_less)
qed

declare readChildObject.simps [simp del] readChildObjects.simps [simp del] readDescriptor.simps [simp del]

section \<open>Patterns\<close>

subsection \<open>The offset verifier, rectangles, alignment\<close>

text \<open>
  Modelled from the spec: \<open>SETUP_OFFSET_VERIFIER(name, device, length, threshold)\<close>
  (kis\_offset\_on\_exit\_verifier.h, not among the sources) records the expected end
  offset, the position plus the declared length; when its scope is left, by return or by
  exception, and the position is not the expected end offset, it seeks the device there.
\<close>

definition SETUP_OFFSET_VERIFIER :: "QIODevice \<Rightarrow> quint32 \<Rightarrow> nat \<Rightarrow> nat" where
  "SETUP_OFFSET_VERIFIER device expectedOffset threshold = pos device + unat expectedOffset"

definition offsetVerifierExit :: "nat \<Rightarrow> QIODevice \<Rightarrow> QIODevice" where
  "offsetVerifierExit expectedPos device =
     (if pos device \<noteq> expectedPos then seek device expectedPos else device)"

text \<open>
  Modelled from the spec: \<open>KisAslWriterUtils::alignOffsetCeil\<close> (not among the sources)
  rounds a length up to the next multiple of the alignment.  \<open>readPattern\<close> stores the
  result in its \<open>quint32\<close> variable, which keeps the low 32 bits.
\<close>

definition alignOffsetCeil :: "nat \<Rightarrow> nat \<Rightarrow> nat" where
  "alignOffsetCeil p alignment = ((p + (alignment - 1)) div alignment) * alignment"

text \<open>
  \<open>QRect(int x, int y, int w, int h)\<close> keeps the corners \<open>x1, y1, x2, y2\<close>, with
  \<open>x2 = x + w - 1\<close>, and \<open>width()\<close> is \<open>x2 - x1 + 1\<close>.  The \<open>int\<close>s are 32-bit words
  read as signed; their arithmetic wraps around.
\<close>

record QRect =
  QRect_x1 :: "32 word"
  QRect_y1 :: "32 word"
  QRect_x2 :: "32 word"
  QRect_y2 :: "32 word"

definition QRect_xywh :: "32 word \<Rightarrow> 32 word \<Rightarrow> 32 word \<Rightarrow> 32 word \<Rightarrow> QRect" where
  "QRect_xywh x y w h = \<lparr>QRect_x1 = x, QRect_y1 = y, QRect_x2 = x + w - 1, QRect_y2 = y + h - 1\<rparr>"

definition QRect_width :: "QRect \<Rightarrow> 32 word" where
  "QRect_width r = QRect_x2 r - QRect_x1 r + 1"

definition QRect_height :: "QRect \<Rightarrow> 32 word" where
  "QRect_height r = QRect_y2 r - QRect_y1 r + 1"

text \<open>
  \<open>dataPlanes[plane][i]\<close> on the non-const byte array goes through \<open>QByteRef\<close>, which
  reads as \<open>0\<close> past the end of the array.
\<close>

definition QByteRef :: "QByteArray \<Rightarrow> nat \<Rightarrow> quint8" where
  "QByteRef ba i = (if i < length ba then ba ! i else 0)"

text \<open>
  \<open>QImage(size, QImage::Format_ARGB32)\<close> is a null image, with no pixel buffer, unless
  width and height are positive and the four bytes per pixel fit an \<open>int\<close>.
\<close>

definition QImage_isNull :: "int \<Rightarrow> int \<Rightarrow> bool" where
  "QImage_isNull w h = (\<not> (0 < w \<and> 0 < h \<and> 4 * w * h \<le> 2147483647))"

subsection \<open>readVirtualArrayList\<close>

text \<open>The two loops of the run-length branch: the row sizes, then the rows.\<close>

fun readRowSizes :: "nat \<Rightarrow> QIODevice \<Rightarrow> quint16 list \<Rightarrow> quint16 list result \<times> QIODevice" where
  "readRowSizes 0 device rowSizes = (Inr rowSizes, device)"
| "readRowSizes (Suc n) device rowSizes =
     (case SAFE_READ_EX psdread_quint16 device ''rowSize'' of
        (Inl e, device') \<Rightarrow> (Inl e, device')
      | (Inr rowSize, device') \<Rightarrow> readRowSizes n device' (rowSizes @ [rowSize]))"

fun readRows ::
  "externals \<Rightarrow> QRect \<Rightarrow> quint16 list \<Rightarrow> QIODevice \<Rightarrow> QByteArray \<Rightarrow> QByteArray result \<times> QIODevice" where
  "readRows ext planeRect [] device dataPlane = (Inr dataPlane, device)"
| "readRows ext planeRect (rowSize # rowSizes) device dataPlane =
     (case device_readAll device (uint rowSize) of
        (compressedData, device') \<Rightarrow>
          if int (length compressedData) \<noteq> uint rowSize
          then (Inl (ASLParseException (Message ''VAList: failed to read compressed data!'')), device')
          else
            let uncompressedData =
                  Compression_uncompress ext (sint (QRect_width planeRect)) compressedData
            in if int (length uncompressedData) \<noteq> sint (QRect_width planeRect)
               then (Inl (ASLParseException (Message ''VAList: failed to decompress data!'')), device')
               else readRows ext planeRect rowSizes device' (dataPlane @ uncompressedData))"

text \<open>
  The body of the loop over the planes, for plane \<open>i\<close>: the two flags, then the scope of
  \<open>planeEndVerifier\<close>.  \<open>readPlaneData\<close> is that scope, from \<open>pixelDepth1\<close> to
  \<open>device->seek(nextPos)\<close>.
\<close>

definition readPlaneData ::
  "externals \<Rightarrow> QIODevice \<Rightarrow> QRect \<Rightarrow> nat \<Rightarrow> QByteArray result \<times> QIODevice" where
  "readPlaneData ext device arrayRect nextPos =
     (case SAFE_READ_EX psdread_quint32 device ''pixelDepth1'' of
        (Inl e, device) \<Rightarrow> (Inl e, device)
      | (Inr pixelDepth1, device) \<Rightarrow>
     (case SAFE_READ_EX psdread_quint32 device ''y0'' of
        (Inl e, device) \<Rightarrow> (Inl e, device)
      | (Inr y0, device) \<Rightarrow>
     (case SAFE_READ_EX psdread_quint32 device ''x0'' of
        (Inl e, device) \<Rightarrow> (Inl e, device)
      | (Inr x0, device) \<Rightarrow>
     (case SAFE_READ_EX psdread_quint32 device ''y1'' of
        (Inl e, device) \<Rightarrow> (Inl e, device)
      | (Inr y1, device) \<Rightarrow>
     (case SAFE_READ_EX psdread_quint32 device ''x1'' of
        (Inl e, device) \<Rightarrow> (Inl e, device)
      | (Inr x1, device) \<Rightarrow>
          let planeRect = QRect_xywh x0 y0 (x1 - x0) (y1 - y0)
          in if planeRect \<noteq> arrayRect
             then (Inl (ASLParseException (Message ''VAList: planes are not uniform. Not supported yet!'')), device)
             else
     (case SAFE_READ_EX psdread_quint16 device ''pixelDepth2'' of
        (Inl e, device) \<Rightarrow> (Inl e, device)
      | (Inr pixelDepth2, device) \<Rightarrow>
     (case SAFE_READ_EX psdread_quint8 device ''useCompression'' of
        (Inl e, device) \<Rightarrow> (Inl e, device)
      | (Inr useCompression, device) \<Rightarrow>
          if pixelDepth1 \<noteq> ucast pixelDepth2
          then (Inl (ASLParseException (Message ''VAList: two pixel depths of the plane are not equal (it is not documented)!'')), device)
          else if pixelDepth1 \<noteq> 8
          then (Inl (ASLParseException (Message ''VAList: supported pixel depth of the plane in 8 only!'')), device)
          else
            let dataLength = sint (QRect_width planeRect * QRect_height planeRect)
            in
     (case (if useCompression = Compression_Uncompressed ext
            then (case device_readAll device dataLength of
                    (data, device) \<Rightarrow> (Inr data, device))
            else if useCompression = Compression_RLE ext
            then (let numRows = sint (QRect_height planeRect)
                  in case readRowSizes (nat numRows) device [] of
                       (Inl e, device) \<Rightarrow> (Inl e, device)
                     | (Inr rowSizes, device) \<Rightarrow> readRows ext planeRect rowSizes device [])
            else (Inl (ASLParseException (Message ''VAList: ZIP compression is not implemented yet!'')), device)) of
        (Inl e, device) \<Rightarrow> (Inl e, device)
      | (Inr dataPlane, device) \<Rightarrow>
          if int (length dataPlane) \<noteq> dataLength
          then (Inl (ASLParseException (Message ''VAList: failed to read/uncompress data plane!'')), device)
          else (Inr dataPlane, seek device nextPos)))))))))"

definition readPlane ::
  "externals \<Rightarrow> QIODevice \<Rightarrow> QRect \<Rightarrow> QByteArray list \<Rightarrow> nat
     \<Rightarrow> QByteArray list result \<times> QIODevice" where
  "readPlane ext device arrayRect dataPlanes i =
     (case psdread_quint32 device of
        (None, device) \<Rightarrow>
          (Inl (ASLParseException (Message ''VAList plane has not-written flag set!'')), device)
      | (Some arrayWritten, device) \<Rightarrow>
          if arrayWritten = 0
          then (Inl (ASLParseException (Message ''VAList plane has not-written flag set!'')), device)
          else
     (case psdread_quint32 device of
        (None, device) \<Rightarrow>
          (Inl (ASLParseException (Message ''VAList has plane length set to zero!'')), device)
      | (Some arrayPlaneLength, device) \<Rightarrow>
          if arrayPlaneLength = 0
          then (Inl (ASLParseException (Message ''VAList has plane length set to zero!'')), device)
          else
            let planeEndVerifier = SETUP_OFFSET_VERIFIER device arrayPlaneLength 0;
                nextPos = pos device + unat arrayPlaneLength
            in case readPlaneData ext device arrayRect nextPos of
                 (Inl e, device) \<Rightarrow> (Inl e, offsetVerifierExit planeEndVerifier device)
               | (Inr dataPlane, device) \<Rightarrow>
                   (Inr (dataPlanes[i := dataPlane]), offsetVerifierExit planeEndVerifier device)))"

fun readPlanes ::
  "externals \<Rightarrow> QIODevice \<Rightarrow> QRect \<Rightarrow> QByteArray list \<Rightarrow> nat list
     \<Rightarrow> QByteArray list result \<times> QIODevice" where
  "readPlanes ext device arrayRect dataPlanes [] = (Inr dataPlanes, device)"
| "readPlanes ext device arrayRect dataPlanes (i # is) =
     (case readPlane ext device arrayRect dataPlanes i of
        (Inl e, device') \<Rightarrow> (Inl e, device')
      | (Inr dataPlanes', device') \<Rightarrow> readPlanes ext device' arrayRect dataPlanes' is)"

text \<open>
  The composition of the image, lines 455 to 475: for pixel \<open>i\<close> the bytes of the planes
  \<open>qMin(numPlanes, j)\<close> for \<open>j = 2, 1, 0\<close>, then \<open>0xFF\<close>.  Writing a pixel of a null
  image is a write through a null pointer.
\<close>

definition composePixel :: "int \<Rightarrow> QByteArray list \<Rightarrow> nat \<Rightarrow> QByteArray" where
  "composePixel numPlanes dataPlanes i =
     map (\<lambda>j. QByteRef (dataPlanes ! nat (min numPlanes j)) i) [2, 1, 0] @ [0xFF]"

definition composeImage :: "int \<Rightarrow> QRect \<Rightarrow> QByteArray list \<Rightarrow> QImage result" where
  "composeImage numPlanes arrayRect dataPlanes =
     (let w = sint (QRect_width arrayRect);
          h = sint (QRect_height arrayRect);
          dataLength = sint (QRect_width arrayRect * QRect_height arrayRect)
      in if QImage_isNull w h
         then (if 0 < dataLength then Inl NullPointerWrite
               else Inr \<lparr>width = 0, height = 0, bits = []\<rparr>)
         else Inr \<lparr>width = w, height = h,
                   bits = concat (map (composePixel numPlanes dataPlanes) [0..<nat dataLength])\<rparr>)"

text \<open>The scope of \<open>vaEndVerifier\<close>, from the bounding box on.\<close>

definition readVirtualArray ::
  "externals \<Rightarrow> QIODevice \<Rightarrow> int \<Rightarrow> QImage result \<times> QIODevice" where
  "readVirtualArray ext device numPlanes =
     (case SAFE_READ_EX psdread_quint32 device ''y0'' of
        (Inl e, device) \<Rightarrow> (Inl e, device)
      | (Inr y0, device) \<Rightarrow>
     (case SAFE_READ_EX psdread_quint32 device ''x0'' of
        (Inl e, device) \<Rightarrow> (Inl e, device)
      | (Inr x0, device) \<Rightarrow>
     (case SAFE_READ_EX psdread_quint32 device ''y1'' of
        (Inl e, device) \<Rightarrow> (Inl e, device)
      | (Inr y1, device) \<Rightarrow>
     (case SAFE_READ_EX psdread_quint32 device ''x1'' of
        (Inl e, device) \<Rightarrow> (Inl e, device)
      | (Inr x1, device) \<Rightarrow>
          let arrayRect = QRect_xywh x0 y0 (x1 - x0) (y1 - y0)
          in
     (case SAFE_READ_EX psdread_quint32 device ''numberOfChannels'' of
        (Inl e, device) \<Rightarrow> (Inl e, device)
      | (Inr numberOfChannels, device) \<Rightarrow>
          if numberOfChannels \<noteq> 24
          then (Inl (ASLParseException (Message ''VAList: Krita does not support ASL files with numberOfChannels flag not equal to 24 (it is not documented)!'')), device)
          else if numPlanes \<noteq> 1 \<and> numPlanes \<noteq> 3
          then (Inl (ASLParseException (Message ''VAList: unsupported number of planes!'')), device)
          else
     (case readPlanes ext device arrayRect [[], [], []] [0..<nat numPlanes] of
        (Inl e, device) \<Rightarrow> (Inl e, device)
      | (Inr dataPlanes, device) \<Rightarrow> (composeImage numPlanes arrayRect dataPlanes, device)))))))"

definition readVirtualArrayList ::
  "externals \<Rightarrow> QIODevice \<Rightarrow> int \<Rightarrow> QImage result \<times> QIODevice" where
  "readVirtualArrayList ext device numPlanes =
     (case SAFE_READ_EX psdread_quint32 device ''arrayVersion'' of
        (Inl e, device) \<Rightarrow> (Inl e, device)
      | (Inr arrayVersion, device) \<Rightarrow>
          if arrayVersion \<noteq> 3
          then (Inl (ASLParseException (Message ''VAList version is not 3!'')), device)
          else
     (case SAFE_READ_EX psdread_quint32 device ''arrayLength'' of
        (Inl e, device) \<Rightarrow> (Inl e, device)
      | (Inr arrayLength, device) \<Rightarrow>
          let vaEndVerifier = SETUP_OFFSET_VERIFIER device arrayLength 100
          in case readVirtualArray ext device numPlanes of
               (r, device) \<Rightarrow> (r, offsetVerifierExit vaEndVerifier device)))"

subsection \<open>readPattern\<close>

text \<open>
  \<open>readPatternPayload\<close> is \<open>readPattern\<close> from the identifier string on (the lines
  after the read of the pattern name): the identifier, the number of planes of the image
  mode, the image, the XML node.  It is given the aligned \<open>patternSize\<close>, the image mode
  and the name that the first part has read.  The node is appended to the parent by the
  last statement but one, so a pattern that throws leaves the parent as it was.  The
  returned \<open>sizeof(patternSize) + patternSize\<close> is a sum in \<open>size_t\<close>, of 64 bits.
\<close>

definition readPatternPayload ::
  "externals \<Rightarrow> QIODevice \<Rightarrow> quint32 \<Rightarrow> quint32 \<Rightarrow> QString \<Rightarrow> QDomNode
     \<Rightarrow> nat result \<times> QIODevice \<times> QDomNode" where
  "readPatternPayload ext device patternSize patternImageMode patternName parent =
     (case readPascalString device of
        (Inl e, device) \<Rightarrow> (Inl e, device, parent)
      | (Inr patternUuid, device) \<Rightarrow>
     (case (if patternImageMode = MultiChannel ext \<or> patternImageMode = Grayscale ext then Inr 1
            else if patternImageMode = RGB ext then Inr 3
            else Inl (ASLParseException (Message ''Unsupported image mode''))) of
        Inl e \<Rightarrow> (Inl e, device, parent)
      | Inr numPlanes \<Rightarrow>
          let pat = createElement ''node'';
              pat = setAttribute pat ''classId'' (QStringLiteral ''KisPattern'');
              pat = setAttribute pat ''type'' (QStringLiteral ''Descriptor'');
              pat = setAttribute pat ''name'' [];
              fileName = patternUuid @ QStringLiteral ''.pat''
          in
     (case readVirtualArrayList ext device numPlanes of
        (Inl e, device) \<Rightarrow> (Inl e, device, parent)
      | (Inr patternImage, device) \<Rightarrow>
          let patternBuf = KoPattern_saveToDevice ext patternImage patternName fileName;
              pat = appendTextXMLNode (QStringLiteral ''Nm  '') patternName pat;
              pat = appendTextXMLNode (QStringLiteral ''Idnt'') patternUuid pat;
              dataSection = QDomCDATASection (qCompress_toBase64 ext patternBuf);
              dataElement = createElement ''node'';
              dataElement = setAttribute dataElement ''type'' (QStringLiteral ''KisPatternData'');
              dataElement = setAttribute dataElement ''key'' (QStringLiteral ''Data'');
              dataElement = appendChild dataElement dataSection;
              pat = appendChild pat dataElement
          in (Inr (4 + unat patternSize), device, appendChild parent pat))))"

definition readPattern ::
  "externals \<Rightarrow> QIODevice \<Rightarrow> QDomNode \<Rightarrow> nat result \<times> QIODevice \<times> QDomNode" where
  "readPattern ext device parent =
     (case SAFE_READ_EX psdread_quint32 device ''patternSize'' of
        (Inl e, device) \<Rightarrow> (Inl e, device, parent)
      | (Inr patternSize, device) \<Rightarrow>
          let patternSize = (of_nat (alignOffsetCeil (unat patternSize) 4) :: quint32);
              patternEndVerifier = SETUP_OFFSET_VERIFIER device patternSize 0
          in
     (case
       (case SAFE_READ_EX psdread_quint32 device ''patternVersion'' of
          (Inl e, device) \<Rightarrow> (Inl e, device, parent)
        | (Inr patternVersion, device) \<Rightarrow>
            if patternVersion \<noteq> 1
            then (Inl (ASLParseException (Message ''Pattern version is not 1'')), device, parent)
            else
       (case SAFE_READ_EX psdread_quint32 device ''patternImageMode'' of
          (Inl e, device) \<Rightarrow> (Inl e, device, parent)
        | (Inr patternImageMode, device) \<Rightarrow>
       (case SAFE_READ_EX psdread_quint16 device ''patternHeight'' of
          (Inl e, device) \<Rightarrow> (Inl e, device, parent)
        | (Inr patternHeight, device) \<Rightarrow>
       (case SAFE_READ_EX psdread_quint16 device ''patternWidth'' of
          (Inl e, device) \<Rightarrow> (Inl e, device, parent)
        | (Inr patternWidth, device) \<Rightarrow>
       (case psdread_unicodestring device of
          (r, device) \<Rightarrow>
            let patternName = (case r of None \<Rightarrow> [] | Some s \<Rightarrow> s)
            in readPatternPayload ext device patternSize patternImageMode patternName parent)))))
      of (r, device, parent) \<Rightarrow> (r, offsetVerifierExit patternEndVerifier device, parent)))"

lemma readPatternPayload_chunk:
  "readPatternPayload ext device patternSize mode name parent = (Inr chunk, device', parent') \<Longrightarrow>
   chunk = 4 + unat patternSize"
  unfolding readPatternPayload_def Let_def
  by (auto split: prod.splits sum.splits if_splits)

lemma readPattern_chunk:
  "readPattern ext device parent = (Inr chunk, device', parent') \<Longrightarrow> 4 \<le> chunk"
  unfolding readPattern_def Let_def
  by (auto split: prod.splits sum.splits if_splits dest!: readPatternPayload_chunk)

subsection \<open>readFileImpl and readFile\<close>

text \<open>
  The loop \<open>while (bytesRead < patternsSize)\<close> of the patterns section; \<open>bytesRead\<close> is a
  \<open>qint64\<close>, which the sum of the chunks does not overflow.
\<close>

function readPatterns ::
  "externals \<Rightarrow> QIODevice \<Rightarrow> QDomNode \<Rightarrow> nat \<Rightarrow> nat \<Rightarrow> unit result \<times> QIODevice \<times> QDomNode" where
  "readPatterns ext device patternsRoot bytesRead patternsSize =
     (if bytesRead < patternsSize
      then (case readPattern ext device patternsRoot of
              (Inl e, device', patternsRoot') \<Rightarrow> (Inl e, device', patternsRoot')
            | (Inr chunk, device', patternsRoot') \<Rightarrow>
                readPatterns ext device' patternsRoot' (bytesRead + chunk) patternsSize)
      else (Inr (), device, patternsRoot))"
  by pat_completeness auto
termination
proof (relation "measure (\<lambda>(ext, device, patternsRoot, bytesRead, patternsSize). patternsSize - bytesRead)",
    goal_cases)
  case 1
  show ?case by simp
next
  case (2 ext device patternsRoot bytesRead patternsSize x y b xa ya)
  have "4 \<le> b"
    using 2(2) [symmetric] 2(3,4) by (auto dest: readPattern_chunk)
  then show ?case using 2(1) by simp
qed

declare readPatterns.simps [simp del]

text \<open>
  The state of that loop after its first \<open>k\<close> iterations, the device, \<open>patternsRoot\<close>
  and \<open>bytesRead\<close>, when the loop makes that many and none of them throws.
\<close>

fun patternsLoopAfter ::
  "externals \<Rightarrow> nat \<Rightarrow> nat \<Rightarrow> QIODevice \<Rightarrow> QDomNode \<Rightarrow> nat \<Rightarrow> (QIODevice \<times> QDomNode \<times> nat) option" where
  "patternsLoopAfter ext patternsSize 0 device patternsRoot bytesRead =
     Some (device, patternsRoot, bytesRead)"
| "patternsLoopAfter ext patternsSize (Suc k) device patternsRoot bytesRead =
     (if bytesRead < patternsSize
      then (case readPattern ext device patternsRoot of
              (Inl e, device', patternsRoot') \<Rightarrow> None
            | (Inr chunk, device', patternsRoot') \<Rightarrow>
                patternsLoopAfter ext patternsSize k device' patternsRoot' (bytesRead + chunk))
      else None)"

text \<open>
  The block of the patterns section in \<open>readFileImpl\<close>.  The \<open>catch\<close> takes an
  \<open>ASLParseException\<close> and nothing else; after \<open>qFatal\<close> or a fault there is no
  process left to leave the scope.
\<close>

definition readPatternsSection ::
  "externals \<Rightarrow> QIODevice \<Rightarrow> QDomNode \<Rightarrow> unit result \<times> QIODevice \<times> QDomNode" where
  "readPatternsSection ext device root =
     (case SAFE_READ_EX psdread_quint32 device ''patternsSize'' of
        (Inl e, device) \<Rightarrow> (Inl e, device, root)
      | (Inr patternsSize, device) \<Rightarrow>
          if 0 < patternsSize then
            let patternsSectionVerifier = SETUP_OFFSET_VERIFIER device patternsSize 0;
                patternsRoot = createElement ''node'';
                patternsRoot = setAttribute patternsRoot ''type'' (QStringLiteral ''List'');
                patternsRoot = setAttribute patternsRoot ''key'' (QStringLiteral ''Patterns'');
                root = appendChild root patternsRoot
            in case readPatterns ext device patternsRoot 0 (unat patternsSize) of
                 (Inr u, device, patternsRoot) \<Rightarrow>
                   (Inr (), offsetVerifierExit patternsSectionVerifier device,
                    setLastChild root patternsRoot)
               | (Inl (ASLParseException e), device, patternsRoot) \<Rightarrow>
                   (Inr (), offsetVerifierExit patternsSectionVerifier device,
                    setLastChild root patternsRoot)
               | (Inl e, device, patternsRoot) \<Rightarrow>
                   (Inl e, device, setLastChild root patternsRoot)
          else (Inr (), device, root))"

text \<open>
  The part of \<open>readFileImpl\<close> under its comment \<open>Styles\<close>: the two counts, which are
  read and not used, and twice the format version and a descriptor under the root.
\<close>

definition readStyles ::
  "externals \<Rightarrow> QIODevice \<Rightarrow> QDomNode \<Rightarrow> unit result \<times> QIODevice \<times> QDomNode" where
  "readStyles ext device root =
     (case SAFE_READ_EX psdread_quint32 device ''numStyles'' of
        (Inl e, device) \<Rightarrow> (Inl e, device, root)
      | (Inr numStyles, device) \<Rightarrow>
     (case SAFE_READ_EX psdread_quint32 device ''bytesToRead'' of
        (Inl e, device) \<Rightarrow> (Inl e, device, root)
      | (Inr bytesToRead, device) \<Rightarrow>
     (case SAFE_READ_SIGNATURE_EX psdread_quint32 device ''stylesFormatVersion'' 16 of
        (Inl e, device) \<Rightarrow> (Inl e, device, root)
      | (Inr stylesFormatVersion, device) \<Rightarrow>
     (case readDescriptor ext device [] root of
        (Inl e, device, root) \<Rightarrow> (Inl e, device, root)
      | (Inr u, device, root) \<Rightarrow>
     (case SAFE_READ_SIGNATURE_EX psdread_quint32 device ''stylesFormatVersion'' 16 of
        (Inl e, device) \<Rightarrow> (Inl e, device, root)
      | (Inr stylesFormatVersion, device) \<Rightarrow> readDescriptor ext device [] root)))))"

text \<open>
  \<open>readFileImpl\<close> returns its outcome, the device, and its local document as it is when
  the function returns or throws.
\<close>

definition readFileImpl ::
  "externals \<Rightarrow> QIODevice \<Rightarrow> unit result \<times> QIODevice \<times> QDomDocument" where
  "readFileImpl ext device =
     (let root = createElement ''asl'' in
      case SAFE_READ_SIGNATURE_EX psdread_quint16 device ''stylesVersion'' 2 of
        (Inl e, device) \<Rightarrow> (Inl e, device, [root])
      | (Inr stylesVersion, device) \<Rightarrow>
     (case SAFE_READ_SIGNATURE_EX psdread_quint32 device ''aslSignature'' 0x3842534c of
        (Inl e, device) \<Rightarrow> (Inl e, device, [root])
      | (Inr aslSignature, device) \<Rightarrow>
     (case SAFE_READ_SIGNATURE_EX psdread_quint16 device ''patternsVersion'' 3 of
        (Inl e, device) \<Rightarrow> (Inl e, device, [root])
      | (Inr patternsVersion, device) \<Rightarrow>
     (case readPatternsSection ext device root of
        (Inl e, device, root) \<Rightarrow> (Inl e, device, [root])
      | (Inr u, device, root) \<Rightarrow>
          (case readStyles ext device root of
             (r, device, root) \<Rightarrow> (r, device, [root]))))))"

text \<open>
  \<open>KisAslReader::readFile\<close>: its own document is assigned only when \<open>readFileImpl\<close>
  returns; the \<open>catch\<close> takes an \<open>ASLParseException\<close> and nothing else.
\<close>

definition readFile :: "externals \<Rightarrow> QIODevice \<Rightarrow> QDomDocument result \<times> QIODevice" where
  "readFile ext device =
     (case readFileImpl ext device of
        (Inr u, device, doc) \<Rightarrow> (Inr doc, device)
      | (Inl (ASLParseException e), device, doc) \<Rightarrow> (Inr [], device)
      | (Inl e, device, doc) \<Rightarrow> (Inl e, device))"

subsection \<open>Reading a document\<close>

text \<open>The type of a node (its attribute \<open>type\<close>), and a node without its children.\<close>

definition nodeType :: "QDomNode \<Rightarrow> QString option" where
  "nodeType n = (case n of QDomElement t as cs \<Rightarrow> map_of as ''type'' | QDomCDATASection d \<Rightarrow> None)"

fun nodeHead :: "QDomNode \<Rightarrow> string \<times> (string \<times> QString) list + QByteArray" where
  "nodeHead (QDomElement t as cs) = Inl (t, as)"
| "nodeHead (QDomCDATASection d) = Inr d"

text \<open>
  An instance of the parameters, for the examples: the colour modes and compression kinds
  as the PSD format numbers them, the renderers and the serialisation trivial.
\<close>

definition example_externals :: externals where
  "example_externals =
     \<lparr>numberToString_double = (\<lambda>v. []),
      numberToString_quint32 = (\<lambda>v. []),
      numberToString_quint8 = (\<lambda>v. []),
      Compression_uncompress = (\<lambda>n data. data),
      Compression_Uncompressed = 0,
      Compression_RLE = 1,
      MultiChannel = 7,
      Grayscale = 1,
      RGB = 3,
      KoPattern_saveToDevice = (\<lambda>image name fileName. bits image),
      qCompress_toBase64 = (\<lambda>data. data)\<rparr>"

text \<open>
  A pattern record after its length prefix: version 1, grayscale, 1 by 1, named \<open>A\<close>,
  identifier \<open>u\<close>, and a virtual-array list with one uncompressed plane, the byte 9.
  It is 80 bytes long.  Then the header of a container up to the patterns version, and an
  empty descriptor: no name, the class identifier \<open>null\<close>, no children.
\<close>

definition example_pattern :: QByteArray where
  "example_pattern =
     [0,0,0,1, 0,0,0,1, 0,1, 0,1, 0,0,0,1, 0,0x41, 1,0x75,
      0,0,0,3, 0,0,0,52, 0,0,0,0, 0,0,0,0, 0,0,0,1, 0,0,0,1, 0,0,0,24,
      0,0,0,1, 0,0,0,24, 0,0,0,8, 0,0,0,0, 0,0,0,0, 0,0,0,1, 0,0,0,1, 0,8, 0, 9]"

definition example_header :: QByteArray where
  "example_header = [0,2, 0x38,0x42,0x53,0x4c, 0,3]"

definition example_descriptor :: QByteArray where
  "example_descriptor = [0,0,0,0, 0,0,0,0, 0x6e,0x75,0x6c,0x6c, 0,0,0,0]"

section \<open>Properties\<close>

lemmas reader_defs =
  SAFE_READ_EX_def SAFE_READ_SIGNATURE_EX_def psdread_quint8_def psdread_quint16_def
  psdread_quint32_def psdread_double_def psdread_def device_read_def device_readAll_def
  bigEndian_def Let_def readStringCommon_def readFixedString_def readVarString_def
  readPascalString_def QString_fromByteArray_def QStringLiteral_def seek_def

lemma sint_quint32:
  fixes n :: quint32
  assumes "unat n < 2 ^ 31"
  shows "sint n = int (unat n)"
proof -
  have "int (unat n) < int (2 ^ 31)"
    using assms by (simp only: of_nat_less_iff)
  then have "int (unat n) < 2 ^ 31"
    by simp
  moreover have "0 \<le> int (unat n)"
    by simp
  ultimately have "- (2 ^ 31) \<le> int (unat n) \<and> int (unat n) < 2 ^ 31"
    by linarith
  then have s: "signed_take_bit 31 (int (unat n)) = int (unat n)"
    by (simp only: signed_take_bit_int_eq_self_iff)
  have "sint n = signed_take_bit 31 (uint n)"
    by (simp add: sint_uint)
  also have "uint n = int (unat n)"
    by (rule uint_nat)
  finally show ?thesis
    using s by simp
qed

lemma readStringCommon_nonneg:
  "readStringCommon d (int len) =
     (if len \<le> bytesAvailable d
      then (Inr (QString_fromByteArray (take len (drop (pos d) (buffer d)))), d\<lparr>pos := pos d + len\<rparr>)
      else (Inl (ASLParseException (FailedToReadString (int (bytesAvailable d)) (int len))),
            d\<lparr>pos := pos d + bytesAvailable d\<rparr>))"
  by (auto simp: readStringCommon_def device_read_def bytesAvailable_def Let_def min_def)

subsection \<open>Variable-length strings\<close>

text \<open>
  C9, as amended.  When the 4-byte length prefix \<open>n\<close> of a variable-length string is
  below \<open>2^31\<close>, \<open>readVarString\<close> reads exactly \<open>n\<close> bytes of payload, and exactly 4
  when \<open>n\<close> is 0: with that many bytes available the string is those bytes and the
  position has moved past them; with fewer, the outcome is the parse error of
  \<open>readStringCommon\<close>.
\<close>

theorem readVarString_payload:
  assumes "psdread_quint32 device = (Some n, d)" and "unat n < 2 ^ 31"
  shows "readVarString device =
     (let len = (if n = 0 then 4 else unat n) in
      if len \<le> bytesAvailable d
      then (Inr (QString_fromByteArray (take len (drop (pos d) (buffer d)))), d\<lparr>pos := pos d + len\<rparr>)
      else (Inl (ASLParseException (FailedToReadString (int (bytesAvailable d)) (int len))),
            d\<lparr>pos := pos d + bytesAvailable d\<rparr>))"
proof (cases "n = 0")
  case True
  have e: "readVarString device = readStringCommon d (int 4)"
    using assms(1) True by (simp add: readVarString_def SAFE_READ_EX_def)
  show ?thesis
    by (simp only: e readStringCommon_nonneg True Let_def simp_thms if_True)
next
  case False
  have e: "readVarString device = readStringCommon d (int (unat n))"
    using assms False by (simp add: readVarString_def SAFE_READ_EX_def sint_quint32)
  show ?thesis
    by (simp only: e readStringCommon_nonneg False Let_def simp_thms if_False)
qed

theorem readVarString_payload_witness:
  "readVarString \<lparr>buffer = [0, 0, 0, 0, 1, 2, 3, 4, 5], pos = 0\<rparr> =
     (Inr [1, 2, 3, 4], \<lparr>buffer = [0, 0, 0, 0, 1, 2, 3, 4, 5], pos = 8\<rparr>)
   \<and> readVarString \<lparr>buffer = [0, 0, 0, 2, 7, 8, 9], pos = 0\<rparr> =
     (Inr [7, 8], \<lparr>buffer = [0, 0, 0, 2, 7, 8, 9], pos = 6\<rparr>)
   \<and> readVarString \<lparr>buffer = [0, 0, 0, 2, 7], pos = 0\<rparr> =
     (Inl (ASLParseException (FailedToReadString 1 2)), \<lparr>buffer = [0, 0, 0, 2, 7], pos = 5\<rparr>)"
proof -
  have h1: "psdread_quint32 \<lparr>buffer = [0, 0, 0, 0, 1, 2, 3, 4, 5], pos = 0\<rparr> =
      (Some 0, \<lparr>buffer = [0, 0, 0, 0, 1, 2, 3, 4, 5], pos = 4\<rparr>)"
    by (simp add: reader_defs)
  have h2: "psdread_quint32 \<lparr>buffer = [0, 0, 0, 2, 7, 8, 9], pos = 0\<rparr> =
      (Some 2, \<lparr>buffer = [0, 0, 0, 2, 7, 8, 9], pos = 4\<rparr>)"
    by (simp add: reader_defs)
  have h3: "psdread_quint32 \<lparr>buffer = [0, 0, 0, 2, 7], pos = 0\<rparr> =
      (Some 2, \<lparr>buffer = [0, 0, 0, 2, 7], pos = 4\<rparr>)"
    by (simp add: reader_defs)
  show ?thesis
    using readVarString_payload [OF h1] readVarString_payload [OF h2] readVarString_payload [OF h3]
    by (simp add: bytesAvailable_def QString_fromByteArray_def)
qed

text \<open>
  The claim as stated fails at the prefix \<open>0xFFFFFFFF\<close>: the length is passed as an
  \<open>int\<close>, \<open>-1\<close>, the read of \<open>-1\<close> bytes returns \<open>-1\<close>, which equals the length, and
  the string is read as empty with no payload byte consumed and no parse error.
\<close>

theorem readVarString_prefix_counterexample:
  "psdread_quint32 \<lparr>buffer = [0xFF, 0xFF, 0xFF, 0xFF], pos = 0\<rparr> =
     (Some 4294967295, \<lparr>buffer = [0xFF, 0xFF, 0xFF, 0xFF], pos = 4\<rparr>)
   \<and> readVarString \<lparr>buffer = [0xFF, 0xFF, 0xFF, 0xFF], pos = 0\<rparr> =
     (Inr [], \<lparr>buffer = [0xFF, 0xFF, 0xFF, 0xFF], pos = 4\<rparr>)"
  by (simp add: reader_defs)

subsection \<open>Composition of a single-plane image\<close>

text \<open>
  C1.  The virtual-array list of the claim: version 3, bounding box \<open>(0, 0, 2, 4)\<close>, so
  width 4 and height 2, 24 channels, one plane of depth 8 with the uncompressed bytes
  \<open>10, 20, ..., 80\<close>, decoded with \<open>numPlanes = 1\<close>.  The claim wants the bytes of
  every pixel, in the order blue, green, red, alpha of the buffer, to be \<open>b, b, b, 255\<close>
  for its source byte \<open>b\<close>.  The program takes blue and green from plane
  \<open>qMin(1, 2) = qMin(1, 1) = 1\<close>, which is empty, and red from plane 0: the bytes are
  \<open>0, 0, b, 255\<close>.
\<close>

theorem readVirtualArrayList_single_plane:
  "fst (readVirtualArrayList ext
     \<lparr>buffer = [0,0,0,3, 0,0,0,59, 0,0,0,0, 0,0,0,0, 0,0,0,2, 0,0,0,4, 0,0,0,24,
                0,0,0,1, 0,0,0,31, 0,0,0,8, 0,0,0,0, 0,0,0,0, 0,0,0,2, 0,0,0,4, 0,8,
                Compression_Uncompressed ext, 10, 20, 30, 40, 50, 60, 70, 80],
      pos = 0\<rparr> 1) =
   Inr \<lparr>width = 4, height = 2,
        bits = [0, 0, 10, 255, 0, 0, 20, 255, 0, 0, 30, 255, 0, 0, 40, 255,
                0, 0, 50, 255, 0, 0, 60, 255, 0, 0, 70, 255, 0, 0, 80, 255]\<rparr>"
  by (simp add: readVirtualArrayList_def readVirtualArray_def readPlane_def readPlaneData_def
      composeImage_def composePixel_def reader_defs SETUP_OFFSET_VERIFIER_def
      offsetVerifierExit_def QRect_xywh_def QRect_width_def QRect_height_def QImage_isNull_def
      QByteRef_def upt_rec)

subsection \<open>Tags that no branch names\<close>

text \<open>
  C2.  The tag \<open>abcd\<close> is none of the nine decoded tags and none of the five that end in
  \<open>qFatal\<close>: \<open>readChildObject\<close> returns normally, having consumed the tag, and the
  parent is as it was.  The claim wants a fatal decode error there.
\<close>

theorem readChildObject_unknown_tag:
  "readChildObject ext \<lparr>buffer = [0x61, 0x62, 0x63, 0x64], pos = 0\<rparr> parent True =
     (Inr (), \<lparr>buffer = [0x61, 0x62, 0x63, 0x64], pos = 4\<rparr>, parent)"
  by (simp add: readChildObject.simps reader_defs)

subsection \<open>A container without patterns\<close>

lemma nodeHead_appendChild [simp]: "nodeHead (appendChild p c) = nodeHead p"
  by (cases p) simp_all

lemma nodeHead_setLastChild [simp]: "nodeHead (setLastChild p c) = nodeHead p"
  by (cases p) simp_all

lemma nodeHead_appendXMLNodeCommon [simp]:
  "nodeHead (snd (appendXMLNodeCommon key v type p)) = nodeHead p"
  by (simp add: appendXMLNodeCommon_def Let_def)

lemma nodeHead_appendXMLNodeCommonNoValue [simp]:
  "nodeHead (snd (appendXMLNodeCommonNoValue key type p)) = nodeHead p"
  by (simp add: appendXMLNodeCommonNoValue_def Let_def)

lemma nodeHead_appendNodes [simp]:
  "nodeHead (appendIntegerXMLNode key v p) = nodeHead p"
  "nodeHead (appendDoubleXMLNode key v p) = nodeHead p"
  "nodeHead (appendTextXMLNode key v p) = nodeHead p"
  by (simp_all add: appendIntegerXMLNode_def appendDoubleXMLNode_def appendTextXMLNode_def)

lemma nodeHead_appendXMLNodeCommon_eq:
  "appendXMLNodeCommon key v type p = (el, p') \<Longrightarrow> nodeHead p' = nodeHead p"
  using nodeHead_appendXMLNodeCommon [of key v type p] by simp

lemma nodeHead_appendXMLNodeCommonNoValue_eq:
  "appendXMLNodeCommonNoValue key type p = (el, p') \<Longrightarrow> nodeHead p' = nodeHead p"
  using nodeHead_appendXMLNodeCommonNoValue [of key type p] by simp

lemma readDescriptor_head:
  "nodeHead (snd (snd (readDescriptor ext device key parent))) = nodeHead parent"
  by (auto simp add: readDescriptor.simps split: prod.splits sum.splits
      dest: nodeHead_appendXMLNodeCommonNoValue_eq)

lemma if_headI:
  "nodeHead (snd (snd a)) = h \<Longrightarrow> nodeHead (snd (snd b)) = h \<Longrightarrow>
   nodeHead (snd (snd (if c then a else b))) = h"
  by simp

lemma readChildObject_head:
  "nodeHead (snd (snd (readChildObject ext device parent skipKey))) = nodeHead parent"
proof -
  obtain rk d1 where k: "(if skipKey then (Inr [], device) else readVarString device) = (rk, d1)"
    by (cases "if skipKey then (Inr [], device) else readVarString device")
  obtain rt d2 where t: "readFixedString d1 = (rt, d2)"
    by (cases "readFixedString d1")
  show ?thesis
  proof (cases rk)
    case (Inl e)
    then show ?thesis by (simp add: readChildObject.simps k)
  next
    case rk: (Inr key)
    show ?thesis
    proof (cases rt)
      case (Inl e)
      then show ?thesis by (simp add: readChildObject.simps k rk t)
    next
      case rt: (Inr OSType)
      show ?thesis
        unfolding readChildObject.simps [of ext device parent skipKey] k rk t rt prod.case sum.case
        by (intro if_headI)
          (auto simp add: readDescriptor_head split: prod.splits sum.splits
            dest: nodeHead_appendXMLNodeCommonNoValue_eq nodeHead_appendXMLNodeCommon_eq)
    qed
  qed
qed

lemma readChildObjects_head:
  "nodeHead (snd (snd (readChildObjects ext device el skipKey n))) = nodeHead el"
proof (induction n arbitrary: device el)
  case 0
  show ?case by (simp add: readChildObjects.simps)
next
  case (Suc n)
  obtain r d' el' where c: "readChildObject ext device el skipKey = (r, d', el')"
    by (cases "readChildObject ext device el skipKey")
  have h: "nodeHead el' = nodeHead el"
    using readChildObject_head [of ext device el skipKey] c by simp
  show ?case
    using Suc.IH [of d' el'] h
    by (cases r) (simp_all add: readChildObjects.simps [of _ _ _ _ "Suc n"] c)
qed

lemma readDescriptor_appends:
  assumes "readDescriptor ext device key (QDomElement t as cs) = (Inr u, device', parent')"
  shows "\<exists>c. parent' = QDomElement t as (cs @ [c]) \<and> nodeType c = Some (QStringLiteral ''Descriptor'')"
proof -
  obtain name d1 where u: "readUnicodeString device = (Inr name, d1)"
    using assms by (auto simp: readDescriptor.simps split: prod.splits sum.splits)
  obtain classId d2 where v: "readVarString d1 = (Inr classId, d2)"
    using assms u by (auto simp: readDescriptor.simps split: prod.splits sum.splits)
  obtain numChildren d3 where s: "SAFE_READ_EX psdread_quint32 d2 ''numChildren'' = (Inr numChildren, d3)"
    using assms u v by (auto simp: readDescriptor.simps split: prod.splits sum.splits)
  define el0 where "el0 = setAttribute (setAttribute (fst (appendXMLNodeCommonNoValue key (QStringLiteral ''Descriptor'') (QDomElement t as cs))) ''classId'' classId) ''name'' name"
  obtain r d4 el' where l: "readChildObjects ext d3 el0 False (unat numChildren) = (r, d4, el')"
    by (cases "readChildObjects ext d3 el0 False (unat numChildren)")
  have p: "parent' = QDomElement t as (cs @ [el'])"
    using assms u v s l
    by (simp add: readDescriptor.simps el0_def appendXMLNodeCommonNoValue_def Let_def split: prod.splits)
  have "nodeHead el' = nodeHead el0"
    using readChildObjects_head [of ext d3 el0 False "unat numChildren"] l by simp
  moreover have "nodeType el0 = Some (QStringLiteral ''Descriptor'')"
    by (simp add: el0_def appendXMLNodeCommonNoValue_def Let_def createElement_def nodeType_def
        update_conv')
  ultimately have "nodeType el' = Some (QStringLiteral ''Descriptor'')"
    by (cases el'; cases el0) (simp_all add: nodeType_def)
  then show ?thesis using p by blast
qed


lemma psdread_Some_device:
  "psdread w device = (Some v, d) \<Longrightarrow> d = device\<lparr>pos := pos device + w\<rparr>"
  by (auto simp: psdread_def device_read_def Let_def split: if_splits)

lemma psdread_pos_le:
  "pos (snd (psdread w device)) \<le> pos device + w"
  by (auto simp add: psdread_def device_read_def Let_def)

lemma SAFE_READ_SIGNATURE_EX_Inr:
  "SAFE_READ_SIGNATURE_EX rd device nm expected = (Inr v, d) \<Longrightarrow> rd device = (Some expected, d)"
  by (auto simp: SAFE_READ_SIGNATURE_EX_def split: prod.splits option.splits if_splits)

lemma SAFE_READ_EX_Inr:
  "SAFE_READ_EX rd device nm = (Inr v, d) \<Longrightarrow> rd device = (Some v, d)"
  by (auto simp: SAFE_READ_EX_def split: prod.splits option.splits)

lemma readStyles_Inr:
  "readStyles ext device root = (Inr u, device', root') \<Longrightarrow>
   \<exists>e1 e1' root1 e2 u1. readDescriptor ext e1 [] root = (Inr u1, e1', root1) \<and>
      readDescriptor ext e2 [] root1 = (Inr u, device', root')"
  unfolding readStyles_def
  by (fastforce split: prod.splits sum.splits)



lemmas eval_defs =
  readFile_def readFileImpl_def readStyles_def readPatternsSection_def readPatterns.simps
  readDescriptor.simps readChildObjects.simps readChildObject.simps readUnicodeString_def
  readPattern_def readPatternPayload_def readVirtualArrayList_def readVirtualArray_def
  readPlane_def readPlaneData_def composeImage_def composePixel_def reader_defs
  SETUP_OFFSET_VERIFIER_def offsetVerifierExit_def QRect_xywh_def QRect_width_def
  QRect_height_def QImage_isNull_def QByteRef_def upt_rec alignOffsetCeil_def
  psdread_unicodestring_def example_externals_def createElement_def appendTextXMLNode_def
  appendXMLNodeCommon_def appendXMLNodeCommonNoValue_def example_pattern_def
  example_header_def example_descriptor_def

subsection \<open>Parse errors at the level of the driver\<close>

lemma SAFE_READ_EX_Inl:
  "SAFE_READ_EX rd device nm = (Inl e, d) \<Longrightarrow> e = ASLParseException (FailedToRead nm)"
  by (auto simp: SAFE_READ_EX_def split: prod.splits option.splits)

lemma SAFE_READ_SIGNATURE_EX_Inl:
  "SAFE_READ_SIGNATURE_EX rd device nm expected = (Inl e, d) \<Longrightarrow>
   e = ASLParseException (FailedToCheckSignature nm)"
  by (auto simp: SAFE_READ_SIGNATURE_EX_def split: prod.splits option.splits if_splits)

text \<open>
  C3, as amended.  A parse error thrown at the level of the driver, outside the loop over
  the patterns: by one of the three signature checks of the header, by the read of the
  length of the patterns section, by the read of one of the two counts of the styles, by
  one of the two checks of the styles format version, or by one of the two calls of
  \<open>readDescriptor\<close>, whatever inside the descriptor has thrown it; each is reached
  with all that precedes it read without error.  \<open>readFileImpl\<close> throws that error,
  from the device as the failing step has left it, so nothing after the failing step is
  read.  \<open>readFile\<close> catches it and returns the empty document: not the tree that
  \<open>readFileImpl\<close> had built, and not the exception.
\<close>

theorem driver_parse_error_aborts_decode:
  "(SAFE_READ_SIGNATURE_EX psdread_quint16 device ''stylesVersion'' 2 = (Inl e, d) \<longrightarrow>
      readFileImpl ext device = (Inl e, d, [createElement ''asl''])
      \<and> readFile ext device = (Inr [], d))
   \<and> (SAFE_READ_SIGNATURE_EX psdread_quint16 device ''stylesVersion'' 2 = (Inr v1, d1) \<and>
      SAFE_READ_SIGNATURE_EX psdread_quint32 d1 ''aslSignature'' 0x3842534c = (Inl e, d) \<longrightarrow>
      readFileImpl ext device = (Inl e, d, [createElement ''asl''])
      \<and> readFile ext device = (Inr [], d))
   \<and> (SAFE_READ_SIGNATURE_EX psdread_quint16 device ''stylesVersion'' 2 = (Inr v1, d1) \<and>
      SAFE_READ_SIGNATURE_EX psdread_quint32 d1 ''aslSignature'' 0x3842534c = (Inr v2, d2) \<and>
      SAFE_READ_SIGNATURE_EX psdread_quint16 d2 ''patternsVersion'' 3 = (Inl e, d) \<longrightarrow>
      readFileImpl ext device = (Inl e, d, [createElement ''asl''])
      \<and> readFile ext device = (Inr [], d))
   \<and> (SAFE_READ_SIGNATURE_EX psdread_quint16 device ''stylesVersion'' 2 = (Inr v1, d1) \<and>
      SAFE_READ_SIGNATURE_EX psdread_quint32 d1 ''aslSignature'' 0x3842534c = (Inr v2, d2) \<and>
      SAFE_READ_SIGNATURE_EX psdread_quint16 d2 ''patternsVersion'' 3 = (Inr v3, d3) \<and>
      SAFE_READ_EX psdread_quint32 d3 ''patternsSize'' = (Inl e, d) \<longrightarrow>
      readFileImpl ext device = (Inl e, d, [createElement ''asl''])
      \<and> readFile ext device = (Inr [], d))
   \<and> (SAFE_READ_SIGNATURE_EX psdread_quint16 device ''stylesVersion'' 2 = (Inr v1, d1) \<and>
      SAFE_READ_SIGNATURE_EX psdread_quint32 d1 ''aslSignature'' 0x3842534c = (Inr v2, d2) \<and>
      SAFE_READ_SIGNATURE_EX psdread_quint16 d2 ''patternsVersion'' 3 = (Inr v3, d3) \<and>
      readPatternsSection ext d3 (createElement ''asl'') = (Inr u, d4, root) \<and>
      SAFE_READ_EX psdread_quint32 d4 ''numStyles'' = (Inl e, d) \<longrightarrow>
      readFileImpl ext device = (Inl e, d, [root])
      \<and> readFile ext device = (Inr [], d))
   \<and> (SAFE_READ_SIGNATURE_EX psdread_quint16 device ''stylesVersion'' 2 = (Inr v1, d1) \<and>
      SAFE_READ_SIGNATURE_EX psdread_quint32 d1 ''aslSignature'' 0x3842534c = (Inr v2, d2) \<and>
      SAFE_READ_SIGNATURE_EX psdread_quint16 d2 ''patternsVersion'' 3 = (Inr v3, d3) \<and>
      readPatternsSection ext d3 (createElement ''asl'') = (Inr u, d4, root) \<and>
      SAFE_READ_EX psdread_quint32 d4 ''numStyles'' = (Inr numStyles, d5) \<and>
      SAFE_READ_EX psdread_quint32 d5 ''bytesToRead'' = (Inl e, d) \<longrightarrow>
      readFileImpl ext device = (Inl e, d, [root])
      \<and> readFile ext device = (Inr [], d))
   \<and> (SAFE_READ_SIGNATURE_EX psdread_quint16 device ''stylesVersion'' 2 = (Inr v1, d1) \<and>
      SAFE_READ_SIGNATURE_EX psdread_quint32 d1 ''aslSignature'' 0x3842534c = (Inr v2, d2) \<and>
      SAFE_READ_SIGNATURE_EX psdread_quint16 d2 ''patternsVersion'' 3 = (Inr v3, d3) \<and>
      readPatternsSection ext d3 (createElement ''asl'') = (Inr u, d4, root) \<and>
      SAFE_READ_EX psdread_quint32 d4 ''numStyles'' = (Inr numStyles, d5) \<and>
      SAFE_READ_EX psdread_quint32 d5 ''bytesToRead'' = (Inr bytesToRead, d6) \<and>
      SAFE_READ_SIGNATURE_EX psdread_quint32 d6 ''stylesFormatVersion'' 16 = (Inl e, d) \<longrightarrow>
      readFileImpl ext device = (Inl e, d, [root])
      \<and> readFile ext device = (Inr [], d))
   \<and> (SAFE_READ_SIGNATURE_EX psdread_quint16 device ''stylesVersion'' 2 = (Inr v1, d1) \<and>
      SAFE_READ_SIGNATURE_EX psdread_quint32 d1 ''aslSignature'' 0x3842534c = (Inr v2, d2) \<and>
      SAFE_READ_SIGNATURE_EX psdread_quint16 d2 ''patternsVersion'' 3 = (Inr v3, d3) \<and>
      readPatternsSection ext d3 (createElement ''asl'') = (Inr u, d4, root) \<and>
      SAFE_READ_EX psdread_quint32 d4 ''numStyles'' = (Inr numStyles, d5) \<and>
      SAFE_READ_EX psdread_quint32 d5 ''bytesToRead'' = (Inr bytesToRead, d6) \<and>
      SAFE_READ_SIGNATURE_EX psdread_quint32 d6 ''stylesFormatVersion'' 16 = (Inr v7, d7) \<and>
      readDescriptor ext d7 [] root = (Inl (ASLParseException m), d, root') \<longrightarrow>
      readFileImpl ext device = (Inl (ASLParseException m), d, [root'])
      \<and> readFile ext device = (Inr [], d))
   \<and> (SAFE_READ_SIGNATURE_EX psdread_quint16 device ''stylesVersion'' 2 = (Inr v1, d1) \<and>
      SAFE_READ_SIGNATURE_EX psdread_quint32 d1 ''aslSignature'' 0x3842534c = (Inr v2, d2) \<and>
      SAFE_READ_SIGNATURE_EX psdread_quint16 d2 ''patternsVersion'' 3 = (Inr v3, d3) \<and>
      readPatternsSection ext d3 (createElement ''asl'') = (Inr u, d4, root) \<and>
      SAFE_READ_EX psdread_quint32 d4 ''numStyles'' = (Inr numStyles, d5) \<and>
      SAFE_READ_EX psdread_quint32 d5 ''bytesToRead'' = (Inr bytesToRead, d6) \<and>
      SAFE_READ_SIGNATURE_EX psdread_quint32 d6 ''stylesFormatVersion'' 16 = (Inr v7, d7) \<and>
      readDescriptor ext d7 [] root = (Inr u8, d8, root8) \<and>
      SAFE_READ_SIGNATURE_EX psdread_quint32 d8 ''stylesFormatVersion'' 16 = (Inl e, d) \<longrightarrow>
      readFileImpl ext device = (Inl e, d, [root8])
      \<and> readFile ext device = (Inr [], d))
   \<and> (SAFE_READ_SIGNATURE_EX psdread_quint16 device ''stylesVersion'' 2 = (Inr v1, d1) \<and>
      SAFE_READ_SIGNATURE_EX psdread_quint32 d1 ''aslSignature'' 0x3842534c = (Inr v2, d2) \<and>
      SAFE_READ_SIGNATURE_EX psdread_quint16 d2 ''patternsVersion'' 3 = (Inr v3, d3) \<and>
      readPatternsSection ext d3 (createElement ''asl'') = (Inr u, d4, root) \<and>
      SAFE_READ_EX psdread_quint32 d4 ''numStyles'' = (Inr numStyles, d5) \<and>
      SAFE_READ_EX psdread_quint32 d5 ''bytesToRead'' = (Inr bytesToRead, d6) \<and>
      SAFE_READ_SIGNATURE_EX psdread_quint32 d6 ''stylesFormatVersion'' 16 = (Inr v7, d7) \<and>
      readDescriptor ext d7 [] root = (Inr u8, d8, root8) \<and>
      SAFE_READ_SIGNATURE_EX psdread_quint32 d8 ''stylesFormatVersion'' 16 = (Inr v9, d9) \<and>
      readDescriptor ext d9 [] root8 = (Inl (ASLParseException m), d, root') \<longrightarrow>
      readFileImpl ext device = (Inl (ASLParseException m), d, [root'])
      \<and> readFile ext device = (Inr [], d))"
proof (intro conjI impI; (elim conjE)?)
  assume a: "SAFE_READ_SIGNATURE_EX psdread_quint16 device ''stylesVersion'' 2 = (Inl e, d)"
  obtain m where e: "e = ASLParseException m"
    using a(1) by (auto dest: SAFE_READ_EX_Inl SAFE_READ_SIGNATURE_EX_Inl)
  show f: "readFileImpl ext device = (Inl e, d, [createElement ''asl''])"
    using a by (simp add: readFileImpl_def readPatternsSection_def readStyles_def Let_def)
  show "readFile ext device = (Inr [], d)"
    using f e by (simp add: readFile_def)
next
  assume a: "SAFE_READ_SIGNATURE_EX psdread_quint16 device ''stylesVersion'' 2 = (Inr v1, d1)"
    "SAFE_READ_SIGNATURE_EX psdread_quint32 d1 ''aslSignature'' 0x3842534c = (Inl e, d)"
  obtain m where e: "e = ASLParseException m"
    using a(2) by (auto dest: SAFE_READ_EX_Inl SAFE_READ_SIGNATURE_EX_Inl)
  show f: "readFileImpl ext device = (Inl e, d, [createElement ''asl''])"
    using a by (simp add: readFileImpl_def readPatternsSection_def readStyles_def Let_def)
  show "readFile ext device = (Inr [], d)"
    using f e by (simp add: readFile_def)
next
  assume a: "SAFE_READ_SIGNATURE_EX psdread_quint16 device ''stylesVersion'' 2 = (Inr v1, d1)"
    "SAFE_READ_SIGNATURE_EX psdread_quint32 d1 ''aslSignature'' 0x3842534c = (Inr v2, d2)"
    "SAFE_READ_SIGNATURE_EX psdread_quint16 d2 ''patternsVersion'' 3 = (Inl e, d)"
  obtain m where e: "e = ASLParseException m"
    using a(3) by (auto dest: SAFE_READ_EX_Inl SAFE_READ_SIGNATURE_EX_Inl)
  show f: "readFileImpl ext device = (Inl e, d, [createElement ''asl''])"
    using a by (simp add: readFileImpl_def readPatternsSection_def readStyles_def Let_def)
  show "readFile ext device = (Inr [], d)"
    using f e by (simp add: readFile_def)
next
  assume a: "SAFE_READ_SIGNATURE_EX psdread_quint16 device ''stylesVersion'' 2 = (Inr v1, d1)"
    "SAFE_READ_SIGNATURE_EX psdread_quint32 d1 ''aslSignature'' 0x3842534c = (Inr v2, d2)"
    "SAFE_READ_SIGNATURE_EX psdread_quint16 d2 ''patternsVersion'' 3 = (Inr v3, d3)"
    "SAFE_READ_EX psdread_quint32 d3 ''patternsSize'' = (Inl e, d)"
  obtain m where e: "e = ASLParseException m"
    using a(4) by (auto dest: SAFE_READ_EX_Inl SAFE_READ_SIGNATURE_EX_Inl)
  show f: "readFileImpl ext device = (Inl e, d, [createElement ''asl''])"
    using a by (simp add: readFileImpl_def readPatternsSection_def readStyles_def Let_def)
  show "readFile ext device = (Inr [], d)"
    using f e by (simp add: readFile_def)
next
  assume a: "SAFE_READ_SIGNATURE_EX psdread_quint16 device ''stylesVersion'' 2 = (Inr v1, d1)"
    "SAFE_READ_SIGNATURE_EX psdread_quint32 d1 ''aslSignature'' 0x3842534c = (Inr v2, d2)"
    "SAFE_READ_SIGNATURE_EX psdread_quint16 d2 ''patternsVersion'' 3 = (Inr v3, d3)"
    "readPatternsSection ext d3 (createElement ''asl'') = (Inr u, d4, root)"
    "SAFE_READ_EX psdread_quint32 d4 ''numStyles'' = (Inl e, d)"
  obtain m where e: "e = ASLParseException m"
    using a(5) by (auto dest: SAFE_READ_EX_Inl SAFE_READ_SIGNATURE_EX_Inl)
  show f: "readFileImpl ext device = (Inl e, d, [root])"
    using a by (simp add: readFileImpl_def readPatternsSection_def readStyles_def Let_def)
  show "readFile ext device = (Inr [], d)"
    using f e by (simp add: readFile_def)
next
  assume a: "SAFE_READ_SIGNATURE_EX psdread_quint16 device ''stylesVersion'' 2 = (Inr v1, d1)"
    "SAFE_READ_SIGNATURE_EX psdread_quint32 d1 ''aslSignature'' 0x3842534c = (Inr v2, d2)"
    "SAFE_READ_SIGNATURE_EX psdread_quint16 d2 ''patternsVersion'' 3 = (Inr v3, d3)"
    "readPatternsSection ext d3 (createElement ''asl'') = (Inr u, d4, root)"
    "SAFE_READ_EX psdread_quint32 d4 ''numStyles'' = (Inr numStyles, d5)"
    "SAFE_READ_EX psdread_quint32 d5 ''bytesToRead'' = (Inl e, d)"
  obtain m where e: "e = ASLParseException m"
    using a(6) by (auto dest: SAFE_READ_EX_Inl SAFE_READ_SIGNATURE_EX_Inl)
  show f: "readFileImpl ext device = (Inl e, d, [root])"
    using a by (simp add: readFileImpl_def readPatternsSection_def readStyles_def Let_def)
  show "readFile ext device = (Inr [], d)"
    using f e by (simp add: readFile_def)
next
  assume a: "SAFE_READ_SIGNATURE_EX psdread_quint16 device ''stylesVersion'' 2 = (Inr v1, d1)"
    "SAFE_READ_SIGNATURE_EX psdread_quint32 d1 ''aslSignature'' 0x3842534c = (Inr v2, d2)"
    "SAFE_READ_SIGNATURE_EX psdread_quint16 d2 ''patternsVersion'' 3 = (Inr v3, d3)"
    "readPatternsSection ext d3 (createElement ''asl'') = (Inr u, d4, root)"
    "SAFE_READ_EX psdread_quint32 d4 ''numStyles'' = (Inr numStyles, d5)"
    "SAFE_READ_EX psdread_quint32 d5 ''bytesToRead'' = (Inr bytesToRead, d6)"
    "SAFE_READ_SIGNATURE_EX psdread_quint32 d6 ''stylesFormatVersion'' 16 = (Inl e, d)"
  obtain m where e: "e = ASLParseException m"
    using a(7) by (auto dest: SAFE_READ_EX_Inl SAFE_READ_SIGNATURE_EX_Inl)
  show f: "readFileImpl ext device = (Inl e, d, [root])"
    using a by (simp add: readFileImpl_def readPatternsSection_def readStyles_def Let_def)
  show "readFile ext device = (Inr [], d)"
    using f e by (simp add: readFile_def)
next
  assume a: "SAFE_READ_SIGNATURE_EX psdread_quint16 device ''stylesVersion'' 2 = (Inr v1, d1)"
    "SAFE_READ_SIGNATURE_EX psdread_quint32 d1 ''aslSignature'' 0x3842534c = (Inr v2, d2)"
    "SAFE_READ_SIGNATURE_EX psdread_quint16 d2 ''patternsVersion'' 3 = (Inr v3, d3)"
    "readPatternsSection ext d3 (createElement ''asl'') = (Inr u, d4, root)"
    "SAFE_READ_EX psdread_quint32 d4 ''numStyles'' = (Inr numStyles, d5)"
    "SAFE_READ_EX psdread_quint32 d5 ''bytesToRead'' = (Inr bytesToRead, d6)"
    "SAFE_READ_SIGNATURE_EX psdread_quint32 d6 ''stylesFormatVersion'' 16 = (Inr v7, d7)"
    "readDescriptor ext d7 [] root = (Inl (ASLParseException m), d, root')"
  show f: "readFileImpl ext device = (Inl (ASLParseException m), d, [root'])"
    using a by (simp add: readFileImpl_def readPatternsSection_def readStyles_def Let_def)
  show "readFile ext device = (Inr [], d)"
    using f by (simp add: readFile_def)
next
  assume a: "SAFE_READ_SIGNATURE_EX psdread_quint16 device ''stylesVersion'' 2 = (Inr v1, d1)"
    "SAFE_READ_SIGNATURE_EX psdread_quint32 d1 ''aslSignature'' 0x3842534c = (Inr v2, d2)"
    "SAFE_READ_SIGNATURE_EX psdread_quint16 d2 ''patternsVersion'' 3 = (Inr v3, d3)"
    "readPatternsSection ext d3 (createElement ''asl'') = (Inr u, d4, root)"
    "SAFE_READ_EX psdread_quint32 d4 ''numStyles'' = (Inr numStyles, d5)"
    "SAFE_READ_EX psdread_quint32 d5 ''bytesToRead'' = (Inr bytesToRead, d6)"
    "SAFE_READ_SIGNATURE_EX psdread_quint32 d6 ''stylesFormatVersion'' 16 = (Inr v7, d7)"
    "readDescriptor ext d7 [] root = (Inr u8, d8, root8)"
    "SAFE_READ_SIGNATURE_EX psdread_quint32 d8 ''stylesFormatVersion'' 16 = (Inl e, d)"
  obtain m where e: "e = ASLParseException m"
    using a(9) by (auto dest: SAFE_READ_EX_Inl SAFE_READ_SIGNATURE_EX_Inl)
  show f: "readFileImpl ext device = (Inl e, d, [root8])"
    using a by (simp add: readFileImpl_def readPatternsSection_def readStyles_def Let_def)
  show "readFile ext device = (Inr [], d)"
    using f e by (simp add: readFile_def)
next
  assume a: "SAFE_READ_SIGNATURE_EX psdread_quint16 device ''stylesVersion'' 2 = (Inr v1, d1)"
    "SAFE_READ_SIGNATURE_EX psdread_quint32 d1 ''aslSignature'' 0x3842534c = (Inr v2, d2)"
    "SAFE_READ_SIGNATURE_EX psdread_quint16 d2 ''patternsVersion'' 3 = (Inr v3, d3)"
    "readPatternsSection ext d3 (createElement ''asl'') = (Inr u, d4, root)"
    "SAFE_READ_EX psdread_quint32 d4 ''numStyles'' = (Inr numStyles, d5)"
    "SAFE_READ_EX psdread_quint32 d5 ''bytesToRead'' = (Inr bytesToRead, d6)"
    "SAFE_READ_SIGNATURE_EX psdread_quint32 d6 ''stylesFormatVersion'' 16 = (Inr v7, d7)"
    "readDescriptor ext d7 [] root = (Inr u8, d8, root8)"
    "SAFE_READ_SIGNATURE_EX psdread_quint32 d8 ''stylesFormatVersion'' 16 = (Inr v9, d9)"
    "readDescriptor ext d9 [] root8 = (Inl (ASLParseException m), d, root')"
  show f: "readFileImpl ext device = (Inl (ASLParseException m), d, [root'])"
    using a by (simp add: readFileImpl_def readPatternsSection_def readStyles_def Let_def)
  show "readFile ext device = (Inr [], d)"
    using f by (simp add: readFile_def)
qed

theorem driver_parse_error_aborts_decode_witness:
  "readFile example_externals \<lparr>buffer = [0], pos = 0\<rparr> =
       (Inr [], \<lparr>buffer = [0], pos = 1\<rparr>)
   \<and> readFile example_externals \<lparr>buffer = [0, 2, 56, 66, 83], pos = 0\<rparr> =
       (Inr [], \<lparr>buffer = [0, 2, 56, 66, 83], pos = 5\<rparr>)
   \<and> readFile example_externals \<lparr>buffer = [0, 2, 56, 66, 83, 76, 0], pos = 0\<rparr> =
       (Inr [], \<lparr>buffer = [0, 2, 56, 66, 83, 76, 0], pos = 7\<rparr>)
   \<and> readFile example_externals \<lparr>buffer = [0, 2, 56, 66, 83, 76, 0, 3, 0, 0], pos = 0\<rparr> =
       (Inr [], \<lparr>buffer = [0, 2, 56, 66, 83, 76, 0, 3, 0, 0], pos = 10\<rparr>)
   \<and> readFile example_externals \<lparr>buffer = [0, 2, 56, 66, 83, 76, 0, 3, 0, 0, 0, 0, 0, 0], pos = 0\<rparr> =
       (Inr [], \<lparr>buffer = [0, 2, 56, 66, 83, 76, 0, 3, 0, 0, 0, 0, 0, 0], pos = 14\<rparr>)
   \<and> readFile example_externals \<lparr>buffer = [0, 2, 56, 66, 83, 76, 0, 3, 0, 0, 0, 0, 0, 0, 0, 2, 0, 0], pos = 0\<rparr> =
       (Inr [], \<lparr>buffer = [0, 2, 56, 66, 83, 76, 0, 3, 0, 0, 0, 0, 0, 0, 0, 2, 0, 0], pos = 18\<rparr>)
   \<and> readFile example_externals \<lparr>buffer = [0, 2, 56, 66, 83, 76, 0, 3, 0, 0, 0, 0, 0, 0, 0, 2, 0, 0, 0, 40, 0, 0], pos = 0\<rparr> =
       (Inr [], \<lparr>buffer = [0, 2, 56, 66, 83, 76, 0, 3, 0, 0, 0, 0, 0, 0, 0, 2, 0, 0, 0, 40, 0, 0], pos = 22\<rparr>)
   \<and> readFile example_externals \<lparr>buffer = [0, 2, 56, 66, 83, 76, 0, 3, 0, 0, 0, 0, 0, 0, 0, 2, 0, 0, 0, 40, 0, 0, 0, 16, 0, 0, 0, 0, 0, 0], pos = 0\<rparr> =
       (Inr [], \<lparr>buffer = [0, 2, 56, 66, 83, 76, 0, 3, 0, 0, 0, 0, 0, 0, 0, 2, 0, 0, 0, 40, 0, 0, 0, 16, 0, 0, 0, 0, 0, 0], pos = 30\<rparr>)
   \<and> readFile example_externals \<lparr>buffer = [0, 2, 56, 66, 83, 76, 0, 3, 0, 0, 0, 0, 0, 0, 0, 2, 0, 0, 0, 40, 0, 0, 0, 16, 0, 0, 0, 0, 0, 0, 0, 0, 110, 117, 108, 108, 0, 0, 0, 0, 0, 0], pos = 0\<rparr> =
       (Inr [], \<lparr>buffer = [0, 2, 56, 66, 83, 76, 0, 3, 0, 0, 0, 0, 0, 0, 0, 2, 0, 0, 0, 40, 0, 0, 0, 16, 0, 0, 0, 0, 0, 0, 0, 0, 110, 117, 108, 108, 0, 0, 0, 0, 0, 0], pos = 42\<rparr>)
   \<and> readFile example_externals \<lparr>buffer = [0, 2, 56, 66, 83, 76, 0, 3, 0, 0, 0, 0, 0, 0, 0, 2, 0, 0, 0, 40, 0, 0, 0, 16, 0, 0, 0, 0, 0, 0, 0, 0, 110, 117, 108, 108, 0, 0, 0, 0, 0, 0, 0, 16, 0, 0, 0, 0, 0, 0], pos = 0\<rparr> =
       (Inr [], \<lparr>buffer = [0, 2, 56, 66, 83, 76, 0, 3, 0, 0, 0, 0, 0, 0, 0, 2, 0, 0, 0, 40, 0, 0, 0, 16, 0, 0, 0, 0, 0, 0, 0, 0, 110, 117, 108, 108, 0, 0, 0, 0, 0, 0, 0, 16, 0, 0, 0, 0, 0, 0], pos = 50\<rparr>)"
proof -
  let ?b1 = "[0] :: QByteArray"
  let ?b2 = "[0, 2, 56, 66, 83] :: QByteArray"
  let ?b3 = "[0, 2, 56, 66, 83, 76, 0] :: QByteArray"
  let ?b4 = "[0, 2, 56, 66, 83, 76, 0, 3, 0, 0] :: QByteArray"
  let ?b5 = "[0, 2, 56, 66, 83, 76, 0, 3, 0, 0, 0, 0, 0, 0] :: QByteArray"
  let ?b6 = "[0, 2, 56, 66, 83, 76, 0, 3, 0, 0, 0, 0, 0, 0, 0, 2, 0, 0] :: QByteArray"
  let ?b7 = "[0, 2, 56, 66, 83, 76, 0, 3, 0, 0, 0, 0, 0, 0, 0, 2, 0, 0, 0, 40, 0, 0] :: QByteArray"
  let ?b8 = "[0, 2, 56, 66, 83, 76, 0, 3, 0, 0, 0, 0, 0, 0, 0, 2, 0, 0, 0, 40, 0, 0, 0, 16, 0, 0, 0, 0, 0, 0] :: QByteArray"
  let ?b9 = "[0, 2, 56, 66, 83, 76, 0, 3, 0, 0, 0, 0, 0, 0, 0, 2, 0, 0, 0, 40, 0, 0, 0, 16, 0, 0, 0, 0, 0, 0, 0, 0, 110, 117, 108, 108, 0, 0, 0, 0, 0, 0] :: QByteArray"
  let ?b10 = "[0, 2, 56, 66, 83, 76, 0, 3, 0, 0, 0, 0, 0, 0, 0, 2, 0, 0, 0, 40, 0, 0, 0, 16, 0, 0, 0, 0, 0, 0, 0, 0, 110, 117, 108, 108, 0, 0, 0, 0, 0, 0, 0, 16, 0, 0, 0, 0, 0, 0] :: QByteArray"
  have h1: "SAFE_READ_SIGNATURE_EX psdread_quint16 \<lparr>buffer = ?b1, pos = 0\<rparr> ''stylesVersion'' 2 =
        (Inl (ASLParseException (FailedToCheckSignature ''stylesVersion'')), \<lparr>buffer = ?b1, pos = 1\<rparr>)"
    by (simp add: reader_defs readPatternsSection_def readDescriptor.simps readChildObjects.simps
        readUnicodeString_def psdread_unicodestring_def createElement_def
        appendXMLNodeCommonNoValue_def)
  have h2: "SAFE_READ_SIGNATURE_EX psdread_quint16 \<lparr>buffer = ?b2, pos = 0\<rparr> ''stylesVersion'' 2 =
        (Inr 2, \<lparr>buffer = ?b2, pos = 2\<rparr>) \<and>
      SAFE_READ_SIGNATURE_EX psdread_quint32 \<lparr>buffer = ?b2, pos = 2\<rparr> ''aslSignature'' 0x3842534c =
        (Inl (ASLParseException (FailedToCheckSignature ''aslSignature'')), \<lparr>buffer = ?b2, pos = 5\<rparr>)"
    by (simp add: reader_defs readPatternsSection_def readDescriptor.simps readChildObjects.simps
        readUnicodeString_def psdread_unicodestring_def createElement_def
        appendXMLNodeCommonNoValue_def)
  have h3: "SAFE_READ_SIGNATURE_EX psdread_quint16 \<lparr>buffer = ?b3, pos = 0\<rparr> ''stylesVersion'' 2 =
        (Inr 2, \<lparr>buffer = ?b3, pos = 2\<rparr>) \<and>
      SAFE_READ_SIGNATURE_EX psdread_quint32 \<lparr>buffer = ?b3, pos = 2\<rparr> ''aslSignature'' 0x3842534c =
        (Inr 0x3842534c, \<lparr>buffer = ?b3, pos = 6\<rparr>) \<and>
      SAFE_READ_SIGNATURE_EX psdread_quint16 \<lparr>buffer = ?b3, pos = 6\<rparr> ''patternsVersion'' 3 =
        (Inl (ASLParseException (FailedToCheckSignature ''patternsVersion'')), \<lparr>buffer = ?b3, pos = 7\<rparr>)"
    by (simp add: reader_defs readPatternsSection_def readDescriptor.simps readChildObjects.simps
        readUnicodeString_def psdread_unicodestring_def createElement_def
        appendXMLNodeCommonNoValue_def)
  have h4: "SAFE_READ_SIGNATURE_EX psdread_quint16 \<lparr>buffer = ?b4, pos = 0\<rparr> ''stylesVersion'' 2 =
        (Inr 2, \<lparr>buffer = ?b4, pos = 2\<rparr>) \<and>
      SAFE_READ_SIGNATURE_EX psdread_quint32 \<lparr>buffer = ?b4, pos = 2\<rparr> ''aslSignature'' 0x3842534c =
        (Inr 0x3842534c, \<lparr>buffer = ?b4, pos = 6\<rparr>) \<and>
      SAFE_READ_SIGNATURE_EX psdread_quint16 \<lparr>buffer = ?b4, pos = 6\<rparr> ''patternsVersion'' 3 =
        (Inr 3, \<lparr>buffer = ?b4, pos = 8\<rparr>) \<and>
      SAFE_READ_EX psdread_quint32 \<lparr>buffer = ?b4, pos = 8\<rparr> ''patternsSize'' =
        (Inl (ASLParseException (FailedToRead ''patternsSize'')), \<lparr>buffer = ?b4, pos = 10\<rparr>)"
    by (simp add: reader_defs readPatternsSection_def readDescriptor.simps readChildObjects.simps
        readUnicodeString_def psdread_unicodestring_def createElement_def
        appendXMLNodeCommonNoValue_def)
  have h5: "SAFE_READ_SIGNATURE_EX psdread_quint16 \<lparr>buffer = ?b5, pos = 0\<rparr> ''stylesVersion'' 2 =
        (Inr 2, \<lparr>buffer = ?b5, pos = 2\<rparr>) \<and>
      SAFE_READ_SIGNATURE_EX psdread_quint32 \<lparr>buffer = ?b5, pos = 2\<rparr> ''aslSignature'' 0x3842534c =
        (Inr 0x3842534c, \<lparr>buffer = ?b5, pos = 6\<rparr>) \<and>
      SAFE_READ_SIGNATURE_EX psdread_quint16 \<lparr>buffer = ?b5, pos = 6\<rparr> ''patternsVersion'' 3 =
        (Inr 3, \<lparr>buffer = ?b5, pos = 8\<rparr>) \<and>
      readPatternsSection example_externals \<lparr>buffer = ?b5, pos = 8\<rparr> (createElement ''asl'') =
        (Inr (), \<lparr>buffer = ?b5, pos = 12\<rparr>, createElement ''asl'') \<and>
      SAFE_READ_EX psdread_quint32 \<lparr>buffer = ?b5, pos = 12\<rparr> ''numStyles'' =
        (Inl (ASLParseException (FailedToRead ''numStyles'')), \<lparr>buffer = ?b5, pos = 14\<rparr>)"
    by (simp add: reader_defs readPatternsSection_def readDescriptor.simps readChildObjects.simps
        readUnicodeString_def psdread_unicodestring_def createElement_def
        appendXMLNodeCommonNoValue_def)
  have h6: "SAFE_READ_SIGNATURE_EX psdread_quint16 \<lparr>buffer = ?b6, pos = 0\<rparr> ''stylesVersion'' 2 =
        (Inr 2, \<lparr>buffer = ?b6, pos = 2\<rparr>) \<and>
      SAFE_READ_SIGNATURE_EX psdread_quint32 \<lparr>buffer = ?b6, pos = 2\<rparr> ''aslSignature'' 0x3842534c =
        (Inr 0x3842534c, \<lparr>buffer = ?b6, pos = 6\<rparr>) \<and>
      SAFE_READ_SIGNATURE_EX psdread_quint16 \<lparr>buffer = ?b6, pos = 6\<rparr> ''patternsVersion'' 3 =
        (Inr 3, \<lparr>buffer = ?b6, pos = 8\<rparr>) \<and>
      readPatternsSection example_externals \<lparr>buffer = ?b6, pos = 8\<rparr> (createElement ''asl'') =
        (Inr (), \<lparr>buffer = ?b6, pos = 12\<rparr>, createElement ''asl'') \<and>
      SAFE_READ_EX psdread_quint32 \<lparr>buffer = ?b6, pos = 12\<rparr> ''numStyles'' =
        (Inr 2, \<lparr>buffer = ?b6, pos = 16\<rparr>) \<and>
      SAFE_READ_EX psdread_quint32 \<lparr>buffer = ?b6, pos = 16\<rparr> ''bytesToRead'' =
        (Inl (ASLParseException (FailedToRead ''bytesToRead'')), \<lparr>buffer = ?b6, pos = 18\<rparr>)"
    by (simp add: reader_defs readPatternsSection_def readDescriptor.simps readChildObjects.simps
        readUnicodeString_def psdread_unicodestring_def createElement_def
        appendXMLNodeCommonNoValue_def)
  have h7: "SAFE_READ_SIGNATURE_EX psdread_quint16 \<lparr>buffer = ?b7, pos = 0\<rparr> ''stylesVersion'' 2 =
        (Inr 2, \<lparr>buffer = ?b7, pos = 2\<rparr>) \<and>
      SAFE_READ_SIGNATURE_EX psdread_quint32 \<lparr>buffer = ?b7, pos = 2\<rparr> ''aslSignature'' 0x3842534c =
        (Inr 0x3842534c, \<lparr>buffer = ?b7, pos = 6\<rparr>) \<and>
      SAFE_READ_SIGNATURE_EX psdread_quint16 \<lparr>buffer = ?b7, pos = 6\<rparr> ''patternsVersion'' 3 =
        (Inr 3, \<lparr>buffer = ?b7, pos = 8\<rparr>) \<and>
      readPatternsSection example_externals \<lparr>buffer = ?b7, pos = 8\<rparr> (createElement ''asl'') =
        (Inr (), \<lparr>buffer = ?b7, pos = 12\<rparr>, createElement ''asl'') \<and>
      SAFE_READ_EX psdread_quint32 \<lparr>buffer = ?b7, pos = 12\<rparr> ''numStyles'' =
        (Inr 2, \<lparr>buffer = ?b7, pos = 16\<rparr>) \<and>
      SAFE_READ_EX psdread_quint32 \<lparr>buffer = ?b7, pos = 16\<rparr> ''bytesToRead'' =
        (Inr 40, \<lparr>buffer = ?b7, pos = 20\<rparr>) \<and>
      SAFE_READ_SIGNATURE_EX psdread_quint32 \<lparr>buffer = ?b7, pos = 20\<rparr> ''stylesFormatVersion'' 16 =
        (Inl (ASLParseException (FailedToCheckSignature ''stylesFormatVersion'')), \<lparr>buffer = ?b7, pos = 22\<rparr>)"
    by (simp add: reader_defs readPatternsSection_def readDescriptor.simps readChildObjects.simps
        readUnicodeString_def psdread_unicodestring_def createElement_def
        appendXMLNodeCommonNoValue_def)
  have h8: "SAFE_READ_SIGNATURE_EX psdread_quint16 \<lparr>buffer = ?b8, pos = 0\<rparr> ''stylesVersion'' 2 =
        (Inr 2, \<lparr>buffer = ?b8, pos = 2\<rparr>) \<and>
      SAFE_READ_SIGNATURE_EX psdread_quint32 \<lparr>buffer = ?b8, pos = 2\<rparr> ''aslSignature'' 0x3842534c =
        (Inr 0x3842534c, \<lparr>buffer = ?b8, pos = 6\<rparr>) \<and>
      SAFE_READ_SIGNATURE_EX psdread_quint16 \<lparr>buffer = ?b8, pos = 6\<rparr> ''patternsVersion'' 3 =
        (Inr 3, \<lparr>buffer = ?b8, pos = 8\<rparr>) \<and>
      readPatternsSection example_externals \<lparr>buffer = ?b8, pos = 8\<rparr> (createElement ''asl'') =
        (Inr (), \<lparr>buffer = ?b8, pos = 12\<rparr>, createElement ''asl'') \<and>
      SAFE_READ_EX psdread_quint32 \<lparr>buffer = ?b8, pos = 12\<rparr> ''numStyles'' =
        (Inr 2, \<lparr>buffer = ?b8, pos = 16\<rparr>) \<and>
      SAFE_READ_EX psdread_quint32 \<lparr>buffer = ?b8, pos = 16\<rparr> ''bytesToRead'' =
        (Inr 40, \<lparr>buffer = ?b8, pos = 20\<rparr>) \<and>
      SAFE_READ_SIGNATURE_EX psdread_quint32 \<lparr>buffer = ?b8, pos = 20\<rparr> ''stylesFormatVersion'' 16 =
        (Inr 16, \<lparr>buffer = ?b8, pos = 24\<rparr>) \<and>
      readDescriptor example_externals \<lparr>buffer = ?b8, pos = 24\<rparr> [] (createElement ''asl'') =
        (Inl (ASLParseException (FailedToRead ''length'')), \<lparr>buffer = ?b8, pos = 30\<rparr>, createElement ''asl'')"
    by (simp add: reader_defs readPatternsSection_def readDescriptor.simps readChildObjects.simps
        readUnicodeString_def psdread_unicodestring_def createElement_def
        appendXMLNodeCommonNoValue_def)
  have h9: "SAFE_READ_SIGNATURE_EX psdread_quint16 \<lparr>buffer = ?b9, pos = 0\<rparr> ''stylesVersion'' 2 =
        (Inr 2, \<lparr>buffer = ?b9, pos = 2\<rparr>) \<and>
      SAFE_READ_SIGNATURE_EX psdread_quint32 \<lparr>buffer = ?b9, pos = 2\<rparr> ''aslSignature'' 0x3842534c =
        (Inr 0x3842534c, \<lparr>buffer = ?b9, pos = 6\<rparr>) \<and>
      SAFE_READ_SIGNATURE_EX psdread_quint16 \<lparr>buffer = ?b9, pos = 6\<rparr> ''patternsVersion'' 3 =
        (Inr 3, \<lparr>buffer = ?b9, pos = 8\<rparr>) \<and>
      readPatternsSection example_externals \<lparr>buffer = ?b9, pos = 8\<rparr> (createElement ''asl'') =
        (Inr (), \<lparr>buffer = ?b9, pos = 12\<rparr>, createElement ''asl'') \<and>
      SAFE_READ_EX psdread_quint32 \<lparr>buffer = ?b9, pos = 12\<rparr> ''numStyles'' =
        (Inr 2, \<lparr>buffer = ?b9, pos = 16\<rparr>) \<and>
      SAFE_READ_EX psdread_quint32 \<lparr>buffer = ?b9, pos = 16\<rparr> ''bytesToRead'' =
        (Inr 40, \<lparr>buffer = ?b9, pos = 20\<rparr>) \<and>
      SAFE_READ_SIGNATURE_EX psdread_quint32 \<lparr>buffer = ?b9, pos = 20\<rparr> ''stylesFormatVersion'' 16 =
        (Inr 16, \<lparr>buffer = ?b9, pos = 24\<rparr>) \<and>
      readDescriptor example_externals \<lparr>buffer = ?b9, pos = 24\<rparr> [] (createElement ''asl'') =
        (Inr (), \<lparr>buffer = ?b9, pos = 40\<rparr>,
         QDomElement ''asl'' [] [QDomElement ''node''
           [(''type'', QStringLiteral ''Descriptor''), (''classId'', QStringLiteral ''null''),
            (''name'', [])] []]) \<and>
      SAFE_READ_SIGNATURE_EX psdread_quint32 \<lparr>buffer = ?b9, pos = 40\<rparr> ''stylesFormatVersion'' 16 =
        (Inl (ASLParseException (FailedToCheckSignature ''stylesFormatVersion'')), \<lparr>buffer = ?b9, pos = 42\<rparr>)"
    by (simp add: reader_defs readPatternsSection_def readDescriptor.simps readChildObjects.simps
        readUnicodeString_def psdread_unicodestring_def createElement_def
        appendXMLNodeCommonNoValue_def)
  have h10: "SAFE_READ_SIGNATURE_EX psdread_quint16 \<lparr>buffer = ?b10, pos = 0\<rparr> ''stylesVersion'' 2 =
        (Inr 2, \<lparr>buffer = ?b10, pos = 2\<rparr>) \<and>
      SAFE_READ_SIGNATURE_EX psdread_quint32 \<lparr>buffer = ?b10, pos = 2\<rparr> ''aslSignature'' 0x3842534c =
        (Inr 0x3842534c, \<lparr>buffer = ?b10, pos = 6\<rparr>) \<and>
      SAFE_READ_SIGNATURE_EX psdread_quint16 \<lparr>buffer = ?b10, pos = 6\<rparr> ''patternsVersion'' 3 =
        (Inr 3, \<lparr>buffer = ?b10, pos = 8\<rparr>) \<and>
      readPatternsSection example_externals \<lparr>buffer = ?b10, pos = 8\<rparr> (createElement ''asl'') =
        (Inr (), \<lparr>buffer = ?b10, pos = 12\<rparr>, createElement ''asl'') \<and>
      SAFE_READ_EX psdread_quint32 \<lparr>buffer = ?b10, pos = 12\<rparr> ''numStyles'' =
        (Inr 2, \<lparr>buffer = ?b10, pos = 16\<rparr>) \<and>
      SAFE_READ_EX psdread_quint32 \<lparr>buffer = ?b10, pos = 16\<rparr> ''bytesToRead'' =
        (Inr 40, \<lparr>buffer = ?b10, pos = 20\<rparr>) \<and>
      SAFE_READ_SIGNATURE_EX psdread_quint32 \<lparr>buffer = ?b10, pos = 20\<rparr> ''stylesFormatVersion'' 16 =
        (Inr 16, \<lparr>buffer = ?b10, pos = 24\<rparr>) \<and>
      readDescriptor example_externals \<lparr>buffer = ?b10, pos = 24\<rparr> [] (createElement ''asl'') =
        (Inr (), \<lparr>buffer = ?b10, pos = 40\<rparr>,
         QDomElement ''asl'' [] [QDomElement ''node''
           [(''type'', QStringLiteral ''Descriptor''), (''classId'', QStringLiteral ''null''),
            (''name'', [])] []]) \<and>
      SAFE_READ_SIGNATURE_EX psdread_quint32 \<lparr>buffer = ?b10, pos = 40\<rparr> ''stylesFormatVersion'' 16 =
        (Inr 16, \<lparr>buffer = ?b10, pos = 44\<rparr>) \<and>
      readDescriptor example_externals \<lparr>buffer = ?b10, pos = 44\<rparr> [] (QDomElement ''asl'' [] [QDomElement ''node''
           [(''type'', QStringLiteral ''Descriptor''), (''classId'', QStringLiteral ''null''),
            (''name'', [])] []]) =
        (Inl (ASLParseException (FailedToRead ''length'')), \<lparr>buffer = ?b10, pos = 50\<rparr>,
         QDomElement ''asl'' [] [QDomElement ''node''
           [(''type'', QStringLiteral ''Descriptor''), (''classId'', QStringLiteral ''null''),
            (''name'', [])] []])"
    by (simp add: reader_defs readPatternsSection_def readDescriptor.simps readChildObjects.simps
        readUnicodeString_def psdread_unicodestring_def createElement_def
        appendXMLNodeCommonNoValue_def)
  note t = driver_parse_error_aborts_decode [where ext = example_externals]
  show ?thesis
    using t [THEN conjunct1, rule_format, OF h1, THEN conjunct2]
      t [THEN conjunct2, THEN conjunct1, rule_format, OF h2, THEN conjunct2]
      t [THEN conjunct2, THEN conjunct2, THEN conjunct1, rule_format, OF h3, THEN conjunct2]
      t [THEN conjunct2, THEN conjunct2, THEN conjunct2, THEN conjunct1, rule_format, OF h4, THEN conjunct2]
      t [THEN conjunct2, THEN conjunct2, THEN conjunct2, THEN conjunct2, THEN conjunct1, rule_format, OF h5, THEN conjunct2]
      t [THEN conjunct2, THEN conjunct2, THEN conjunct2, THEN conjunct2, THEN conjunct2, THEN conjunct1, rule_format, OF h6, THEN conjunct2]
      t [THEN conjunct2, THEN conjunct2, THEN conjunct2, THEN conjunct2, THEN conjunct2, THEN conjunct2, THEN conjunct1, rule_format, OF h7, THEN conjunct2]
      t [THEN conjunct2, THEN conjunct2, THEN conjunct2, THEN conjunct2, THEN conjunct2, THEN conjunct2, THEN conjunct2, THEN conjunct1, rule_format, OF h8, THEN conjunct2]
      t [THEN conjunct2, THEN conjunct2, THEN conjunct2, THEN conjunct2, THEN conjunct2, THEN conjunct2, THEN conjunct2, THEN conjunct2, THEN conjunct1, rule_format, OF h9, THEN conjunct2]
      t [THEN conjunct2, THEN conjunct2, THEN conjunct2, THEN conjunct2, THEN conjunct2, THEN conjunct2, THEN conjunct2, THEN conjunct2, THEN conjunct2, rule_format, OF h10, THEN conjunct2]
    by (intro conjI)
qed

text \<open>
  The claim as stated fails on a container that ends after its one pattern: when the read
  of \<open>numStyles\<close> throws, the tree of \<open>readFileImpl\<close> holds the \<open>Patterns\<close>
  list with the decoded pattern, and the caller receives the empty document.
\<close>

theorem readFile_partial_tree_counterexample:
  "readFileImpl example_externals
     \<lparr>buffer = example_header @ [0,0,0,84, 0,0,0,80] @ example_pattern, pos = 0\<rparr> =
     (Inl (ASLParseException (FailedToRead ''numStyles'')),
      \<lparr>buffer = example_header @ [0,0,0,84, 0,0,0,80] @ example_pattern, pos = 96\<rparr>,
      [QDomElement ''asl'' []
        [QDomElement ''node''
          [(''type'', QStringLiteral ''List''), (''key'', QStringLiteral ''Patterns'')]
          [QDomElement ''node''
            [(''classId'', QStringLiteral ''KisPattern''),
             (''type'', QStringLiteral ''Descriptor''), (''name'', [])]
            [QDomElement ''node''
              [(''key'', QStringLiteral ''Nm  ''), (''type'', QStringLiteral ''Text''),
               (''value'', QStringLiteral ''A'')] [],
             QDomElement ''node''
              [(''key'', QStringLiteral ''Idnt''), (''type'', QStringLiteral ''Text''),
               (''value'', QStringLiteral ''u'')] [],
             QDomElement ''node''
              [(''type'', QStringLiteral ''KisPatternData''), (''key'', QStringLiteral ''Data'')]
              [QDomCDATASection [0, 0, 9, 255]]]]]])
   \<and> readFile example_externals
     \<lparr>buffer = example_header @ [0,0,0,84, 0,0,0,80] @ example_pattern, pos = 0\<rparr> =
     (Inr [], \<lparr>buffer = example_header @ [0,0,0,84, 0,0,0,80] @ example_pattern, pos = 96\<rparr>)"
  by (simp add: eval_defs)


subsection \<open>Signature checks\<close>

lemma SAFE_READ_SIGNATURE_EX_mismatch:
  "fst (rd device) \<noteq> Some expected \<Longrightarrow>
   SAFE_READ_SIGNATURE_EX rd device nm expected =
     (Inl (ASLParseException (FailedToCheckSignature nm)), snd (rd device))"
  by (auto simp: SAFE_READ_SIGNATURE_EX_def split: prod.splits option.splits)

lemma SAFE_READ_SIGNATURE_EX_match:
  "rd device = (Some expected, d) \<Longrightarrow>
   SAFE_READ_SIGNATURE_EX rd device nm expected = (Inr expected, d)"
  by (simp add: SAFE_READ_SIGNATURE_EX_def)

lemma SAFE_READ_EX_Some:
  "rd device = (Some v, d) \<Longrightarrow> SAFE_READ_EX rd device nm = (Inr v, d)"
  by (simp add: SAFE_READ_EX_def)

lemma psdread_quint_pos_le:
  "pos (snd (psdread_quint16 device)) \<le> pos device + 2"
  "pos (snd (psdread_quint32 device)) \<le> pos device + 4"
  unfolding psdread_quint16_def psdread_quint32_def by (rule psdread_pos_le)+

lemma readFileImpl_after_signatures:
  assumes "psdread_quint16 device = (Some 2, d1)"
    and "psdread_quint32 d1 = (Some 0x3842534c, d2)"
    and "psdread_quint16 d2 = (Some 3, d3)"
  shows "readFileImpl ext device =
     (case readPatternsSection ext d3 (createElement ''asl'') of
        (Inl e, device, root) \<Rightarrow> (Inl e, device, [root])
      | (Inr u, device, root) \<Rightarrow>
          (case readStyles ext device root of (r, device, root) \<Rightarrow> (r, device, [root])))"
  using assms by (simp add: readFileImpl_def Let_def SAFE_READ_SIGNATURE_EX_match)

text \<open>
  C5.  Each of the five signature checks of \<open>readFileImpl\<close>, reached with the fields
  before it in order: when the read of the field is short or gives another value than
  the expected one (container version 2, magic \<open>0x3842534c\<close>, patterns version 3,
  styles format version 16, twice), \<open>readFileImpl\<close> throws the signature error that
  names the field, \<open>readFile\<close> returns the empty document, and the device is as the
  read of the failing field has left it, at most the width of the field past its start.
\<close>

theorem signature_mismatch_aborts:
  "(fst (psdread_quint16 device) \<noteq> Some 2 \<longrightarrow>
      readFileImpl ext device =
        (Inl (ASLParseException (FailedToCheckSignature ''stylesVersion'')),
         snd (psdread_quint16 device), [createElement ''asl''])
      \<and> readFile ext device = (Inr [], snd (psdread_quint16 device))
      \<and> pos (snd (psdread_quint16 device)) \<le> pos device + 2)
   \<and> (psdread_quint16 device = (Some 2, d1) \<and> fst (psdread_quint32 d1) \<noteq> Some 0x3842534c \<longrightarrow>
      readFileImpl ext device =
        (Inl (ASLParseException (FailedToCheckSignature ''aslSignature'')),
         snd (psdread_quint32 d1), [createElement ''asl''])
      \<and> readFile ext device = (Inr [], snd (psdread_quint32 d1))
      \<and> pos (snd (psdread_quint32 d1)) \<le> pos d1 + 4)
   \<and> (psdread_quint16 device = (Some 2, d1) \<and> psdread_quint32 d1 = (Some 0x3842534c, d2) \<and>
      fst (psdread_quint16 d2) \<noteq> Some 3 \<longrightarrow>
      readFileImpl ext device =
        (Inl (ASLParseException (FailedToCheckSignature ''patternsVersion'')),
         snd (psdread_quint16 d2), [createElement ''asl''])
      \<and> readFile ext device = (Inr [], snd (psdread_quint16 d2))
      \<and> pos (snd (psdread_quint16 d2)) \<le> pos d2 + 2)
   \<and> (psdread_quint16 device = (Some 2, d1) \<and> psdread_quint32 d1 = (Some 0x3842534c, d2) \<and>
      psdread_quint16 d2 = (Some 3, d3) \<and>
      readPatternsSection ext d3 (createElement ''asl'') = (Inr u, d4, root) \<and>
      psdread_quint32 d4 = (Some numStyles, d5) \<and> psdread_quint32 d5 = (Some bytesToRead, d6) \<and>
      fst (psdread_quint32 d6) \<noteq> Some 16 \<longrightarrow>
      readFileImpl ext device =
        (Inl (ASLParseException (FailedToCheckSignature ''stylesFormatVersion'')),
         snd (psdread_quint32 d6), [root])
      \<and> readFile ext device = (Inr [], snd (psdread_quint32 d6))
      \<and> pos (snd (psdread_quint32 d6)) \<le> pos d6 + 4)
   \<and> (psdread_quint16 device = (Some 2, d1) \<and> psdread_quint32 d1 = (Some 0x3842534c, d2) \<and>
      psdread_quint16 d2 = (Some 3, d3) \<and>
      readPatternsSection ext d3 (createElement ''asl'') = (Inr u, d4, root) \<and>
      psdread_quint32 d4 = (Some numStyles, d5) \<and> psdread_quint32 d5 = (Some bytesToRead, d6) \<and>
      psdread_quint32 d6 = (Some 16, d7) \<and> readDescriptor ext d7 [] root = (Inr u', d8, root') \<and>
      fst (psdread_quint32 d8) \<noteq> Some 16 \<longrightarrow>
      readFileImpl ext device =
        (Inl (ASLParseException (FailedToCheckSignature ''stylesFormatVersion'')),
         snd (psdread_quint32 d8), [root'])
      \<and> readFile ext device = (Inr [], snd (psdread_quint32 d8))
      \<and> pos (snd (psdread_quint32 d8)) \<le> pos d8 + 4)"
proof (intro conjI impI; (elim conjE)?)
  assume "fst (psdread_quint16 device) \<noteq> Some 2"
  then show "readFileImpl ext device =
        (Inl (ASLParseException (FailedToCheckSignature ''stylesVersion'')),
         snd (psdread_quint16 device), [createElement ''asl''])"
    by (simp add: readFileImpl_def Let_def SAFE_READ_SIGNATURE_EX_mismatch)
  then show "readFile ext device = (Inr [], snd (psdread_quint16 device))"
    by (simp add: readFile_def)
next
  assume a: "psdread_quint16 device = (Some 2, d1)" "fst (psdread_quint32 d1) \<noteq> Some 0x3842534c"
  then show "readFileImpl ext device =
        (Inl (ASLParseException (FailedToCheckSignature ''aslSignature'')),
         snd (psdread_quint32 d1), [createElement ''asl''])"
    by (simp add: readFileImpl_def Let_def SAFE_READ_SIGNATURE_EX_mismatch SAFE_READ_SIGNATURE_EX_match)
  then show "readFile ext device = (Inr [], snd (psdread_quint32 d1))"
    by (simp add: readFile_def)
next
  assume a: "psdread_quint16 device = (Some 2, d1)" "psdread_quint32 d1 = (Some 0x3842534c, d2)"
    "fst (psdread_quint16 d2) \<noteq> Some 3"
  then show "readFileImpl ext device =
        (Inl (ASLParseException (FailedToCheckSignature ''patternsVersion'')),
         snd (psdread_quint16 d2), [createElement ''asl''])"
    by (simp add: readFileImpl_def Let_def SAFE_READ_SIGNATURE_EX_mismatch SAFE_READ_SIGNATURE_EX_match)
  then show "readFile ext device = (Inr [], snd (psdread_quint16 d2))"
    by (simp add: readFile_def)
next
  assume a: "psdread_quint16 device = (Some 2, d1)" "psdread_quint32 d1 = (Some 0x3842534c, d2)"
    "psdread_quint16 d2 = (Some 3, d3)"
    and p: "readPatternsSection ext d3 (createElement ''asl'') = (Inr u, d4, root)"
    and s: "psdread_quint32 d4 = (Some numStyles, d5)" "psdread_quint32 d5 = (Some bytesToRead, d6)"
    and f: "fst (psdread_quint32 d6) \<noteq> Some 16"
  have "readStyles ext d4 root =
      (Inl (ASLParseException (FailedToCheckSignature ''stylesFormatVersion'')), snd (psdread_quint32 d6), root)"
    using s f by (simp add: readStyles_def SAFE_READ_EX_Some SAFE_READ_SIGNATURE_EX_mismatch)
  then show "readFileImpl ext device =
        (Inl (ASLParseException (FailedToCheckSignature ''stylesFormatVersion'')),
         snd (psdread_quint32 d6), [root])"
    using p by (simp add: readFileImpl_after_signatures [OF a])
  then show "readFile ext device = (Inr [], snd (psdread_quint32 d6))"
    by (simp add: readFile_def)
next
  assume a: "psdread_quint16 device = (Some 2, d1)" "psdread_quint32 d1 = (Some 0x3842534c, d2)"
    "psdread_quint16 d2 = (Some 3, d3)"
    and p: "readPatternsSection ext d3 (createElement ''asl'') = (Inr u, d4, root)"
    and s: "psdread_quint32 d4 = (Some numStyles, d5)" "psdread_quint32 d5 = (Some bytesToRead, d6)"
      "psdread_quint32 d6 = (Some 16, d7)"
    and d: "readDescriptor ext d7 [] root = (Inr u', d8, root')"
    and f: "fst (psdread_quint32 d8) \<noteq> Some 16"
  have "readStyles ext d4 root =
      (Inl (ASLParseException (FailedToCheckSignature ''stylesFormatVersion'')), snd (psdread_quint32 d8), root')"
    using s d f
    by (simp add: readStyles_def SAFE_READ_EX_Some SAFE_READ_SIGNATURE_EX_mismatch SAFE_READ_SIGNATURE_EX_match)
  then show "readFileImpl ext device =
        (Inl (ASLParseException (FailedToCheckSignature ''stylesFormatVersion'')),
         snd (psdread_quint32 d8), [root'])"
    using p by (simp add: readFileImpl_after_signatures [OF a])
  then show "readFile ext device = (Inr [], snd (psdread_quint32 d8))"
    by (simp add: readFile_def)
qed (rule psdread_quint_pos_le)+


theorem signature_mismatch_aborts_witness:
  "readFile example_externals \<lparr>buffer = [0, 1], pos = 0\<rparr> = (Inr [], \<lparr>buffer = [0, 1], pos = 2\<rparr>)
   \<and> readFile example_externals \<lparr>buffer = [0, 2, 0x38, 0x42, 0x53, 0x4d], pos = 0\<rparr> =
       (Inr [], \<lparr>buffer = [0, 2, 0x38, 0x42, 0x53, 0x4d], pos = 6\<rparr>)
   \<and> readFile example_externals \<lparr>buffer = [0, 2, 0x38, 0x42, 0x53, 0x4c, 0, 4], pos = 0\<rparr> =
       (Inr [], \<lparr>buffer = [0, 2, 0x38, 0x42, 0x53, 0x4c, 0, 4], pos = 8\<rparr>)
   \<and> readFile example_externals
         \<lparr>buffer = [0, 2, 0x38, 0x42, 0x53, 0x4c, 0, 3, 0,0,0,0, 0,0,0,2, 0,0,0,40, 0,0,0,17, 1, 2],
          pos = 0\<rparr> =
       (Inr [], \<lparr>buffer = [0, 2, 0x38, 0x42, 0x53, 0x4c, 0, 3, 0,0,0,0, 0,0,0,2, 0,0,0,40, 0,0,0,17, 1, 2],
          pos = 24\<rparr>)
   \<and> readFile example_externals
         \<lparr>buffer = [0, 2, 0x38, 0x42, 0x53, 0x4c, 0, 3, 0,0,0,0, 0,0,0,2, 0,0,0,40, 0,0,0,16,
                     0,0,0,0, 0,0,0,0, 0x6e,0x75,0x6c,0x6c, 0,0,0,0, 0,0,0,15, 1, 2], pos = 0\<rparr> =
       (Inr [], \<lparr>buffer = [0, 2, 0x38, 0x42, 0x53, 0x4c, 0, 3, 0,0,0,0, 0,0,0,2, 0,0,0,40, 0,0,0,16,
                     0,0,0,0, 0,0,0,0, 0x6e,0x75,0x6c,0x6c, 0,0,0,0, 0,0,0,15, 1, 2], pos = 44\<rparr>)"
proof -
  let ?b1 = "[0, 1] :: QByteArray"
  let ?b2 = "[0, 2, 0x38, 0x42, 0x53, 0x4d] :: QByteArray"
  let ?b3 = "[0, 2, 0x38, 0x42, 0x53, 0x4c, 0, 4] :: QByteArray"
  let ?b4 = "[0, 2, 0x38, 0x42, 0x53, 0x4c, 0, 3, 0,0,0,0, 0,0,0,2, 0,0,0,40, 0,0,0,17, 1, 2] :: QByteArray"
  let ?b5 = "[0, 2, 0x38, 0x42, 0x53, 0x4c, 0, 3, 0,0,0,0, 0,0,0,2, 0,0,0,40, 0,0,0,16,
              0,0,0,0, 0,0,0,0, 0x6e,0x75,0x6c,0x6c, 0,0,0,0, 0,0,0,15, 1, 2] :: QByteArray"
  have h1: "fst (psdread_quint16 \<lparr>buffer = ?b1, pos = 0\<rparr>) \<noteq> Some 2"
    by (simp add: reader_defs)
  have r1: "snd (psdread_quint16 \<lparr>buffer = ?b1, pos = 0\<rparr>) = \<lparr>buffer = ?b1, pos = 2\<rparr>"
    by (simp add: reader_defs)
  have h2: "psdread_quint16 \<lparr>buffer = ?b2, pos = 0\<rparr> = (Some 2, \<lparr>buffer = ?b2, pos = 2\<rparr>) \<and>
      fst (psdread_quint32 \<lparr>buffer = ?b2, pos = 2\<rparr>) \<noteq> Some 0x3842534c"
    by (simp add: reader_defs)
  have r2: "snd (psdread_quint32 \<lparr>buffer = ?b2, pos = 2\<rparr>) = \<lparr>buffer = ?b2, pos = 6\<rparr>"
    by (simp add: reader_defs)
  have h3: "psdread_quint16 \<lparr>buffer = ?b3, pos = 0\<rparr> = (Some 2, \<lparr>buffer = ?b3, pos = 2\<rparr>) \<and>
      psdread_quint32 \<lparr>buffer = ?b3, pos = 2\<rparr> = (Some 0x3842534c, \<lparr>buffer = ?b3, pos = 6\<rparr>) \<and>
      fst (psdread_quint16 \<lparr>buffer = ?b3, pos = 6\<rparr>) \<noteq> Some 3"
    by (simp add: reader_defs)
  have r3: "snd (psdread_quint16 \<lparr>buffer = ?b3, pos = 6\<rparr>) = \<lparr>buffer = ?b3, pos = 8\<rparr>"
    by (simp add: reader_defs)
  have h4: "psdread_quint16 \<lparr>buffer = ?b4, pos = 0\<rparr> = (Some 2, \<lparr>buffer = ?b4, pos = 2\<rparr>) \<and>
      psdread_quint32 \<lparr>buffer = ?b4, pos = 2\<rparr> = (Some 0x3842534c, \<lparr>buffer = ?b4, pos = 6\<rparr>) \<and>
      psdread_quint16 \<lparr>buffer = ?b4, pos = 6\<rparr> = (Some 3, \<lparr>buffer = ?b4, pos = 8\<rparr>) \<and>
      readPatternsSection example_externals \<lparr>buffer = ?b4, pos = 8\<rparr> (createElement ''asl'') =
        (Inr (), \<lparr>buffer = ?b4, pos = 12\<rparr>, createElement ''asl'') \<and>
      psdread_quint32 \<lparr>buffer = ?b4, pos = 12\<rparr> = (Some 2, \<lparr>buffer = ?b4, pos = 16\<rparr>) \<and>
      psdread_quint32 \<lparr>buffer = ?b4, pos = 16\<rparr> = (Some 40, \<lparr>buffer = ?b4, pos = 20\<rparr>) \<and>
      fst (psdread_quint32 \<lparr>buffer = ?b4, pos = 20\<rparr>) \<noteq> Some 16"
    by (simp add: reader_defs readPatternsSection_def)
  have r4: "snd (psdread_quint32 \<lparr>buffer = ?b4, pos = 20\<rparr>) = \<lparr>buffer = ?b4, pos = 24\<rparr>"
    by (simp add: reader_defs)
  have h5: "psdread_quint16 \<lparr>buffer = ?b5, pos = 0\<rparr> = (Some 2, \<lparr>buffer = ?b5, pos = 2\<rparr>) \<and>
      psdread_quint32 \<lparr>buffer = ?b5, pos = 2\<rparr> = (Some 0x3842534c, \<lparr>buffer = ?b5, pos = 6\<rparr>) \<and>
      psdread_quint16 \<lparr>buffer = ?b5, pos = 6\<rparr> = (Some 3, \<lparr>buffer = ?b5, pos = 8\<rparr>) \<and>
      readPatternsSection example_externals \<lparr>buffer = ?b5, pos = 8\<rparr> (createElement ''asl'') =
        (Inr (), \<lparr>buffer = ?b5, pos = 12\<rparr>, createElement ''asl'') \<and>
      psdread_quint32 \<lparr>buffer = ?b5, pos = 12\<rparr> = (Some 2, \<lparr>buffer = ?b5, pos = 16\<rparr>) \<and>
      psdread_quint32 \<lparr>buffer = ?b5, pos = 16\<rparr> = (Some 40, \<lparr>buffer = ?b5, pos = 20\<rparr>) \<and>
      psdread_quint32 \<lparr>buffer = ?b5, pos = 20\<rparr> = (Some 16, \<lparr>buffer = ?b5, pos = 24\<rparr>) \<and>
      readDescriptor example_externals \<lparr>buffer = ?b5, pos = 24\<rparr> [] (createElement ''asl'') =
        (Inr (), \<lparr>buffer = ?b5, pos = 40\<rparr>,
         QDomElement ''asl'' [] [QDomElement ''node''
           [(''type'', QStringLiteral ''Descriptor''), (''classId'', QStringLiteral ''null''),
            (''name'', [])] []]) \<and>
      fst (psdread_quint32 \<lparr>buffer = ?b5, pos = 40\<rparr>) \<noteq> Some 16"
    by (simp add: reader_defs readPatternsSection_def readDescriptor.simps readChildObjects.simps
        readUnicodeString_def psdread_unicodestring_def createElement_def
        appendXMLNodeCommonNoValue_def)
  have r5: "snd (psdread_quint32 \<lparr>buffer = ?b5, pos = 40\<rparr>) = \<lparr>buffer = ?b5, pos = 44\<rparr>"
    by (simp add: reader_defs)
  note t = signature_mismatch_aborts [where ext = example_externals]
  show ?thesis
    using t [THEN conjunct1, rule_format, OF h1, THEN conjunct2, THEN conjunct1]
      t [THEN conjunct2, THEN conjunct1, rule_format, OF h2, THEN conjunct2, THEN conjunct1]
      t [THEN conjunct2, THEN conjunct2, THEN conjunct1, rule_format, OF h3, THEN conjunct2, THEN conjunct1]
      t [THEN conjunct2, THEN conjunct2, THEN conjunct2, THEN conjunct1, rule_format, OF h4,
         THEN conjunct2, THEN conjunct1]
      t [THEN conjunct2, THEN conjunct2, THEN conjunct2, THEN conjunct2, rule_format, OF h5,
         THEN conjunct2, THEN conjunct1]
    by (simp only: r1 r2 r3 r4 r5 simp_thms)
qed

subsection \<open>The patterns loop\<close>

lemma readPatternPayload_Inl:
  "readPatternPayload ext device patternSize mode name parent = (Inl e, device', parent') \<Longrightarrow>
   parent' = parent"
  unfolding readPatternPayload_def Let_def
  by (auto split: prod.splits sum.splits if_splits)

lemma readPatternPayload_Inr:
  assumes "readPatternPayload ext device patternSize mode name parent = (Inr chunk, device', parent')"
  shows "\<exists>pat. parent' = appendChild parent pat \<and>
     nodeHead pat = Inl (''node'', [(''classId'', QStringLiteral ''KisPattern''),
       (''type'', QStringLiteral ''Descriptor''), (''name'', [])])"
proof -
  obtain patternUuid d1 where u: "readPascalString device = (Inr patternUuid, d1)"
    using assms unfolding readPatternPayload_def by (auto split: prod.splits sum.splits)
  obtain numPlanes :: int where m: "(if mode = MultiChannel ext \<or> mode = Grayscale ext then Inr 1
            else if mode = RGB ext then Inr 3
            else Inl (ASLParseException (Message ''Unsupported image mode''))) = Inr numPlanes"
    using assms unfolding readPatternPayload_def u prod.case sum.case
    by (auto split: sum.splits)
  obtain patternImage d2 where v: "readVirtualArrayList ext d1 numPlanes = (Inr patternImage, d2)"
    using assms unfolding readPatternPayload_def u prod.case sum.case m Let_def
    by (auto split: prod.splits sum.splits)
  show ?thesis
    using assms unfolding readPatternPayload_def u prod.case sum.case m Let_def v
    by (auto simp: createElement_def)
qed

lemma readPattern_payload_result:
  assumes "readPattern ext device parent = (r, device', parent')"
  shows "parent' = parent \<or>
    (\<exists>d patternSize mode name d'. readPatternPayload ext d patternSize mode name parent = (r, d', parent'))"
  using assms unfolding readPattern_def Let_def
  by (auto split: prod.splits sum.splits if_splits)

lemma readPattern_failure_parent:
  "readPattern ext device parent = (Inl e, device', parent') \<Longrightarrow> parent' = parent"
  using readPattern_payload_result [of ext device parent "Inl e" device' parent']
  by (auto dest: readPatternPayload_Inl)

lemma readPattern_success_parent:
  assumes "readPattern ext device parent = (Inr chunk, device', parent')"
  shows "\<exists>pat. parent' = appendChild parent pat \<and>
     nodeHead pat = Inl (''node'', [(''classId'', QStringLiteral ''KisPattern''),
       (''type'', QStringLiteral ''Descriptor''), (''name'', [])])"
proof -
  have "\<exists>d patternSize mode name d'. readPatternPayload ext d patternSize mode name parent = (Inr chunk, d', parent')"
    using assms unfolding readPattern_def Let_def
    by (auto split: prod.splits sum.splits if_splits; blast)
  then show ?thesis
    by (auto dest: readPatternPayload_Inr)
qed

lemma readPatterns_failing_pattern:
  "bytesRead < patternsSize \<Longrightarrow> readPattern ext device patternsRoot = (Inl e, device', patternsRoot') \<Longrightarrow>
   readPatterns ext device patternsRoot bytesRead patternsSize = (Inl e, device', patternsRoot)"
  using readPattern_failure_parent [of ext device patternsRoot e device' patternsRoot']
  by (simp add: readPatterns.simps [of ext device patternsRoot bytesRead patternsSize])

lemma foldl_appendChild:
  "foldl appendChild (QDomElement t as cs) patterns = QDomElement t as (cs @ patterns)"
  by (induction patterns arbitrary: cs) simp_all

lemma readPatterns_appends:
  "readPatterns ext device patternsRoot bytesRead patternsSize = (r, device', patternsRoot') \<Longrightarrow>
   \<exists>patterns. patternsRoot' = foldl appendChild patternsRoot patterns \<and>
     (\<forall>p\<in>set patterns. nodeHead p = Inl (''node'', [(''classId'', QStringLiteral ''KisPattern''),
       (''type'', QStringLiteral ''Descriptor''), (''name'', [])]))"
proof (induction ext device patternsRoot bytesRead patternsSize rule: readPatterns.induct)
  case (1 ext device patternsRoot bytesRead patternsSize)
  show ?case
  proof (cases "bytesRead < patternsSize")
    case False
    then have "patternsRoot' = foldl appendChild patternsRoot []"
      using "1.prems" by (simp add: readPatterns.simps [of ext device _ bytesRead patternsSize])
    then show ?thesis by (intro exI [of _ "[]"]) simp
  next
    case True
    obtain r1 d1 p1 where rp: "readPattern ext device patternsRoot = (r1, d1, p1)"
      by (cases "readPattern ext device patternsRoot")
    show ?thesis
    proof (cases r1)
      case (Inl e)
      then have "patternsRoot' = foldl appendChild patternsRoot []"
        using "1.prems" readPatterns_failing_pattern [OF True rp [unfolded Inl]] by simp
      then show ?thesis by (intro exI [of _ "[]"]) simp
    next
      case (Inr chunk)
      obtain pat where p1: "p1 = appendChild patternsRoot pat"
        and h: "nodeHead pat = Inl (''node'', [(''classId'', QStringLiteral ''KisPattern''),
       (''type'', QStringLiteral ''Descriptor''), (''name'', [])])"
        using readPattern_success_parent [OF rp [unfolded Inr]] by auto
      have "readPatterns ext d1 p1 (bytesRead + chunk) patternsSize = (r, device', patternsRoot')"
        using "1.prems" True rp Inr
        by (simp add: readPatterns.simps [of ext device _ bytesRead patternsSize])
      from "1.IH" [OF True rp [symmetric] Inr refl this]
      obtain patterns where "patternsRoot' = foldl appendChild p1 patterns"
        and "\<forall>p\<in>set patterns. nodeHead p = Inl (''node'', [(''classId'', QStringLiteral ''KisPattern''),
       (''type'', QStringLiteral ''Descriptor''), (''name'', [])])"
        by blast
      then have "patternsRoot' = foldl appendChild patternsRoot (pat # patterns) \<and>
        (\<forall>p\<in>set (pat # patterns). nodeHead p = Inl (''node'', [(''classId'', QStringLiteral ''KisPattern''),
       (''type'', QStringLiteral ''Descriptor''), (''name'', [])]))"
        using h p1 by simp
      then show ?thesis by blast
    qed
  qed
qed


text \<open>
  C6.  A container whose three signature fields are right and whose patterns section has
  a length above zero.  The loop over the patterns has made \<open>k\<close> iterations, each of
  which decoded a pattern, and the pattern that follows throws a parse error.  Then the
  \<open>Patterns\<close> list that the loop leaves is the list as it was after the \<open>k\<close>-th
  pattern: it holds \<open>k\<close> nodes, one for each pattern decoded, each a \<open>KisPattern\<close>
  descriptor.  The loop ends with the error of the failing pattern, so no later pattern is
  read; the block of the patterns section catches the error and ends normally, with the
  device at the end offset of the section; and \<open>readFileImpl\<close> goes on with the
  styles, on the tree whose root holds that list.
\<close>

theorem patterns_loop_keeps_decoded_patterns:
  assumes sig: "psdread_quint16 device = (Some 2, d1)" "psdread_quint32 d1 = (Some 0x3842534c, d2)"
      "psdread_quint16 d2 = (Some 3, d3)"
    and size: "psdread_quint32 d3 = (Some patternsSize, d4)" "0 < patternsSize"
    and decoded: "patternsLoopAfter ext (unat patternsSize) k d4
        (QDomElement ''node'' [(''type'', QStringLiteral ''List''), (''key'', QStringLiteral ''Patterns'')] [])
        0 = Some (d, patternsRoot, bytesRead)"
    and more: "bytesRead < unat patternsSize"
    and failing: "readPattern ext d patternsRoot = (Inl (ASLParseException e), d5, patternsRoot')"
  shows "(\<exists>patterns. length patterns = k \<and> patternsRoot =
            QDomElement ''node'' [(''type'', QStringLiteral ''List''), (''key'', QStringLiteral ''Patterns'')] patterns \<and>
          (\<forall>p\<in>set patterns. nodeHead p = Inl (''node'', [(''classId'', QStringLiteral ''KisPattern''),
             (''type'', QStringLiteral ''Descriptor''), (''name'', [])])))
     \<and> readPatterns ext d4
          (QDomElement ''node'' [(''type'', QStringLiteral ''List''), (''key'', QStringLiteral ''Patterns'')] [])
          0 (unat patternsSize) = (Inl (ASLParseException e), d5, patternsRoot)
     \<and> readPatternsSection ext d3 (createElement ''asl'') =
          (Inr (), offsetVerifierExit (pos d4 + unat patternsSize) d5, QDomElement ''asl'' [] [patternsRoot])
     \<and> readFileImpl ext device =
          (case readStyles ext (offsetVerifierExit (pos d4 + unat patternsSize) d5)
                  (QDomElement ''asl'' [] [patternsRoot]) of
             (r, device', root) \<Rightarrow> (r, device', [root]))"
proof -
  let ?n = "unat patternsSize"
  let ?head = "Inl (''node'', [(''classId'', QStringLiteral ''KisPattern''),
             (''type'', QStringLiteral ''Descriptor''), (''name'', [])])"
  have run: "readPatterns ext dv pr br ?n = readPatterns ext d patternsRoot bytesRead ?n \<and>
      (\<exists>patterns. length patterns = j \<and> patternsRoot = foldl appendChild pr patterns \<and>
         (\<forall>p\<in>set patterns. nodeHead p = ?head))"
    if "patternsLoopAfter ext ?n j dv pr br = Some (d, patternsRoot, bytesRead)" for j dv pr br
    using that
  proof (induction j arbitrary: dv pr br)
    case 0
    then have "patternsRoot = foldl appendChild pr [] \<and> d = dv \<and> bytesRead = br" by simp
    then show ?case by (simp add: exI [of _ "[]"])
  next
    case (Suc j)
    have lt: "br < ?n"
      using Suc.prems by (simp split: if_splits)
    obtain r d1 p1 where rp: "readPattern ext dv pr = (r, d1, p1)"
      by (cases "readPattern ext dv pr")
    obtain chunk where r: "r = Inr chunk"
      using Suc.prems lt rp by (cases r) simp_all
    obtain pat where p1: "p1 = appendChild pr pat" and h: "nodeHead pat = ?head"
      using readPattern_success_parent [OF rp [unfolded r]] by auto
    have "patternsLoopAfter ext ?n j d1 p1 (br + chunk) = Some (d, patternsRoot, bytesRead)"
      using Suc.prems lt rp r by simp
    from Suc.IH [OF this]
    obtain patterns where eq: "readPatterns ext d1 p1 (br + chunk) ?n = readPatterns ext d patternsRoot bytesRead ?n"
      and ps: "length patterns = j" "patternsRoot = foldl appendChild p1 patterns"
        "\<forall>p\<in>set patterns. nodeHead p = ?head"
      by blast
    have step: "readPatterns ext dv pr br ?n = readPatterns ext d1 p1 (br + chunk) ?n"
      using lt rp r by (simp add: readPatterns.simps [of ext dv pr br ?n])
    have "length (pat # patterns) = Suc j \<and> patternsRoot = foldl appendChild pr (pat # patterns) \<and>
        (\<forall>p\<in>set (pat # patterns). nodeHead p = ?head)"
      using ps h p1 by simp
    then have "\<exists>patterns. length patterns = Suc j \<and> patternsRoot = foldl appendChild pr patterns \<and>
        (\<forall>p\<in>set patterns. nodeHead p = ?head)"
      by blast
    moreover have "readPatterns ext dv pr br ?n = readPatterns ext d patternsRoot bytesRead ?n"
      using step eq by simp
    ultimately show ?case
      by (intro conjI)
  qed
  have c: "\<exists>patterns. length patterns = k \<and> patternsRoot =
            QDomElement ''node'' [(''type'', QStringLiteral ''List''), (''key'', QStringLiteral ''Patterns'')] patterns \<and>
          (\<forall>p\<in>set patterns. nodeHead p = Inl (''node'', [(''classId'', QStringLiteral ''KisPattern''),
             (''type'', QStringLiteral ''Descriptor''), (''name'', [])]))"
    using run [OF decoded] by (simp add: foldl_appendChild)
  have loop: "readPatterns ext d4
          (QDomElement ''node'' [(''type'', QStringLiteral ''List''), (''key'', QStringLiteral ''Patterns'')] [])
          0 (unat patternsSize) = (Inl (ASLParseException e), d5, patternsRoot)"
    using run [OF decoded] readPatterns_failing_pattern [OF more failing] by simp
  have ps: "readPatternsSection ext d3 (createElement ''asl'') =
          (Inr (), offsetVerifierExit (pos d4 + unat patternsSize) d5, QDomElement ''asl'' [] [patternsRoot])"
    using size loop
    by (simp add: readPatternsSection_def SAFE_READ_EX_Some Let_def createElement_def
        SETUP_OFFSET_VERIFIER_def)
  have f: "readFileImpl ext device =
          (case readStyles ext (offsetVerifierExit (pos d4 + unat patternsSize) d5)
                  (QDomElement ''asl'' [] [patternsRoot]) of
             (r, device', root) \<Rightarrow> (r, device', [root]))"
    by (simp add: readFileImpl_after_signatures [OF sig] ps)
  show ?thesis
    using c loop ps f by simp
qed

theorem patterns_loop_keeps_decoded_patterns_witness:
  "readFileImpl example_externals
     \<lparr>buffer = example_header @ [0,0,0,100, 0,0,0,80] @ example_pattern
                @ [0,0,0,80, 0,0,0,2, 1,2,3,4,5,6,7,8, 0,0,0,2, 0,0,0,40, 0,0,0,16]
                @ example_descriptor @ [0,0,0,16] @ example_descriptor, pos = 0\<rparr> =
   (Inr (),
    \<lparr>buffer = example_header @ [0,0,0,100, 0,0,0,80] @ example_pattern
                @ [0,0,0,80, 0,0,0,2, 1,2,3,4,5,6,7,8, 0,0,0,2, 0,0,0,40, 0,0,0,16]
                @ example_descriptor @ [0,0,0,16] @ example_descriptor, pos = 160\<rparr>,
    [QDomElement ''asl'' []
      [QDomElement ''node''
        [(''type'', QStringLiteral ''List''), (''key'', QStringLiteral ''Patterns'')]
        [QDomElement ''node''
          [(''classId'', QStringLiteral ''KisPattern''),
           (''type'', QStringLiteral ''Descriptor''), (''name'', [])]
          [QDomElement ''node''
            [(''key'', QStringLiteral ''Nm  ''), (''type'', QStringLiteral ''Text''),
             (''value'', QStringLiteral ''A'')] [],
           QDomElement ''node''
            [(''key'', QStringLiteral ''Idnt''), (''type'', QStringLiteral ''Text''),
             (''value'', QStringLiteral ''u'')] [],
           QDomElement ''node''
            [(''type'', QStringLiteral ''KisPatternData''), (''key'', QStringLiteral ''Data'')]
            [QDomCDATASection [0, 0, 9, 255]]]],
       QDomElement ''node''
        [(''type'', QStringLiteral ''Descriptor''), (''classId'', QStringLiteral ''null''),
         (''name'', [])] [],
       QDomElement ''node''
        [(''type'', QStringLiteral ''Descriptor''), (''classId'', QStringLiteral ''null''),
         (''name'', [])] []]])"
proof -
  let ?b = "example_header @ [0,0,0,100, 0,0,0,80] @ example_pattern
                @ [0,0,0,80, 0,0,0,2, 1,2,3,4,5,6,7,8, 0,0,0,2, 0,0,0,40, 0,0,0,16]
                @ example_descriptor @ [0,0,0,16] @ example_descriptor"
  let ?pattern = "QDomElement ''node''
          [(''classId'', QStringLiteral ''KisPattern''),
           (''type'', QStringLiteral ''Descriptor''), (''name'', [])]
          [QDomElement ''node''
            [(''key'', QStringLiteral ''Nm  ''), (''type'', QStringLiteral ''Text''),
             (''value'', QStringLiteral ''A'')] [],
           QDomElement ''node''
            [(''key'', QStringLiteral ''Idnt''), (''type'', QStringLiteral ''Text''),
             (''value'', QStringLiteral ''u'')] [],
           QDomElement ''node''
            [(''type'', QStringLiteral ''KisPatternData''), (''key'', QStringLiteral ''Data'')]
            [QDomCDATASection [0, 0, 9, 255]]]"
  let ?list = "QDomElement ''node'' [(''type'', QStringLiteral ''List''), (''key'', QStringLiteral ''Patterns'')]
         [?pattern]"
  have h1: "psdread_quint16 \<lparr>buffer = ?b, pos = 0\<rparr> = (Some 2, \<lparr>buffer = ?b, pos = 2\<rparr>)"
    by (simp add: reader_defs example_header_def)
  have h2: "psdread_quint32 \<lparr>buffer = ?b, pos = 2\<rparr> = (Some 0x3842534c, \<lparr>buffer = ?b, pos = 6\<rparr>)"
    by (simp add: reader_defs example_header_def)
  have h3: "psdread_quint16 \<lparr>buffer = ?b, pos = 6\<rparr> = (Some 3, \<lparr>buffer = ?b, pos = 8\<rparr>)"
    by (simp add: reader_defs example_header_def)
  have h4: "psdread_quint32 \<lparr>buffer = ?b, pos = 8\<rparr> = (Some 100, \<lparr>buffer = ?b, pos = 12\<rparr>)"
    by (simp add: reader_defs example_header_def)
  have h5: "0 < (100 :: quint32)"
    by simp
  have h6: "patternsLoopAfter example_externals (unat (100 :: quint32)) (Suc 0) \<lparr>buffer = ?b, pos = 12\<rparr>
        (QDomElement ''node'' [(''type'', QStringLiteral ''List''), (''key'', QStringLiteral ''Patterns'')] [])
        0 = Some (\<lparr>buffer = ?b, pos = 96\<rparr>, ?list, 84)"
    by (simp add: eval_defs)
  have h7: "84 < unat (100 :: quint32)"
    by simp
  have h8: "readPattern example_externals \<lparr>buffer = ?b, pos = 96\<rparr> ?list =
      (Inl (ASLParseException (Message ''Pattern version is not 1'')), \<lparr>buffer = ?b, pos = 180\<rparr>, ?list)"
    by (simp add: eval_defs)
  have h9: "readStyles example_externals
        (offsetVerifierExit (pos \<lparr>buffer = ?b, pos = 12\<rparr> + unat (100 :: quint32)) \<lparr>buffer = ?b, pos = 180\<rparr>)
        (QDomElement ''asl'' [] [?list]) =
      (Inr (), \<lparr>buffer = ?b, pos = 160\<rparr>,
       QDomElement ''asl'' [] [?list,
         QDomElement ''node''
          [(''type'', QStringLiteral ''Descriptor''), (''classId'', QStringLiteral ''null''),
           (''name'', [])] [],
         QDomElement ''node''
          [(''type'', QStringLiteral ''Descriptor''), (''classId'', QStringLiteral ''null''),
           (''name'', [])] []])"
    by (simp add: eval_defs)
  show ?thesis
    using patterns_loop_keeps_decoded_patterns [OF h1 h2 h3 h4 h5 h6 h7 h8, THEN conjunct2, THEN conjunct2,
        THEN conjunct2]
    by (simp only: h9 prod.case)
qed

subsection \<open>Run-length rows\<close>

lemma readRows_append:
  "readRows ext planeRect (xs @ ys) device dataPlane =
     (case readRows ext planeRect xs device dataPlane of
        (Inl e, device') \<Rightarrow> (Inl e, device')
      | (Inr dataPlane', device') \<Rightarrow> readRows ext planeRect ys device' dataPlane')"
  by (induction xs arbitrary: device dataPlane) (simp_all add: Let_def split: prod.splits)

lemma device_readAll_length:
  "device_readAll device (uint rowSize) = (data, device') \<Longrightarrow>
   length data = min (unat rowSize) (bytesAvailable device) \<and>
   device' = device\<lparr>pos := pos device + length data\<rparr>"
  by (auto simp: device_readAll_def device_read_def bytesAvailable_def Let_def)

lemma offsetVerifierExit_eq:
  "offsetVerifierExit expectedPos device = device\<lparr>pos := expectedPos\<rparr>"
  by (simp add: offsetVerifierExit_def seek_def)

lemma readPlanes_append:
  "readPlanes ext device arrayRect dataPlanes (xs @ ys) =
     (case readPlanes ext device arrayRect dataPlanes xs of
        (Inl e, device') \<Rightarrow> (Inl e, device')
      | (Inr dataPlanes', device') \<Rightarrow> readPlanes ext device' arrayRect dataPlanes' ys)"
  by (induction xs arbitrary: device dataPlanes) (simp_all split: prod.splits sum.splits)

lemma readRows_row:
  assumes before: "readRows ext planeRect before device dataPlane = (Inr dataPlane1, device1)"
    and rd: "device_readAll device1 (uint rowSize) = (compressedData, device2)"
  shows "readRows ext planeRect (before @ rowSize # rest) device dataPlane =
      (if length compressedData \<noteq> unat rowSize
       then (Inl (ASLParseException (Message ''VAList: failed to read compressed data!'')), device2)
       else if int (length (Compression_uncompress ext (sint (QRect_width planeRect)) compressedData))
                 \<noteq> sint (QRect_width planeRect)
            then (Inl (ASLParseException (Message ''VAList: failed to decompress data!'')), device2)
            else readRows ext planeRect rest device2
                   (dataPlane1 @ Compression_uncompress ext (sint (QRect_width planeRect)) compressedData))"
proof -
  have a: "readRows ext planeRect (before @ rowSize # rest) device dataPlane =
      readRows ext planeRect (rowSize # rest) device1 dataPlane1"
    by (simp add: readRows_append before)
  have u: "int (length compressedData) \<noteq> uint rowSize \<longleftrightarrow> length compressedData \<noteq> unat rowSize"
    by (simp only: uint_nat of_nat_eq_iff)
  show ?thesis
    unfolding a by (simp only: readRows.simps rd prod.case u Let_def)
qed

text \<open>
  C7.  A pattern record whose fields are read up to a plane with run-length compression:
  the header of the pattern, an image mode of one or three planes, the header of the
  virtual array list (version 3, 24 channels), the planes before plane \<open>i\<close> decoded,
  and plane \<open>i\<close> with its two flags set, depth 8, the rectangle of the array, and the
  sizes of its rows read.  At the row of size \<open>rowSize\<close> that follows the rows
  \<open>before\<close>, which were decoded, the program reads \<open>rowSize\<close> bytes.  When fewer
  are left, \<open>readPattern\<close> throws the parse error of the short read; when the bytes are
  read, exactly \<open>rowSize\<close> of them, and what they decompress to is not \<open>width\<close>
  bytes long, fewer or more, \<open>readPattern\<close> throws the parse error of the
  decompression.  In both cases the parent gets no node, and the device is at the end
  offset of the pattern record.
\<close>

theorem rle_row_mismatch_fails_pattern:
  fixes numPlanes :: nat
  assumes header: "psdread_quint32 device = (Some n, d1)" "psdread_quint32 d1 = (Some 1, d2)"
      "psdread_quint32 d2 = (Some patternImageMode, d3)" "psdread_quint16 d3 = (Some patternHeight, d4)"
      "psdread_quint16 d4 = (Some patternWidth, d5)" "psdread_unicodestring d5 = (patternName, d6)"
      "readPascalString d6 = (Inr patternUuid, d7)"
    and mode: "patternImageMode = MultiChannel ext \<or> patternImageMode = Grayscale ext \<or>
        patternImageMode = RGB ext"
      "numPlanes = (if patternImageMode = MultiChannel ext \<or> patternImageMode = Grayscale ext then 1 else 3)"
    and array: "psdread_quint32 d7 = (Some 3, d8)" "psdread_quint32 d8 = (Some arrayLength, d9)"
      "psdread_quint32 d9 = (Some y0, d10)" "psdread_quint32 d10 = (Some x0, d11)"
      "psdread_quint32 d11 = (Some y1, d12)" "psdread_quint32 d12 = (Some x1, d13)"
      "psdread_quint32 d13 = (Some 24, d14)"
    and planes: "i < numPlanes"
      "readPlanes ext d14 (QRect_xywh x0 y0 (x1 - x0) (y1 - y0)) [[], [], []] [0..<i] = (Inr dataPlanes, d15)"
    and plane: "psdread_quint32 d15 = (Some arrayWritten, d16)" "arrayWritten \<noteq> 0"
      "psdread_quint32 d16 = (Some arrayPlaneLength, d17)" "arrayPlaneLength \<noteq> 0"
      "psdread_quint32 d17 = (Some 8, d18)"
      "psdread_quint32 d18 = (Some y0, d19)" "psdread_quint32 d19 = (Some x0, d20)"
      "psdread_quint32 d20 = (Some y1, d21)" "psdread_quint32 d21 = (Some x1, d22)"
      "psdread_quint16 d22 = (Some 8, d23)"
      "psdread_quint8 d23 = (Some (Compression_RLE ext), d24)"
      "Compression_RLE ext \<noteq> Compression_Uncompressed ext"
    and sizes: "readRowSizes (nat (sint (QRect_height (QRect_xywh x0 y0 (x1 - x0) (y1 - y0))))) d24 [] =
        (Inr (before @ rowSize # rest), d25)"
    and before: "readRows ext (QRect_xywh x0 y0 (x1 - x0) (y1 - y0)) before d25 [] = (Inr dataPlane, d26)"
    and row: "device_readAll d26 (uint rowSize) = (compressedData, d27)"
  shows "(length compressedData \<noteq> unat rowSize \<longrightarrow>
        readPattern ext device parent =
          (Inl (ASLParseException (Message ''VAList: failed to read compressed data!'')),
           d27\<lparr>pos := pos d1 + unat (of_nat (alignOffsetCeil (unat n) 4) :: quint32)\<rparr>, parent))
     \<and> (length compressedData = unat rowSize \<and>
        int (length (Compression_uncompress ext
               (sint (QRect_width (QRect_xywh x0 y0 (x1 - x0) (y1 - y0)))) compressedData))
          \<noteq> sint (QRect_width (QRect_xywh x0 y0 (x1 - x0) (y1 - y0))) \<longrightarrow>
        readPattern ext device parent =
          (Inl (ASLParseException (Message ''VAList: failed to decompress data!'')),
           d27\<lparr>pos := pos d1 + unat (of_nat (alignOffsetCeil (unat n) 4) :: quint32)\<rparr>, parent))
     \<and> (length compressedData = unat rowSize \<longrightarrow> pos d27 = pos d26 + unat rowSize)
     \<and> (length compressedData \<noteq> unat rowSize \<longleftrightarrow> bytesAvailable d26 < unat rowSize)"
proof -
  let ?R = "QRect_xywh x0 y0 (x1 - x0) (y1 - y0)"
  have chain: "readPattern ext device parent =
      (Inl e, d27\<lparr>pos := pos d1 + unat (of_nat (alignOffsetCeil (unat n) 4) :: quint32)\<rparr>, parent)"
    if rows: "readRows ext ?R (before @ rowSize # rest) d25 [] = (Inl e, d27)" for e
  proof -
    have pd: "readPlaneData ext d17 ?R nextPos = (Inl e, d27)" for nextPos
      using plane(5-12) sizes rows
      by (simp add: readPlaneData_def SAFE_READ_EX_def Let_def)
    have pl: "readPlane ext d15 ?R dataPlanes i = (Inl e, d27\<lparr>pos := pos d17 + unat arrayPlaneLength\<rparr>)"
      using plane(1-4) pd
      by (simp add: readPlane_def Let_def SETUP_OFFSET_VERIFIER_def offsetVerifierExit_eq)
    have upt: "[0..<numPlanes] = [0..<i] @ i # [Suc i..<numPlanes]"
      using planes(1) by (metis le0 upt_add_eq_append upt_conv_Cons le_add_diff_inverse less_imp_le_nat add.left_neutral)
    have pls: "readPlanes ext d14 ?R [[], [], []] [0..<numPlanes] =
        (Inl e, d27\<lparr>pos := pos d17 + unat arrayPlaneLength\<rparr>)"
      unfolding upt by (simp add: readPlanes_append planes(2) pl)
    have np: "int numPlanes = 1 \<or> int numPlanes = 3"
      using mode(2) by simp
    have va: "readVirtualArray ext d9 (int numPlanes) =
        (Inl e, d27\<lparr>pos := pos d17 + unat arrayPlaneLength\<rparr>)"
      using array(3-7) np pls
      by (auto simp add: readVirtualArray_def SAFE_READ_EX_def Let_def)
    have val: "readVirtualArrayList ext d7 (int numPlanes) =
        (Inl e, d27\<lparr>pos := pos d9 + unat arrayLength\<rparr>)"
      using array(1,2) va
      by (simp add: readVirtualArrayList_def SAFE_READ_EX_def Let_def SETUP_OFFSET_VERIFIER_def
          offsetVerifierExit_eq)
    have m: "(if patternImageMode = MultiChannel ext \<or> patternImageMode = Grayscale ext then Inr 1
              else if patternImageMode = RGB ext then Inr 3
              else Inl (ASLParseException (Message ''Unsupported image mode''))) = Inr (int numPlanes)"
      using mode by auto
    have pp: "readPatternPayload ext d6 patternSize patternImageMode name parent =
        (Inl e, d27\<lparr>pos := pos d9 + unat arrayLength\<rparr>, parent)" for patternSize name
      unfolding readPatternPayload_def header(7) prod.case sum.case m Let_def val
      by simp
    show ?thesis
      using header(1-6) pp
      by (simp add: readPattern_def SAFE_READ_EX_def Let_def SETUP_OFFSET_VERIFIER_def
          offsetVerifierExit_eq)
  qed
  note r = readRows_row [OF before row, of rest]
  have l: "length compressedData = min (unat rowSize) (bytesAvailable d26)"
    and d: "d27 = d26\<lparr>pos := pos d26 + length compressedData\<rparr>"
    using device_readAll_length [OF row] by simp_all
  have p: "length compressedData = unat rowSize \<longrightarrow> pos d27 = pos d26 + unat rowSize"
    using d by simp
  have s: "length compressedData \<noteq> unat rowSize \<longleftrightarrow> bytesAvailable d26 < unat rowSize"
    using l by (simp add: min_def)
  show ?thesis
  proof (intro conjI impI)
    assume "length compressedData \<noteq> unat rowSize"
    then have "readRows ext (QRect_xywh x0 y0 (x1 - x0) (y1 - y0)) (before @ rowSize # rest) d25 [] =
        (Inl (ASLParseException (Message ''VAList: failed to read compressed data!'')), d27)"
      using r by simp
    then show "readPattern ext device parent =
          (Inl (ASLParseException (Message ''VAList: failed to read compressed data!'')),
           d27\<lparr>pos := pos d1 + unat (of_nat (alignOffsetCeil (unat n) 4) :: quint32)\<rparr>, parent)"
      by (rule chain)
  next
    assume "length compressedData = unat rowSize \<and>
        int (length (Compression_uncompress ext
               (sint (QRect_width (QRect_xywh x0 y0 (x1 - x0) (y1 - y0)))) compressedData))
          \<noteq> sint (QRect_width (QRect_xywh x0 y0 (x1 - x0) (y1 - y0)))"
    then have "readRows ext (QRect_xywh x0 y0 (x1 - x0) (y1 - y0)) (before @ rowSize # rest) d25 [] =
        (Inl (ASLParseException (Message ''VAList: failed to decompress data!'')), d27)"
      using r by simp
    then show "readPattern ext device parent =
          (Inl (ASLParseException (Message ''VAList: failed to decompress data!'')),
           d27\<lparr>pos := pos d1 + unat (of_nat (alignOffsetCeil (unat n) 4) :: quint32)\<rparr>, parent)"
      by (rule chain)
  next
    assume "length compressedData = unat rowSize"
    then show "pos d27 = pos d26 + unat rowSize" using p by simp
  next
    show "length compressedData \<noteq> unat rowSize \<longleftrightarrow> bytesAvailable d26 < unat rowSize" by (rule s)
  qed
qed

theorem rle_row_mismatch_fails_pattern_witness:
  "readPattern example_externals
     \<lparr>buffer = [0,0,0,88,0,0,0,1,0,0,0,1,0,2,0,2,0,0,0,1,0,65,1,117,0,0,0,3,0,0,0,60,0,0,0,0,0,0,0,0,0,0,0,2,0,0,0,2,0,0,0,24,0,0,0,1,0,0,0,32,0,0,0,8,0,0,0,0,0,0,0,0,0,0,0,2,0,0,0,2,0,8,1,0,2,0,3,5,6,7,8,9], pos = 0\<rparr>
     (createElement ''node'') =
     (Inl (ASLParseException (Message ''VAList: failed to decompress data!'')),
      \<lparr>buffer = [0,0,0,88,0,0,0,1,0,0,0,1,0,2,0,2,0,0,0,1,0,65,1,117,0,0,0,3,0,0,0,60,0,0,0,0,0,0,0,0,0,0,0,2,0,0,0,2,0,0,0,24,0,0,0,1,0,0,0,32,0,0,0,8,0,0,0,0,0,0,0,0,0,0,0,2,0,0,0,2,0,8,1,0,2,0,3,5,6,7,8,9], pos = 92\<rparr>,
      createElement ''node'')
   \<and> readPattern example_externals
     \<lparr>buffer = [0,0,0,88,0,0,0,1,0,0,0,1,0,2,0,2,0,0,0,1,0,65,1,117,0,0,0,3,0,0,0,60,0,0,0,0,0,0,0,0,0,0,0,2,0,0,0,2,0,0,0,24,0,0,0,1,0,0,0,32,0,0,0,8,0,0,0,0,0,0,0,0,0,0,0,2,0,0,0,2,0,8,1,0,2,0,3,5,6,7,8], pos = 0\<rparr>
     (createElement ''node'') =
     (Inl (ASLParseException (Message ''VAList: failed to read compressed data!'')),
      \<lparr>buffer = [0,0,0,88,0,0,0,1,0,0,0,1,0,2,0,2,0,0,0,1,0,65,1,117,0,0,0,3,0,0,0,60,0,0,0,0,0,0,0,0,0,0,0,2,0,0,0,2,0,0,0,24,0,0,0,1,0,0,0,32,0,0,0,8,0,0,0,0,0,0,0,0,0,0,0,2,0,0,0,2,0,8,1,0,2,0,3,5,6,7,8], pos = 92\<rparr>,
      createElement ''node'')"
proof -
  let ?b = "[0,0,0,88,0,0,0,1,0,0,0,1,0,2,0,2,0,0,0,1,0,65,1,117,0,0,0,3,0,0,0,60,0,0,0,0,0,0,0,0,0,0,0,2,0,0,0,2,0,0,0,24,0,0,0,1,0,0,0,32,0,0,0,8,0,0,0,0,0,0,0,0,0,0,0,2,0,0,0,2,0,8,1,0,2,0,3,5,6,7,8,9] :: QByteArray"
  let ?c = "[0,0,0,88,0,0,0,1,0,0,0,1,0,2,0,2,0,0,0,1,0,65,1,117,0,0,0,3,0,0,0,60,0,0,0,0,0,0,0,0,0,0,0,2,0,0,0,2,0,0,0,24,0,0,0,1,0,0,0,32,0,0,0,8,0,0,0,0,0,0,0,0,0,0,0,2,0,0,0,2,0,8,1,0,2,0,3,5,6,7,8] :: QByteArray"
  have n2: "nat (sint (QRect_height (QRect_xywh 0 0 (2 - 0) (2 - 0)))) = Suc (Suc 0)"
    by (simp add: QRect_height_def QRect_xywh_def)
  have a1: "psdread_quint32 \<lparr>buffer = ?b, pos = 0\<rparr> = (Some 88, \<lparr>buffer = ?b, pos = 4\<rparr>)"
    by (simp add: eval_defs)
  have a2: "psdread_quint32 \<lparr>buffer = ?b, pos = 4\<rparr> = (Some 1, \<lparr>buffer = ?b, pos = 8\<rparr>)"
    by (simp add: eval_defs)
  have a3: "psdread_quint32 \<lparr>buffer = ?b, pos = 8\<rparr> = (Some 1, \<lparr>buffer = ?b, pos = 12\<rparr>)"
    by (simp add: eval_defs)
  have a4: "psdread_quint16 \<lparr>buffer = ?b, pos = 12\<rparr> = (Some 2, \<lparr>buffer = ?b, pos = 14\<rparr>)"
    by (simp add: eval_defs)
  have a5: "psdread_quint16 \<lparr>buffer = ?b, pos = 14\<rparr> = (Some 2, \<lparr>buffer = ?b, pos = 16\<rparr>)"
    by (simp add: eval_defs)
  have a6: "psdread_unicodestring \<lparr>buffer = ?b, pos = 16\<rparr> = (Some (QStringLiteral ''A''), \<lparr>buffer = ?b, pos = 22\<rparr>)"
    by (simp add: eval_defs)
  have a7: "readPascalString \<lparr>buffer = ?b, pos = 22\<rparr> = (Inr (QStringLiteral ''u''), \<lparr>buffer = ?b, pos = 24\<rparr>)"
    by (simp add: eval_defs)
  have a8: "(1 :: quint32) = MultiChannel example_externals \<or> (1 :: quint32) = Grayscale example_externals \<or>
        (1 :: quint32) = RGB example_externals"
    by (simp add: eval_defs)
  have a9: "(1 :: nat) = (if (1 :: quint32) = MultiChannel example_externals \<or>
        (1 :: quint32) = Grayscale example_externals then 1 else 3)"
    by (simp add: eval_defs)
  have a10: "psdread_quint32 \<lparr>buffer = ?b, pos = 24\<rparr> = (Some 3, \<lparr>buffer = ?b, pos = 28\<rparr>)"
    by (simp add: eval_defs)
  have a11: "psdread_quint32 \<lparr>buffer = ?b, pos = 28\<rparr> = (Some 60, \<lparr>buffer = ?b, pos = 32\<rparr>)"
    by (simp add: eval_defs)
  have a12: "psdread_quint32 \<lparr>buffer = ?b, pos = 32\<rparr> = (Some 0, \<lparr>buffer = ?b, pos = 36\<rparr>)"
    by (simp add: eval_defs)
  have a13: "psdread_quint32 \<lparr>buffer = ?b, pos = 36\<rparr> = (Some 0, \<lparr>buffer = ?b, pos = 40\<rparr>)"
    by (simp add: eval_defs)
  have a14: "psdread_quint32 \<lparr>buffer = ?b, pos = 40\<rparr> = (Some 2, \<lparr>buffer = ?b, pos = 44\<rparr>)"
    by (simp add: eval_defs)
  have a15: "psdread_quint32 \<lparr>buffer = ?b, pos = 44\<rparr> = (Some 2, \<lparr>buffer = ?b, pos = 48\<rparr>)"
    by (simp add: eval_defs)
  have a16: "psdread_quint32 \<lparr>buffer = ?b, pos = 48\<rparr> = (Some 24, \<lparr>buffer = ?b, pos = 52\<rparr>)"
    by (simp add: eval_defs)
  have a17: "(0 :: nat) < 1"
    by (simp add: eval_defs)
  have a18: "readPlanes example_externals \<lparr>buffer = ?b, pos = 52\<rparr> (QRect_xywh 0 0 (2 - 0) (2 - 0)) [[], [], []] [0..<0] =
        (Inr [[], [], []], \<lparr>buffer = ?b, pos = 52\<rparr>)"
    by (simp add: eval_defs)
  have a19: "psdread_quint32 \<lparr>buffer = ?b, pos = 52\<rparr> = (Some 1, \<lparr>buffer = ?b, pos = 56\<rparr>)"
    by (simp add: eval_defs)
  have a20: "(1 :: quint32) \<noteq> 0"
    by (simp add: eval_defs)
  have a21: "psdread_quint32 \<lparr>buffer = ?b, pos = 56\<rparr> = (Some 32, \<lparr>buffer = ?b, pos = 60\<rparr>)"
    by (simp add: eval_defs)
  have a22: "(32 :: quint32) \<noteq> 0"
    by (simp add: eval_defs)
  have a23: "psdread_quint32 \<lparr>buffer = ?b, pos = 60\<rparr> = (Some 8, \<lparr>buffer = ?b, pos = 64\<rparr>)"
    by (simp add: eval_defs)
  have a24: "psdread_quint32 \<lparr>buffer = ?b, pos = 64\<rparr> = (Some 0, \<lparr>buffer = ?b, pos = 68\<rparr>)"
    by (simp add: eval_defs)
  have a25: "psdread_quint32 \<lparr>buffer = ?b, pos = 68\<rparr> = (Some 0, \<lparr>buffer = ?b, pos = 72\<rparr>)"
    by (simp add: eval_defs)
  have a26: "psdread_quint32 \<lparr>buffer = ?b, pos = 72\<rparr> = (Some 2, \<lparr>buffer = ?b, pos = 76\<rparr>)"
    by (simp add: eval_defs)
  have a27: "psdread_quint32 \<lparr>buffer = ?b, pos = 76\<rparr> = (Some 2, \<lparr>buffer = ?b, pos = 80\<rparr>)"
    by (simp add: eval_defs)
  have a28: "psdread_quint16 \<lparr>buffer = ?b, pos = 80\<rparr> = (Some 8, \<lparr>buffer = ?b, pos = 82\<rparr>)"
    by (simp add: eval_defs)
  have a29: "psdread_quint8 \<lparr>buffer = ?b, pos = 82\<rparr> = (Some (Compression_RLE example_externals), \<lparr>buffer = ?b, pos = 83\<rparr>)"
    by (simp add: eval_defs)
  have a30: "Compression_RLE example_externals \<noteq> Compression_Uncompressed example_externals"
    by (simp add: eval_defs)
  have a31: "readRowSizes (nat (sint (QRect_height (QRect_xywh 0 0 (2 - 0) (2 - 0))))) \<lparr>buffer = ?b, pos = 83\<rparr> [] =
        (Inr ([2] @ 3 # []), \<lparr>buffer = ?b, pos = 87\<rparr>)"
    unfolding n2 by (simp add: eval_defs)
  have a32: "readRows example_externals (QRect_xywh 0 0 (2 - 0) (2 - 0)) [2] \<lparr>buffer = ?b, pos = 87\<rparr> [] =
        (Inr [5, 6], \<lparr>buffer = ?b, pos = 89\<rparr>)"
    by (simp add: eval_defs)
  have a33: "device_readAll \<lparr>buffer = ?b, pos = 89\<rparr> (uint (3 :: quint16)) = ([7, 8, 9], \<lparr>buffer = ?b, pos = 92\<rparr>)"
    by (simp add: eval_defs)
  have b1: "psdread_quint32 \<lparr>buffer = ?c, pos = 0\<rparr> = (Some 88, \<lparr>buffer = ?c, pos = 4\<rparr>)"
    by (simp add: eval_defs)
  have b2: "psdread_quint32 \<lparr>buffer = ?c, pos = 4\<rparr> = (Some 1, \<lparr>buffer = ?c, pos = 8\<rparr>)"
    by (simp add: eval_defs)
  have b3: "psdread_quint32 \<lparr>buffer = ?c, pos = 8\<rparr> = (Some 1, \<lparr>buffer = ?c, pos = 12\<rparr>)"
    by (simp add: eval_defs)
  have b4: "psdread_quint16 \<lparr>buffer = ?c, pos = 12\<rparr> = (Some 2, \<lparr>buffer = ?c, pos = 14\<rparr>)"
    by (simp add: eval_defs)
  have b5: "psdread_quint16 \<lparr>buffer = ?c, pos = 14\<rparr> = (Some 2, \<lparr>buffer = ?c, pos = 16\<rparr>)"
    by (simp add: eval_defs)
  have b6: "psdread_unicodestring \<lparr>buffer = ?c, pos = 16\<rparr> = (Some (QStringLiteral ''A''), \<lparr>buffer = ?c, pos = 22\<rparr>)"
    by (simp add: eval_defs)
  have b7: "readPascalString \<lparr>buffer = ?c, pos = 22\<rparr> = (Inr (QStringLiteral ''u''), \<lparr>buffer = ?c, pos = 24\<rparr>)"
    by (simp add: eval_defs)
  have b8: "(1 :: quint32) = MultiChannel example_externals \<or> (1 :: quint32) = Grayscale example_externals \<or>
        (1 :: quint32) = RGB example_externals"
    by (simp add: eval_defs)
  have b9: "(1 :: nat) = (if (1 :: quint32) = MultiChannel example_externals \<or>
        (1 :: quint32) = Grayscale example_externals then 1 else 3)"
    by (simp add: eval_defs)
  have b10: "psdread_quint32 \<lparr>buffer = ?c, pos = 24\<rparr> = (Some 3, \<lparr>buffer = ?c, pos = 28\<rparr>)"
    by (simp add: eval_defs)
  have b11: "psdread_quint32 \<lparr>buffer = ?c, pos = 28\<rparr> = (Some 60, \<lparr>buffer = ?c, pos = 32\<rparr>)"
    by (simp add: eval_defs)
  have b12: "psdread_quint32 \<lparr>buffer = ?c, pos = 32\<rparr> = (Some 0, \<lparr>buffer = ?c, pos = 36\<rparr>)"
    by (simp add: eval_defs)
  have b13: "psdread_quint32 \<lparr>buffer = ?c, pos = 36\<rparr> = (Some 0, \<lparr>buffer = ?c, pos = 40\<rparr>)"
    by (simp add: eval_defs)
  have b14: "psdread_quint32 \<lparr>buffer = ?c, pos = 40\<rparr> = (Some 2, \<lparr>buffer = ?c, pos = 44\<rparr>)"
    by (simp add: eval_defs)
  have b15: "psdread_quint32 \<lparr>buffer = ?c, pos = 44\<rparr> = (Some 2, \<lparr>buffer = ?c, pos = 48\<rparr>)"
    by (simp add: eval_defs)
  have b16: "psdread_quint32 \<lparr>buffer = ?c, pos = 48\<rparr> = (Some 24, \<lparr>buffer = ?c, pos = 52\<rparr>)"
    by (simp add: eval_defs)
  have b17: "(0 :: nat) < 1"
    by (simp add: eval_defs)
  have b18: "readPlanes example_externals \<lparr>buffer = ?c, pos = 52\<rparr> (QRect_xywh 0 0 (2 - 0) (2 - 0)) [[], [], []] [0..<0] =
        (Inr [[], [], []], \<lparr>buffer = ?c, pos = 52\<rparr>)"
    by (simp add: eval_defs)
  have b19: "psdread_quint32 \<lparr>buffer = ?c, pos = 52\<rparr> = (Some 1, \<lparr>buffer = ?c, pos = 56\<rparr>)"
    by (simp add: eval_defs)
  have b20: "(1 :: quint32) \<noteq> 0"
    by (simp add: eval_defs)
  have b21: "psdread_quint32 \<lparr>buffer = ?c, pos = 56\<rparr> = (Some 32, \<lparr>buffer = ?c, pos = 60\<rparr>)"
    by (simp add: eval_defs)
  have b22: "(32 :: quint32) \<noteq> 0"
    by (simp add: eval_defs)
  have b23: "psdread_quint32 \<lparr>buffer = ?c, pos = 60\<rparr> = (Some 8, \<lparr>buffer = ?c, pos = 64\<rparr>)"
    by (simp add: eval_defs)
  have b24: "psdread_quint32 \<lparr>buffer = ?c, pos = 64\<rparr> = (Some 0, \<lparr>buffer = ?c, pos = 68\<rparr>)"
    by (simp add: eval_defs)
  have b25: "psdread_quint32 \<lparr>buffer = ?c, pos = 68\<rparr> = (Some 0, \<lparr>buffer = ?c, pos = 72\<rparr>)"
    by (simp add: eval_defs)
  have b26: "psdread_quint32 \<lparr>buffer = ?c, pos = 72\<rparr> = (Some 2, \<lparr>buffer = ?c, pos = 76\<rparr>)"
    by (simp add: eval_defs)
  have b27: "psdread_quint32 \<lparr>buffer = ?c, pos = 76\<rparr> = (Some 2, \<lparr>buffer = ?c, pos = 80\<rparr>)"
    by (simp add: eval_defs)
  have b28: "psdread_quint16 \<lparr>buffer = ?c, pos = 80\<rparr> = (Some 8, \<lparr>buffer = ?c, pos = 82\<rparr>)"
    by (simp add: eval_defs)
  have b29: "psdread_quint8 \<lparr>buffer = ?c, pos = 82\<rparr> = (Some (Compression_RLE example_externals), \<lparr>buffer = ?c, pos = 83\<rparr>)"
    by (simp add: eval_defs)
  have b30: "Compression_RLE example_externals \<noteq> Compression_Uncompressed example_externals"
    by (simp add: eval_defs)
  have b31: "readRowSizes (nat (sint (QRect_height (QRect_xywh 0 0 (2 - 0) (2 - 0))))) \<lparr>buffer = ?c, pos = 83\<rparr> [] =
        (Inr ([2] @ 3 # []), \<lparr>buffer = ?c, pos = 87\<rparr>)"
    unfolding n2 by (simp add: eval_defs)
  have b32: "readRows example_externals (QRect_xywh 0 0 (2 - 0) (2 - 0)) [2] \<lparr>buffer = ?c, pos = 87\<rparr> [] =
        (Inr [5, 6], \<lparr>buffer = ?c, pos = 89\<rparr>)"
    by (simp add: eval_defs)
  have b33: "device_readAll \<lparr>buffer = ?c, pos = 89\<rparr> (uint (3 :: quint16)) = ([7, 8], \<lparr>buffer = ?c, pos = 91\<rparr>)"
    by (simp add: eval_defs)
  have ca: "length ([7, 8, 9] :: QByteArray) = unat (3 :: quint16) \<and>
      int (length (Compression_uncompress example_externals (sint (QRect_width (QRect_xywh 0 0 (2 - 0) (2 - 0))))
        ([7, 8, 9] :: QByteArray))) \<noteq> sint (QRect_width (QRect_xywh 0 0 (2 - 0) (2 - 0)))"
    by (simp add: eval_defs)
  have cb: "length ([7, 8] :: QByteArray) \<noteq> unat (3 :: quint16)"
    by simp
  have va: "\<lparr>buffer = ?b, pos = 92\<rparr>\<lparr>pos := pos \<lparr>buffer = ?b, pos = 4\<rparr> +
        unat (of_nat (alignOffsetCeil (unat (88 :: quint32)) 4) :: quint32)\<rparr> = \<lparr>buffer = ?b, pos = 92\<rparr>"
    by (simp add: alignOffsetCeil_def)
  have vb: "\<lparr>buffer = ?c, pos = 91\<rparr>\<lparr>pos := pos \<lparr>buffer = ?c, pos = 4\<rparr> +
        unat (of_nat (alignOffsetCeil (unat (88 :: quint32)) 4) :: quint32)\<rparr> = \<lparr>buffer = ?c, pos = 92\<rparr>"
    by (simp add: alignOffsetCeil_def)
  show ?thesis
    using rle_row_mismatch_fails_pattern [where parent = "createElement ''node''", OF a1 a2 a3 a4 a5 a6 a7 a8 a9 a10 a11 a12 a13 a14 a15 a16 a17 a18 a19 a20 a21 a22 a23 a24 a25 a26 a27 a28 a29 a30 a31 a32 a33,
        THEN conjunct2, THEN conjunct1, rule_format, OF ca]
      rle_row_mismatch_fails_pattern [where parent = "createElement ''node''", OF b1 b2 b3 b4 b5 b6 b7 b8 b9 b10 b11 b12 b13 b14 b15 b16 b17 b18 b19 b20 b21 b22 b23 b24 b25 b26 b27 b28 b29 b30 b31 b32 b33,
        THEN conjunct1, rule_format, OF cb]
    by (simp only: va vb simp_thms)
qed

subsection \<open>The byte count of a pattern\<close>

lemma alignOffsetCeil_4:
  "alignOffsetCeil n 4 mod 4 = 0 \<and> n \<le> alignOffsetCeil n 4 \<and> alignOffsetCeil n 4 < n + 4"
  unfolding alignOffsetCeil_def by (simp add: algebra_simps) presburger

lemma readPattern_Inr_chunk:
  assumes "psdread_quint32 device = (Some n, d)"
    and "readPattern ext device parent = (Inr chunk, device', parent')"
  shows "chunk = 4 + unat (of_nat (alignOffsetCeil (unat n) 4) :: quint32)"
proof -
  have "\<exists>d0 mode name d1. readPatternPayload ext d0 (of_nat (alignOffsetCeil (unat n) 4)) mode name parent =
      (Inr chunk, d1, parent')"
    using assms(2) unfolding readPattern_def Let_def SAFE_READ_EX_Some [of psdread_quint32, OF assms(1)]
      prod.case sum.case
    by (auto split: prod.splits sum.splits if_splits; blast)
  then show ?thesis
    by (auto dest: readPatternPayload_chunk)
qed

text \<open>
  C8, as amended.  For a pattern record that \<open>readPattern\<close> decodes without an error
  and whose declared length \<open>n\<close> is at most \<open>2^32 - 4\<close>, the returned byte count is
  4 plus \<open>n\<close> rounded up to the next multiple of 4, whatever the body of the pattern
  has consumed.
\<close>

theorem readPattern_byte_count:
  assumes "psdread_quint32 device = (Some n, d)"
    and "unat n \<le> 4294967292"
    and "readPattern ext device parent = (Inr chunk, device', parent')"
  shows "chunk = 4 + alignOffsetCeil (unat n) 4 \<and>
    alignOffsetCeil (unat n) 4 mod 4 = 0 \<and> unat n \<le> alignOffsetCeil (unat n) 4 \<and>
    alignOffsetCeil (unat n) 4 < unat n + 4"
proof -
  have "alignOffsetCeil (unat n) 4 mod 4 = 0" "alignOffsetCeil (unat n) 4 < unat n + 4"
    using alignOffsetCeil_4 [of "unat n"] by simp_all
  then have "alignOffsetCeil (unat n) 4 \<le> 4294967292"
    using assms(2) by presburger
  then have "unat (of_nat (alignOffsetCeil (unat n) 4) :: quint32) = alignOffsetCeil (unat n) 4"
    by (simp add: unat_of_nat)
  then show ?thesis
    using readPattern_Inr_chunk [OF assms(1,3)] alignOffsetCeil_4 [of "unat n"] by simp
qed

theorem readPattern_byte_count_witness:
  "fst (readPattern example_externals \<lparr>buffer = [0,0,0,78] @ example_pattern, pos = 0\<rparr>
          (createElement ''node'')) = Inr 84"
proof -
  let ?b = "[0,0,0,78] @ example_pattern"
  let ?pattern = "QDomElement ''node''
          [(''classId'', QStringLiteral ''KisPattern''),
           (''type'', QStringLiteral ''Descriptor''), (''name'', [])]
          [QDomElement ''node''
            [(''key'', QStringLiteral ''Nm  ''), (''type'', QStringLiteral ''Text''),
             (''value'', QStringLiteral ''A'')] [],
           QDomElement ''node''
            [(''key'', QStringLiteral ''Idnt''), (''type'', QStringLiteral ''Text''),
             (''value'', QStringLiteral ''u'')] [],
           QDomElement ''node''
            [(''type'', QStringLiteral ''KisPatternData''), (''key'', QStringLiteral ''Data'')]
            [QDomCDATASection [0, 0, 9, 255]]]"
  have h1: "psdread_quint32 \<lparr>buffer = ?b, pos = 0\<rparr> = (Some 78, \<lparr>buffer = ?b, pos = 4\<rparr>)"
    by (simp add: reader_defs)
  have h2: "unat (78 :: quint32) \<le> 4294967292"
    by simp
  have h3: "readPattern example_externals \<lparr>buffer = ?b, pos = 0\<rparr> (createElement ''node'') =
      (Inr 84, \<lparr>buffer = ?b, pos = 84\<rparr>, QDomElement ''node'' [] [?pattern])"
    by (simp add: eval_defs)
  show ?thesis
    using readPattern_byte_count [OF h1 h2 h3] unfolding h3 by simp
qed

text \<open>
  The claim as stated fails at the declared length \<open>0xFFFFFFFF\<close>: rounded up it is
  \<open>2^32\<close>, the \<open>quint32\<close> variable keeps 0, and the pattern, which decodes, returns 4.
\<close>

theorem readPattern_byte_count_counterexample:
  "psdread_quint32 \<lparr>buffer = [0xFF,0xFF,0xFF,0xFF] @ example_pattern, pos = 0\<rparr> =
     (Some 4294967295, \<lparr>buffer = [0xFF,0xFF,0xFF,0xFF] @ example_pattern, pos = 4\<rparr>)
   \<and> fst (readPattern example_externals \<lparr>buffer = [0xFF,0xFF,0xFF,0xFF] @ example_pattern, pos = 0\<rparr>
          (createElement ''node'')) = Inr 4
   \<and> 4 + alignOffsetCeil 4294967295 4 = 4294967300"
  by (simp add: eval_defs)

subsection \<open>The name of a pattern\<close>

lemma psdread_None_exhausted:
  "psdread w device = (None, d) \<Longrightarrow> bytesAvailable d = 0"
  by (auto simp: psdread_def device_read_def bytesAvailable_def Let_def split: if_splits)

lemma psdread_units_None_exhausted:
  "psdread_units n device s = (None, d) \<Longrightarrow> bytesAvailable d = 0"
proof (induction n arbitrary: device s)
  case 0
  then show ?case by simp
next
  case (Suc n)
  show ?case
  proof (cases "psdread_quint16 device")
    case (Pair r d')
    show ?thesis
    proof (cases r)
      case None
      then have "d = d'" using Suc.prems Pair by simp
      then show ?thesis
        using Pair None psdread_None_exhausted [of 2 device d']
        by (simp add: psdread_quint16_def)
    next
      case (Some ch)
      then have "psdread_units n d' (s @ [ch]) = (None, d)"
        using Suc.prems Pair by simp
      then show ?thesis by (rule Suc.IH)
    qed
  qed
qed

lemma psdread_unicodestring_None_exhausted:
  assumes "psdread_unicodestring device = (None, d)"
  shows "bytesAvailable d = 0"
proof (cases "psdread_quint32 device")
  case (Pair r d')
  show ?thesis
  proof (cases r)
    case None
    then have "d = d'" using assms Pair by (simp add: psdread_unicodestring_def)
    then show ?thesis
      using Pair None psdread_None_exhausted [of 4 device d']
      by (simp add: psdread_quint32_def)
  next
    case (Some n)
    then have "psdread_units (unat n) d' [] = (None, d)"
      using assms Pair by (simp add: psdread_unicodestring_def)
    then show ?thesis by (rule psdread_units_None_exhausted)
  qed
qed

lemma readPascalString_exhausted:
  "bytesAvailable device = 0 \<Longrightarrow>
   readPascalString device = (Inl (ASLParseException (FailedToRead ''length'')), device)"
  by (simp add: readPascalString_def SAFE_READ_EX_def psdread_quint8_def psdread_def
      device_read_def bytesAvailable_def Let_def)




end
